(* ===== verification/Prelude.thy ===== *)
theory Prelude
  imports Complex_Main
begin

text \<open>
  Shared vocabulary of the development: points of the image plane (the \<open>{x, y}\<close>
  objects of \<open>src/script.js\<close>), the rule collections the component theories fill,
  and the generic lemmas on reals, square roots, \<open>Arg\<close> and folds that the geometry
  proofs of every component use.
\<close>

named_theorems geom_simps "rewrite rules for points and plane geometry"
named_theorems js_simps "evaluation rules of the JavaScript number model"
named_theorems ctx_simps "evaluation rules of the canvas context model"

section \<open>Points\<close>

text \<open>A JavaScript object \<open>{x: ..., y: ...}\<close> with numeric fields, y pointing down.\<close>

record point =
  px :: real
  py :: real

abbreviation Pt :: "real \<Rightarrow> real \<Rightarrow> point" where
  "Pt a b \<equiv> \<lparr>px = a, py = b\<rparr>"

section \<open>Lists\<close>

text \<open>The list without its \<open>j\<close>-th element (the list itself when \<open>j\<close> is out of
  range): a finished asynchronous job leaving the host's job list.\<close>

definition remove_at :: "nat \<Rightarrow> 'a list \<Rightarrow> 'a list" where
  "remove_at j xs = take j xs @ drop (Suc j) xs"

lemma point_eq_iff [geom_simps]: "((p::point) = q) = (px p = px q \<and> py p = py q)"
  by (cases p; cases q) auto

section \<open>Square roots and angles\<close>

text \<open>
  \<open>Math.atan2(dy, dx)\<close> is the argument of the vector \<open>(dx, dy)\<close> in \<open>(-pi, pi]\<close>,
  with \<open>atan2(0, 0) = 0\<close>: exactly \<open>Arg (Complex dx dy)\<close>. The lemmas below give
  its cosine and sine in terms of the vector, which is all the code uses of the angle.
\<close>

lemma cmod_Complex_sqrt [geom_simps]: "cmod (Complex a b) = sqrt (a * a + b * b)"
  by (simp add: complex_norm power2_eq_square)

lemma Complex_eq_0_iff [geom_simps]: "(Complex a b = 0) = (a = 0 \<and> b = 0)"
  by (simp add: complex_eq_iff)

lemma sum_squares_ge0 [simp]: "0 \<le> (a::real) * a + b * b"
  by (simp add: add_nonneg_nonneg)

lemma sqrt_sum_squares_eq_0_iff [simp]:
  "(sqrt ((a::real) * a + b * b) = 0) = (a = 0 \<and> b = 0)"
proof -
  have "(a * a + b * b = 0) = (a = 0 \<and> b = 0)"
    by (metis add_nonneg_eq_0_iff mult_eq_0_iff zero_le_square)
  then show ?thesis by simp
qed

lemma sqrt_sum_squares_pos_iff:
  "(0 < sqrt ((a::real) * a + b * b)) = (a \<noteq> 0 \<or> b \<noteq> 0)"
proof
  assume "0 < sqrt (a * a + b * b)"
  then show "a \<noteq> 0 \<or> b \<noteq> 0" using sqrt_sum_squares_eq_0_iff [of a b] by auto
next
  assume "a \<noteq> 0 \<or> b \<noteq> 0"
  then have "sqrt (a * a + b * b) \<noteq> 0" using sqrt_sum_squares_eq_0_iff [of a b] by blast
  moreover have "0 \<le> sqrt (a * a + b * b)" by simp
  ultimately show "0 < sqrt (a * a + b * b)" by linarith
qed

lemma sqrt_sum_squares_sq [simp]:
  "sqrt ((a::real) * a + b * b) * sqrt (a * a + b * b) = a * a + b * b"
  by simp

lemma cos_minus_Arg:
  assumes "a \<noteq> 0 \<or> b \<noteq> 0"
  shows "cos (- Arg (Complex a b)) = a / sqrt (a * a + b * b)"
  using assms by (subst cos_minus, subst cos_Arg) (auto simp: geom_simps)

lemma sin_minus_Arg:
  assumes "a \<noteq> 0 \<or> b \<noteq> 0"
  shows "sin (- Arg (Complex a b)) = - (b / sqrt (a * a + b * b))"
  using assms by (subst sin_minus, subst sin_Arg) (auto simp: geom_simps)

lemma Arg_Complex_0_0 [simp]: "Arg (Complex 0 0) = 0"
  using Arg_zero by (simp add: zero_complex.code)

lemma Arg_Complex_pos_real:
  assumes "0 < a"
  shows "Arg (Complex a 0) = 0"
  using assms by (intro cis_Arg_unique) (auto simp: sgn_eq complex_eq_iff geom_simps)

text \<open>A rotation keeps the length of a vector: the fact that makes a non-zero corner
  offset rotate to a non-zero offset.\<close>

lemma rotation_nonzero:
  fixes c s x y :: real
  assumes "c * c + s * s = 1" and "x \<noteq> 0 \<or> y \<noteq> 0"
  shows "x * c - y * s \<noteq> 0 \<or> x * s + y * c \<noteq> 0"
proof -
  have "(x * c - y * s) * (x * c - y * s) + (x * s + y * c) * (x * s + y * c)
        = (x * x + y * y) * (c * c + s * s)"
    by (simp add: algebra_simps)
  also have "\<dots> = x * x + y * y" using assms(1) by simp
  also have "\<dots> \<noteq> 0"
    using assms(2) sqrt_sum_squares_eq_0_iff [of x y] by auto
  finally show ?thesis by auto
qed

lemma cos_sin_sq_sum [simp]: "cos t * cos t + sin t * sin (t::real) = 1"
  using sin_cos_squared_add [of t] by (simp add: power2_eq_square add.commute)

section \<open>Folds\<close>

text \<open>A property kept by every step of a left fold holds of its result: the shape of
  the invariant proofs of the minimum folds of the auto-fit.\<close>

lemma foldl_invariant:
  assumes "P a" and "\<And>acc x. P acc \<Longrightarrow> x \<in> set xs \<Longrightarrow> P (f acc x)"
  shows "P (foldl f a xs)"
  using assms by (induction xs arbitrary: a) auto

lemma remove_at_0_single [simp]: "remove_at 0 [x] = []"
  by (simp add: remove_at_def)

lemma set_remove_at: "set (remove_at j xs) \<subseteq> set xs"
  by (auto simp: remove_at_def dest: in_set_takeD in_set_dropD)

end
