(* ===== verification/Js_Number.thy ===== *)
theory Js_Number
  imports Prelude
begin

text \<open>
  JavaScript numbers where the code produces values outside the reals: the
  \<open>Infinity\<close> that \<open>autoFitZoom\<close> starts its minimum from, the quotient
  \<open>desiredEyesDist / currentEyesDist\<close> of \<open>renderFrame\<close> when the two eye centroids
  coincide, \<open>x % 0\<close> in the playback loop. A finite number is a real (IEEE rounding is
  not modelled, see the root theory); \<open>PosInf\<close>, \<open>NegInf\<close> and \<open>NaN\<close> are the three
  special values. Signed zero is not distinguished. The operations follow ECMA-262
  (Number::multiply, Number::divide, Number::remainder, Math.min, Math.max, Math.floor,
  Math.round, the relational comparison and integer-indexed property access).
\<close>

datatype jsnum = Num real | PosInf | NegInf | NaN

definition js_inf_sign :: "real \<Rightarrow> jsnum" where
  "js_inf_sign a = (if 0 < a then PosInf else if a < 0 then NegInf else NaN)"

fun js_neg :: "jsnum \<Rightarrow> jsnum" where
  "js_neg (Num a) = Num (- a)"
| "js_neg PosInf = NegInf"
| "js_neg NegInf = PosInf"
| "js_neg NaN = NaN"

fun js_add :: "jsnum \<Rightarrow> jsnum \<Rightarrow> jsnum" where
  "js_add (Num a) (Num b) = Num (a + b)"
| "js_add (Num a) PosInf = PosInf"
| "js_add (Num a) NegInf = NegInf"
| "js_add PosInf (Num b) = PosInf"
| "js_add NegInf (Num b) = NegInf"
| "js_add PosInf PosInf = PosInf"
| "js_add NegInf NegInf = NegInf"
| "js_add PosInf NegInf = NaN"
| "js_add NegInf PosInf = NaN"
| "js_add (Num a) NaN = NaN"
| "js_add PosInf NaN = NaN"
| "js_add NegInf NaN = NaN"
| "js_add NaN _ = NaN"

fun js_mul :: "jsnum \<Rightarrow> jsnum \<Rightarrow> jsnum" where
  "js_mul (Num a) (Num b) = Num (a * b)"
| "js_mul (Num a) PosInf = js_inf_sign a"
| "js_mul (Num a) NegInf = js_neg (js_inf_sign a)"
| "js_mul PosInf (Num b) = js_inf_sign b"
| "js_mul NegInf (Num b) = js_neg (js_inf_sign b)"
| "js_mul PosInf PosInf = PosInf"
| "js_mul PosInf NegInf = NegInf"
| "js_mul NegInf PosInf = NegInf"
| "js_mul NegInf NegInf = PosInf"
| "js_mul _ _ = NaN"

text \<open>Division by (positive) zero gives an infinity of the dividend's sign, and \<open>0/0\<close>
  is \<open>NaN\<close>; a finite number over an infinity is zero.\<close>

fun js_div :: "jsnum \<Rightarrow> jsnum \<Rightarrow> jsnum" where
  "js_div (Num a) (Num b) = (if b = 0 then js_inf_sign a else Num (a / b))"
| "js_div (Num a) PosInf = Num 0"
| "js_div (Num a) NegInf = Num 0"
| "js_div PosInf (Num b) = (if b < 0 then NegInf else PosInf)"
| "js_div NegInf (Num b) = (if b < 0 then PosInf else NegInf)"
| "js_div (Num a) NaN = NaN"
| "js_div PosInf _ = NaN"
| "js_div NegInf _ = NaN"
| "js_div NaN _ = NaN"

text \<open>\<open>%\<close> truncates the quotient toward zero, so the result has the dividend's sign.\<close>

definition js_trunc :: "real \<Rightarrow> int" where
  "js_trunc q = (if 0 \<le> q then \<lfloor>q\<rfloor> else \<lceil>q\<rceil>)"

fun js_mod :: "jsnum \<Rightarrow> jsnum \<Rightarrow> jsnum" where
  "js_mod (Num a) (Num b) =
     (if b = 0 then NaN else Num (a - b * of_int (js_trunc (a / b))))"
| "js_mod (Num a) PosInf = Num a"
| "js_mod (Num a) NegInf = Num a"
| "js_mod _ _ = NaN"

text \<open>The relational comparison \<open>a < b\<close>: false whenever \<open>NaN\<close> takes part.\<close>

fun js_less :: "jsnum \<Rightarrow> jsnum \<Rightarrow> bool" where
  "js_less (Num a) (Num b) = (a < b)"
| "js_less (Num a) PosInf = True"
| "js_less NegInf (Num b) = True"
| "js_less NegInf PosInf = True"
| "js_less _ _ = False"

text \<open>\<open>Math.min(a, b)\<close> and \<open>Math.max(a, b)\<close>: \<open>NaN\<close> if either argument is.\<close>

definition js_min :: "jsnum \<Rightarrow> jsnum \<Rightarrow> jsnum" where
  "js_min a b = (if a = NaN \<or> b = NaN then NaN else if js_less b a then b else a)"

definition js_max :: "jsnum \<Rightarrow> jsnum \<Rightarrow> jsnum" where
  "js_max a b = (if a = NaN \<or> b = NaN then NaN else if js_less a b then b else a)"

fun js_floor :: "jsnum \<Rightarrow> jsnum" where
  "js_floor (Num a) = Num (of_int \<lfloor>a\<rfloor>)"
| "js_floor v = v"

text \<open>\<open>Math.round\<close>: the nearest integer, halves rounded up.\<close>

fun js_round :: "jsnum \<Rightarrow> jsnum" where
  "js_round (Num a) = Num (of_int \<lfloor>a + 1 / 2\<rfloor>)"
| "js_round v = v"

text \<open>
  \<open>xs[i]\<close> on an array with a number \<open>i\<close>: the element when \<open>i\<close> is an integer in
  range, \<open>undefined\<close> (here \<open>None\<close>) for any other number, \<open>NaN\<close> and the
  infinities included.
\<close>

fun js_index :: "'a list \<Rightarrow> jsnum \<Rightarrow> 'a option" where
  "js_index xs (Num r) =
     (if 0 \<le> r \<and> r = of_int \<lfloor>r\<rfloor> \<and> nat \<lfloor>r\<rfloor> < length xs
      then Some (xs ! nat \<lfloor>r\<rfloor>) else None)"
| "js_index xs _ = None"

text \<open>A number that is a valid index of an array of length \<open>n\<close>.\<close>

definition js_nat :: "nat \<Rightarrow> jsnum" where
  "js_nat n = Num (of_nat n)"

text \<open>\<open>s \<le> v\<close> for a finite \<open>s\<close> and a number \<open>v\<close> (false for \<open>NaN\<close>), and how it
  meets \<open>Math.min\<close>: the facts every minimum fold of the development rests on.\<close>

definition js_le_num :: "real \<Rightarrow> jsnum \<Rightarrow> bool" where
  "js_le_num s v = (case v of Num m \<Rightarrow> s \<le> m | PosInf \<Rightarrow> True | _ \<Rightarrow> False)"

section \<open>Evaluation rules\<close>

lemma js_min_Num [simp, js_simps]: "js_min (Num a) (Num b) = Num (min a b)"
  by (simp add: js_min_def min_def)

lemma js_max_Num [simp, js_simps]: "js_max (Num a) (Num b) = Num (max a b)"
  by (simp add: js_max_def max_def)

lemma js_min_PosInf_left [simp, js_simps]: "js_min PosInf (Num b) = Num b"
  by (simp add: js_min_def)

lemma js_min_PosInf_right [simp, js_simps]: "js_min (Num a) PosInf = Num a"
  by (simp add: js_min_def)

lemma js_min_NaN [simp, js_simps]: "js_min NaN b = NaN" "js_min a NaN = NaN"
  by (simp_all add: js_min_def)

lemma js_max_NaN [simp, js_simps]: "js_max NaN b = NaN" "js_max a NaN = NaN"
  by (simp_all add: js_max_def)

lemma js_div_Num_nonzero [simp, js_simps]:
  "b \<noteq> 0 \<Longrightarrow> js_div (Num a) (Num b) = Num (a / b)"
  by simp

lemma js_inf_sign_simps [simp, js_simps]:
  "0 < a \<Longrightarrow> js_inf_sign a = PosInf"
  "a < 0 \<Longrightarrow> js_inf_sign a = NegInf"
  "js_inf_sign 0 = NaN"
  by (simp_all add: js_inf_sign_def)

lemma js_index_nat [simp, js_simps]:
  "js_index xs (js_nat n) = (if n < length xs then Some (xs ! n) else None)"
  by (simp add: js_nat_def)

lemma js_index_Some:
  assumes "js_index xs i = Some v"
  shows "\<exists>n. i = js_nat n \<and> n < length xs \<and> v = xs ! n"
proof (cases i)
  case (Num r)
  with assms have r: "0 \<le> r" "r = of_int \<lfloor>r\<rfloor>" "nat \<lfloor>r\<rfloor> < length xs"
      and v: "v = xs ! nat \<lfloor>r\<rfloor>"
    by (auto split: if_splits)
  from r(1,2) have "r = of_nat (nat \<lfloor>r\<rfloor>)"
    by (metis of_int_0_le_iff of_nat_nat)
  with Num r(3) v show ?thesis by (auto simp: js_nat_def)
qed (use assms in auto)

lemma js_le_num_simps [simp, js_simps]:
  "js_le_num s (Num m) = (s \<le> m)"
  "js_le_num s PosInf"
  "\<not> js_le_num s NegInf"
  "\<not> js_le_num s NaN"
  by (simp_all add: js_le_num_def)

lemma js_le_num_min_Num [simp]:
  "js_le_num s (js_min v (Num b)) = (js_le_num s v \<and> s \<le> b)"
  by (cases v) (auto simp: js_min_def)

lemma js_le_num_min:
  "js_le_num s (js_min v w) = (js_le_num s v \<and> js_le_num s w)"
  by (cases v; cases w) (auto simp: js_min_def)

text \<open>\<open>a % n\<close> on natural numbers is the remainder for a positive \<open>n\<close>; hence
  \<open>(c + 1) % n\<close> steps through \<open>0 .. n - 1\<close>, and is \<open>NaN\<close> for an empty array.\<close>

lemma js_mod_nat:
  assumes "0 < n"
  shows "js_mod (Num (real a)) (Num (real n)) = Num (real (a mod n))"
proof -
  have q: "js_trunc (real a / real n) = int (a div n)"
    unfolding js_trunc_def using floor_divide_of_nat_eq [of a n] by simp
  have "real (a div n * n + a mod n) = real a" by (simp only: div_mult_mod_eq)
  then have "real a - real n * real (a div n) = real (a mod n)"
    by (simp only: of_nat_add of_nat_mult) (simp add: algebra_simps)
  then show ?thesis using assms q by simp
qed

lemma js_mod_succ_nat:
  "js_mod (js_add (js_nat c) (Num 1)) (js_nat n) =
     (if n = 0 then NaN else js_nat (Suc c mod n))"
proof (cases "n = 0")
  case True
  then show ?thesis by (simp add: js_nat_def)
next
  case False
  have a: "js_add (Num (real c)) (Num 1) = Num (real (Suc c))" by simp
  have b: "js_mod (Num (real (Suc c))) (Num (real n)) = Num (real (Suc c mod n))"
    using False by (intro js_mod_nat) simp
  show ?thesis by (simp only: js_nat_def a b False if_False)
qed

end
