(* ===== verification/Canvas.thy ===== *)
theory Canvas
  imports Js_Number
begin

text \<open>
  The host's 2D canvas context as the code uses it (HTML Living Standard, section
  "The 2D rendering context"): a current transformation matrix, a fill style, the
  drawing-state stack of \<open>save()\<close>/\<open>restore()\<close>, and the list of drawing operations
  issued so far, each recorded with the matrix in force when it was issued. Transform
  calls post-multiply the current matrix; a call with an infinite or \<open>NaN\<close> argument
  is ignored, as the standard says. This is the host side of the program, modelled from
  the standard and not from \<open>src/\<close>.
\<close>

section \<open>Affine matrices\<close>

text \<open>A \<open>DOMMatrix\<close> \<open>[a c e; b d f; 0 0 1]\<close>.\<close>

record affine =
  ma :: real
  mb :: real
  mc :: real
  md :: real
  me :: real
  mf :: real

definition affine_id :: affine where
  "affine_id = \<lparr>ma = 1, mb = 0, mc = 0, md = 1, me = 0, mf = 0\<rparr>"

definition affine_mult :: "affine \<Rightarrow> affine \<Rightarrow> affine" where
  "affine_mult m n =
     \<lparr>ma = ma m * ma n + mc m * mb n, mb = mb m * ma n + md m * mb n,
      mc = ma m * mc n + mc m * md n, md = mb m * mc n + md m * md n,
      me = ma m * me n + mc m * mf n + me m, mf = mb m * me n + md m * mf n + mf m\<rparr>"

definition apply_affine :: "affine \<Rightarrow> point \<Rightarrow> point" where
  "apply_affine m p =
     Pt (ma m * px p + mc m * py p + me m) (mb m * px p + md m * py p + mf m)"

definition translation :: "real \<Rightarrow> real \<Rightarrow> affine" where
  "translation tx ty = \<lparr>ma = 1, mb = 0, mc = 0, md = 1, me = tx, mf = ty\<rparr>"

definition scaling :: "real \<Rightarrow> real \<Rightarrow> affine" where
  "scaling sx sy = \<lparr>ma = sx, mb = 0, mc = 0, md = sy, me = 0, mf = 0\<rparr>"

definition rotation :: "real \<Rightarrow> affine" where
  "rotation t = \<lparr>ma = cos t, mb = sin t, mc = - sin t, md = cos t, me = 0, mf = 0\<rparr>"

section \<open>The context\<close>

text \<open>A decoded image (an \<open>HTMLImageElement\<close>): its identity and its size in pixels.\<close>

record image =
  img_id :: nat
  img_width :: nat
  img_height :: nat

datatype draw_op =
    FillRect affine string real real real real
  | DrawImage affine image real real real real

record ctx =
  ctm :: affine
  fill_style :: string
  saved :: "(affine \<times> string) list"
  display :: "draw_op list"

definition ctx_init :: ctx where
  "ctx_init = \<lparr>ctm = affine_id, fill_style = ''#000'', saved = [], display = []\<rparr>"

definition ctx_translate :: "real \<Rightarrow> real \<Rightarrow> ctx \<Rightarrow> ctx" where
  "ctx_translate tx ty c = c\<lparr>ctm := affine_mult (ctm c) (translation tx ty)\<rparr>"

definition ctx_scale :: "jsnum \<Rightarrow> jsnum \<Rightarrow> ctx \<Rightarrow> ctx" where
  "ctx_scale sx sy c =
     (case (sx, sy) of
        (Num x, Num y) \<Rightarrow> c\<lparr>ctm := affine_mult (ctm c) (scaling x y)\<rparr>
      | _ \<Rightarrow> c)"

definition ctx_rotate :: "real \<Rightarrow> ctx \<Rightarrow> ctx" where
  "ctx_rotate t c = c\<lparr>ctm := affine_mult (ctm c) (rotation t)\<rparr>"

definition ctx_save :: "ctx \<Rightarrow> ctx" where
  "ctx_save c = c\<lparr>saved := (ctm c, fill_style c) # saved c\<rparr>"

text \<open>\<open>restore()\<close> with an empty stack does nothing.\<close>

definition ctx_restore :: "ctx \<Rightarrow> ctx" where
  "ctx_restore c =
     (case saved c of
        [] \<Rightarrow> c
      | (m, f) # rest \<Rightarrow> c\<lparr>ctm := m, fill_style := f, saved := rest\<rparr>)"

definition ctx_set_fill :: "string \<Rightarrow> ctx \<Rightarrow> ctx" where
  "ctx_set_fill f c = c\<lparr>fill_style := f\<rparr>"

definition ctx_fill_rect :: "real \<Rightarrow> real \<Rightarrow> real \<Rightarrow> real \<Rightarrow> ctx \<Rightarrow> ctx" where
  "ctx_fill_rect x y w h c =
     c\<lparr>display := display c @ [FillRect (ctm c) (fill_style c) x y w h]\<rparr>"

definition ctx_draw_image :: "image \<Rightarrow> real \<Rightarrow> real \<Rightarrow> real \<Rightarrow> real \<Rightarrow> ctx \<Rightarrow> ctx" where
  "ctx_draw_image img x y w h c =
     c\<lparr>display := display c @ [DrawImage (ctm c) img x y w h]\<rparr>"

text \<open>A context in its reset state: identity matrix and nothing saved. Every frame the
  program draws starts from such a context (see \<open>Render\<close>).\<close>

definition ctx_clean :: "ctx \<Rightarrow> bool" where
  "ctx_clean c \<longleftrightarrow> ctm c = affine_id \<and> saved c = []"

text \<open>Setting \<open>canvas.width\<close> or \<open>canvas.height\<close> resets the context to its default
  state: identity matrix, empty stack, fill style black. The model keeps the record of
  the operations issued so far.\<close>

definition ctx_reset :: "ctx \<Rightarrow> ctx" where
  "ctx_reset c = c\<lparr>ctm := affine_id, fill_style := ''#000'', saved := []\<rparr>"

section \<open>Evaluation rules\<close>

lemma apply_affine_mult [simp]:
  "apply_affine (affine_mult m n) p = apply_affine m (apply_affine n p)"
  by (simp add: apply_affine_def affine_mult_def algebra_simps)

lemma affine_mult_id_left [simp]: "affine_mult affine_id m = m"
  by (simp add: affine_mult_def affine_id_def)

lemma apply_affine_id [simp]: "apply_affine affine_id p = p"
  by (simp add: apply_affine_def affine_id_def)

lemma apply_translation [simp, ctx_simps]:
  "apply_affine (translation tx ty) p = Pt (px p + tx) (py p + ty)"
  by (simp add: apply_affine_def translation_def)

lemma apply_scaling [simp, ctx_simps]:
  "apply_affine (scaling sx sy) p = Pt (sx * px p) (sy * py p)"
  by (simp add: apply_affine_def scaling_def)

lemma apply_rotation [simp, ctx_simps]:
  "apply_affine (rotation t) p =
     Pt (px p * cos t - py p * sin t) (px p * sin t + py p * cos t)"
  by (simp add: apply_affine_def rotation_def algebra_simps)

lemma rotation_0 [simp]: "rotation 0 = affine_id"
  by (simp add: rotation_def affine_id_def)

lemmas ctx_ops_defs [ctx_simps] =
  ctx_translate_def ctx_scale_def ctx_rotate_def ctx_save_def ctx_restore_def
  ctx_set_fill_def ctx_fill_rect_def ctx_draw_image_def

lemma ctx_clean_init: "ctx_clean ctx_init"
  by (simp add: ctx_clean_def ctx_init_def)

lemma ctx_reset_clean [simp]: "ctx_clean (ctx_reset c)"
  by (simp add: ctx_clean_def ctx_reset_def)

lemma ctx_reset_display [simp]: "display (ctx_reset c) = display c"
  by (simp add: ctx_reset_def)

end
