(* ===== verification/Js_String.thy ===== *)
theory Js_String
  imports Js_Number
begin

text \<open>
  The two conversions between numbers and strings the program goes through: the DOM
  stores \<open>elements.zoomRange.value = Math.round(zoom * 100)\<close> (line 428) as a string,
  by Number::toString, and the slider's \<open>input\<close> handlers read it back with
  \<open>parseInt(e.target.value)\<close> (lines 105 and 110). Number::toString is modelled for
  integers, the only numbers the code writes to a slider, in the plain decimal form
  ECMA-262 gives integers of magnitude below \<open>10^21\<close>; \<open>parseInt\<close> follows ECMA-262
  (section "parseInt (string, radix)") with the radix left undefined: leading white
  space, a sign, an optional \<open>0x\<close> prefix that switches to radix 16, then the longest
  prefix of digits, \<open>NaN\<close> when there is none. Strings are byte strings; the white space
  recognised is that of ASCII.
\<close>

section \<open>Number to string\<close>

definition decimal_digits :: string where
  "decimal_digits = ''0123456789''"

definition digit_char :: "nat \<Rightarrow> char" where
  "digit_char d = decimal_digits ! d"

function nat_digits :: "nat \<Rightarrow> string" where
  "nat_digits n = (if n < 10 then [digit_char n] else nat_digits (n div 10) @ [digit_char (n mod 10)])"
  by auto
termination by (relation "measure id") auto

text \<open>Number::toString of an integer-valued number.\<close>

definition int_to_string :: "int \<Rightarrow> string" where
  "int_to_string k =
     (if k < 0 then CHR ''-'' # nat_digits (nat (- k)) else nat_digits (nat k))"

text \<open>Number::toString where the program calls it, on the result of \<open>Math.round\<close>:
  an integer, or one of the special values.\<close>

definition number_to_string :: "jsnum \<Rightarrow> string" where
  "number_to_string v =
     (case v of
        Num x \<Rightarrow> int_to_string \<lfloor>x\<rfloor>
      | PosInf \<Rightarrow> ''Infinity''
      | NegInf \<Rightarrow> ''-Infinity''
      | NaN \<Rightarrow> ''NaN'')"

section \<open>parseInt\<close>

text \<open>StrWhiteSpaceChar, on bytes: tab, line feed, vertical tab, form feed, carriage
  return and space.\<close>

definition is_ws :: "char \<Rightarrow> bool" where
  "is_ws c \<longleftrightarrow> of_char c \<in> {9, 10, 11, 12, 13, 32 :: nat}"

text \<open>The value of a digit in radices up to 36: \<open>0-9\<close>, then \<open>a-z\<close> and \<open>A-Z\<close>.\<close>

definition digit_value :: "char \<Rightarrow> nat option" where
  "digit_value c =
     (let n = (of_char c :: nat)
      in if 48 \<le> n \<and> n \<le> 57 then Some (n - 48)
         else if 97 \<le> n \<and> n \<le> 122 then Some (n - 87)
         else if 65 \<le> n \<and> n \<le> 90 then Some (n - 55)
         else None)"

definition is_radix_digit :: "nat \<Rightarrow> char \<Rightarrow> bool" where
  "is_radix_digit r c = (case digit_value c of Some d \<Rightarrow> d < r | None \<Rightarrow> False)"

definition digits_value :: "nat \<Rightarrow> string \<Rightarrow> nat" where
  "digits_value r ds =
     foldl (\<lambda>acc c. acc * r + (case digit_value c of Some d \<Rightarrow> d | None \<Rightarrow> 0)) 0 ds"

definition parseInt :: "string \<Rightarrow> jsnum" where
  "parseInt s =
     (let s1 = dropWhile is_ws s;
          (sign, s2) = (case s1 of
                          [] \<Rightarrow> (1 :: real, [])
                        | c # r \<Rightarrow> if c = CHR ''-'' then (-1, r)
                                   else if c = CHR ''+'' then (1, r) else (1, s1));
          (radix, s3) = (if take 2 s2 = ''0x'' \<or> take 2 s2 = ''0X'' then (16, drop 2 s2) else (10, s2));
          ds = takeWhile (is_radix_digit radix) s3
      in if ds = [] then NaN else Num (sign * real (digits_value radix ds)))"

text \<open>A string in the form Number::toString gives an integer: what a range input holds.\<close>

definition is_int_string :: "string \<Rightarrow> bool" where
  "is_int_string v \<longleftrightarrow> (case parseInt v of Num x \<Rightarrow> int_to_string \<lfloor>x\<rfloor> = v | _ \<Rightarrow> False)"

section \<open>Lemmas\<close>

declare nat_digits.simps [simp del]

text \<open>The ten decimal digits, as characters.\<close>

lemma digit_char_set: "d < 10 \<Longrightarrow> digit_char d \<in> set decimal_digits"
  unfolding digit_char_def by (rule nth_mem) (simp add: decimal_digits_def)

lemma digit_value_digit_char [simp]: "d < 10 \<Longrightarrow> digit_value (digit_char d) = Some d"
proof -
  assume "d < 10"
  then have "d \<in> {0, 1, 2, 3, 4, 5, 6, 7, 8, 9}" by (simp add: less_Suc_eq numeral_eq_Suc)
  then show ?thesis by (auto simp: digit_value_def digit_char_def decimal_digits_def)
qed

lemma nat_digits_digits: "set (nat_digits n) \<subseteq> set decimal_digits"
proof (induction n rule: nat_digits.induct)
  case (1 n)
  have "n mod 10 < 10" by simp
  with 1 show ?case by (subst nat_digits.simps) (simp add: digit_char_set)
qed

lemma nat_digits_not_Nil [simp]: "nat_digits n \<noteq> []"
  by (subst nat_digits.simps) simp

lemma digits_value_snoc:
  "digit_value c = Some d \<Longrightarrow> digits_value r (xs @ [c]) = digits_value r xs * r + d"
  by (simp add: digits_value_def)

lemma digits_value_nat_digits [simp]: "digits_value 10 (nat_digits n) = n"
proof (induction n rule: nat_digits.induct)
  case (1 n)
  show ?case
  proof (cases "n < 10")
    case True
    then show ?thesis by (subst nat_digits.simps) (simp add: digits_value_def)
  next
    case False
    then have "digits_value 10 (nat_digits n) = digits_value 10 (nat_digits (n div 10)) * 10 + n mod 10"
      by (subst nat_digits.simps) (simp add: digits_value_snoc)
    with 1 False show ?thesis by simp
  qed
qed

text \<open>No decimal digit is white space, a sign or the \<open>x\<close> of a hexadecimal prefix.\<close>

lemma decimal_chars:
  "\<forall>c\<in>set decimal_digits. \<not> is_ws c \<and> c \<noteq> CHR ''-'' \<and> c \<noteq> CHR ''+'' \<and> c \<noteq> CHR ''x''
     \<and> c \<noteq> CHR ''X'' \<and> is_radix_digit 10 c"
  by (simp add: decimal_digits_def is_ws_def is_radix_digit_def digit_value_def)

lemma nat_digits_chars:
  "\<forall>c\<in>set (nat_digits n). \<not> is_ws c \<and> c \<noteq> CHR ''-'' \<and> c \<noteq> CHR ''+'' \<and> c \<noteq> CHR ''x''
     \<and> c \<noteq> CHR ''X'' \<and> is_radix_digit 10 c"
  using nat_digits_digits [of n] decimal_chars by blast

lemma take2_not_hex:
  assumes "\<forall>c\<in>set xs. c \<noteq> CHR ''x'' \<and> c \<noteq> CHR ''X''"
  shows "take 2 xs \<noteq> ''0x'' \<and> take 2 xs \<noteq> ''0X''"
proof -
  have "CHR ''x'' \<notin> set (take 2 xs)" "CHR ''X'' \<notin> set (take 2 xs)"
    using assms set_take_subset [of 2 xs] by blast+
  moreover have "CHR ''x'' \<in> set ''0x''" "CHR ''X'' \<in> set ''0X''" by simp_all
  ultimately show ?thesis by metis
qed

text \<open>\<open>parseInt\<close> of a non-empty string of decimal digits reads all of it.\<close>

lemma parseInt_digits:
  assumes "ds \<noteq> []"
      and "\<forall>c\<in>set ds. \<not> is_ws c \<and> c \<noteq> CHR ''-'' \<and> c \<noteq> CHR ''+'' \<and> c \<noteq> CHR ''x''
             \<and> c \<noteq> CHR ''X'' \<and> is_radix_digit 10 c"
  shows "parseInt ds = Num (real (digits_value 10 ds))"
proof -
  obtain c r where cr: "ds = c # r" using assms(1) by (cases ds) auto
  have tw: "takeWhile (is_radix_digit 10) ds = ds" using assms(2) by (simp add: takeWhile_eq_all_conv)
  have hx: "take 2 ds \<noteq> ''0x'' \<and> take 2 ds \<noteq> ''0X''" using assms(2) take2_not_hex by blast
  have c: "\<not> is_ws c" "c \<noteq> CHR ''-''" "c \<noteq> CHR ''+''" using assms(2) cr by simp_all
  have "parseInt ds = (if takeWhile (is_radix_digit 10) ds = [] then NaN
                       else Num (1 * real (digits_value 10 (takeWhile (is_radix_digit 10) ds))))"
    using hx c unfolding parseInt_def Let_def cr by auto
  then show ?thesis using tw assms(1) by simp
qed

lemma parse_unsigned: "parseInt (nat_digits n) = Num (real n)"
  using parseInt_digits [OF nat_digits_not_Nil nat_digits_chars] by simp

text \<open>Number::toString of an integer, read back by \<open>parseInt\<close>.\<close>

lemma parse_int_to_string [simp]: "parseInt (int_to_string k) = Num (of_int k)"
proof (cases "k < 0")
  case True
  let ?ds = "nat_digits (nat (- k))"
  have "parseInt (CHR ''-'' # ?ds) = (if takeWhile (is_radix_digit 10) ?ds = [] then NaN
          else Num (- 1 * real (digits_value 10 (takeWhile (is_radix_digit 10) ?ds))))"
    using take2_not_hex [of ?ds] nat_digits_chars [of "nat (- k)"]
    unfolding parseInt_def Let_def by (simp add: is_ws_def)
  moreover have "takeWhile (is_radix_digit 10) ?ds = ?ds"
    using nat_digits_chars [of "nat (- k)"] by (simp add: takeWhile_eq_all_conv)
  ultimately show ?thesis using True by (simp add: int_to_string_def)
next
  case False
  then show ?thesis by (simp add: int_to_string_def parse_unsigned)
qed

lemma number_to_string_int [simp]: "number_to_string (Num (of_int k)) = int_to_string k"
  by (simp add: number_to_string_def)

lemma is_int_string_int_to_string [simp]: "is_int_string (int_to_string k)"
  by (simp add: is_int_string_def parse_int_to_string)

lemma is_int_string_parseInt:
  assumes "is_int_string v"
  obtains k where "v = int_to_string k" and "parseInt v = Num (of_int k)"
proof -
  obtain x where x: "parseInt v = Num x" and v: "int_to_string \<lfloor>x\<rfloor> = v"
    using assms by (auto simp: is_int_string_def split: jsnum.splits)
  have "parseInt v = Num (of_int \<lfloor>x\<rfloor>)" using parse_int_to_string [of "\<lfloor>x\<rfloor>"] v by simp
  with v show ?thesis by (intro that [of "\<lfloor>x\<rfloor>"]) simp_all
qed

end
