(* ===== verification/App_State.thy ===== *)
theory App_State
  imports Canvas Js_String
begin

text \<open>
  The global \<open>state\<close> object of \<open>src/script.js\<close> (lines 6-18) and the per-image
  records the ingestion pipeline pushes into \<open>state.images\<close>. The canvas element and
  its context, which the code keeps in \<open>state.canvas\<close> and \<open>state.ctx\<close>, are the
  fields \<open>canvas_width\<close>, \<open>canvas_height\<close> and \<open>ctx\<close>. The slider element that
  \<open>autoFitZoom\<close> writes back to is the field \<open>zoomRangeValue\<close>, holding the string
  value of the range input. The loading overlay of \<open>showLoading\<close>/\<open>hideLoading\<close>
  (lines 445-459) is four fields: whether \<open>loadingOverlay\<close> is shown, the text of
  \<open>loadingText\<close>, whether \<open>progressBarContainer\<close> is shown and the style width of
  \<open>progressBar\<close>. The other elements the code writes are the \<open>hidden\<close> classes of
  \<open>uploadSection\<close> and \<open>editorSection\<close>, the \<open>drag-over\<close> class of \<open>dropZone\<close>, the
  text of \<open>speedValue\<close>, the \<open>active\<close> classes of the two alignment buttons and the
  value of \<open>fileInput\<close> (which only the host fills, when the user picks files).
\<close>

text \<open>
  The result of \<open>faceapi.detectSingleFace(img).withFaceLandmarks()\<close> as the code reads
  it: the point clusters that \<open>landmarks.getLeftEye()\<close> and
  \<open>landmarks.getRightEye()\<close> return (six points each for face-api's 68-point model).
\<close>

record detection =
  left_eye :: "point list"
  right_eye :: "point list"

text \<open>An entry of \<open>state.images\<close>: \<open>{original: img, detections: detections}\<close>, with
  \<open>detections\<close> \<open>undefined\<close> when no face was found.\<close>

record item =
  original :: image
  detections :: "detection option"

record app_state =
  images :: "item list"
  isModelLoaded :: bool
  isPlaying :: bool
  currentFrame :: jsnum
  fps :: int
  zoom :: jsnum
  alignEyes :: bool
  canvas_width :: nat
  canvas_height :: nat
  ctx :: ctx
  animationId :: "nat option"
  zoomRangeValue :: string
  gifWorkerBlob :: "string option"
  loadingVisible :: bool
  loadingText :: string
  progressVisible :: bool
  progressWidth :: string
  uploadHidden :: bool
  editorHidden :: bool
  dragOver :: bool
  speedValue :: string
  alignEyesActive :: bool
  noAlignActive :: bool
  fileInputValue :: string

text \<open>The initial value of \<open>state\<close> after \<open>init()\<close> has attached the canvas; the
  canvas keeps the HTML default size of 300 by 150 until the first upload. The page's
  markup is not part of the repository; the DOM fields start as the page must show it
  for the code to make sense: the upload section shown and the editor hidden, the
  slider labels and the active alignment button matching the state's initial values.\<close>

definition initial_state :: app_state where
  "initial_state =
     \<lparr>images = [], isModelLoaded = False, isPlaying = False, currentFrame = Num 0,
      fps = 10, zoom = Num (25 / 100), alignEyes = True, canvas_width = 300,
      canvas_height = 150, ctx = ctx_init, animationId = None,
      zoomRangeValue = ''25'', gifWorkerBlob = None, loadingVisible = False, loadingText = [],
      progressVisible = False, progressWidth = [], uploadHidden = False, editorHidden = True,
      dragOver = False, speedValue = ''10 fps'', alignEyesActive = True, noAlignActive = False,
      fileInputValue = []\<rparr>"

text \<open>
  The zoom slider's value and the zoom it stands for. \<open>autoFitZoom\<close> writes
  \<open>elements.zoomRange.value = Math.round(clampedZoom * 100)\<close> (line 428), which the DOM
  stores by Number::toString; the slider's \<open>input\<close> handler reads it back as
  \<open>parseInt(e.target.value) / 100\<close> (line 110).
\<close>

definition slider_value :: "jsnum \<Rightarrow> string" where
  "slider_value z = number_to_string (js_round (js_mul z (Num 100)))"

definition slider_zoom :: "string \<Rightarrow> jsnum" where
  "slider_zoom v = js_div (parseInt v) (Num 100)"

text \<open>
  \<open>showLoading(text, progress = -1)\<close> (lines 445-455): set the text, show the overlay,
  and show the progress bar at \<open>progress%\<close> when \<open>progress >= 0\<close> (false for \<open>NaN\<close>),
  otherwise hide it, keeping its old width. \<open>hideLoading()\<close> (lines 457-459) hides the
  overlay only.
\<close>

definition showLoading :: "string \<Rightarrow> jsnum \<Rightarrow> app_state \<Rightarrow> app_state" where
  "showLoading text progress s =
     (let s1 = s\<lparr>loadingText := text, loadingVisible := True\<rparr>
      in if progress \<noteq> NaN \<and> \<not> js_less progress (Num 0)
         then s1\<lparr>progressVisible := True, progressWidth := number_to_string progress @ ''%''\<rparr>
         else s1\<lparr>progressVisible := False\<rparr>)"

definition hideLoading :: "app_state \<Rightarrow> app_state" where
  "hideLoading s = s\<lparr>loadingVisible := False\<rparr>"

text \<open>A state with its overlay cleared: what the program computes apart from the
  overlay.\<close>

definition erase_overlay :: "app_state \<Rightarrow> app_state" where
  "erase_overlay s = s\<lparr>loadingVisible := False, loadingText := [], progressVisible := False,
     progressWidth := []\<rparr>"

text \<open>
  What the model assumes of the host's data: a decoded image has a positive size, and
  face-api's eye clusters are not empty.
\<close>

definition wf_item :: "item \<Rightarrow> bool" where
  "wf_item it \<longleftrightarrow>
     0 < img_width (original it) \<and> 0 < img_height (original it) \<and>
     (case detections it of
        None \<Rightarrow> True
      | Some d \<Rightarrow> left_eye d \<noteq> [] \<and> right_eye d \<noteq> [])"

text \<open>A session whose canvas has a positive size and whose images are well formed:
  what \<open>handleFiles\<close> establishes (the canvas takes the first image's size).\<close>

definition wf_session :: "app_state \<Rightarrow> bool" where
  "wf_session s \<longleftrightarrow>
     0 < canvas_width s \<and> 0 < canvas_height s \<and> (\<forall>it\<in>set (images s). wf_item it)"

section \<open>The overlay\<close>

text \<open>The overlay functions touch the overlay only.\<close>

lemma overlay_other_fields [simp]:
  "images (showLoading t p s) = images s" "images (hideLoading s) = images s"
  "isModelLoaded (showLoading t p s) = isModelLoaded s" "isModelLoaded (hideLoading s) = isModelLoaded s"
  "isPlaying (showLoading t p s) = isPlaying s" "isPlaying (hideLoading s) = isPlaying s"
  "currentFrame (showLoading t p s) = currentFrame s" "currentFrame (hideLoading s) = currentFrame s"
  "fps (showLoading t p s) = fps s" "fps (hideLoading s) = fps s"
  "zoom (showLoading t p s) = zoom s" "zoom (hideLoading s) = zoom s"
  "alignEyes (showLoading t p s) = alignEyes s" "alignEyes (hideLoading s) = alignEyes s"
  "canvas_width (showLoading t p s) = canvas_width s" "canvas_width (hideLoading s) = canvas_width s"
  "canvas_height (showLoading t p s) = canvas_height s" "canvas_height (hideLoading s) = canvas_height s"
  "ctx (showLoading t p s) = ctx s" "ctx (hideLoading s) = ctx s"
  "animationId (showLoading t p s) = animationId s" "animationId (hideLoading s) = animationId s"
  "zoomRangeValue (showLoading t p s) = zoomRangeValue s" "zoomRangeValue (hideLoading s) = zoomRangeValue s"
  "gifWorkerBlob (showLoading t p s) = gifWorkerBlob s" "gifWorkerBlob (hideLoading s) = gifWorkerBlob s"
  "uploadHidden (showLoading t p s) = uploadHidden s" "uploadHidden (hideLoading s) = uploadHidden s"
  "editorHidden (showLoading t p s) = editorHidden s" "editorHidden (hideLoading s) = editorHidden s"
  "speedValue (showLoading t p s) = speedValue s" "speedValue (hideLoading s) = speedValue s"
  "alignEyesActive (showLoading t p s) = alignEyesActive s"
  "alignEyesActive (hideLoading s) = alignEyesActive s"
  "noAlignActive (showLoading t p s) = noAlignActive s" "noAlignActive (hideLoading s) = noAlignActive s"
  by (simp_all add: showLoading_def hideLoading_def Let_def)

lemma overlay_shown [simp]:
  "loadingVisible (showLoading t p s)" "loadingText (showLoading t p s) = t"
  "\<not> loadingVisible (hideLoading s)" "loadingText (hideLoading s) = loadingText s"
  "progressVisible (hideLoading s) = progressVisible s"
  by (simp_all add: showLoading_def hideLoading_def Let_def)

lemma erase_overlay_simps [simp]:
  "erase_overlay (showLoading t p s) = erase_overlay s" "erase_overlay (hideLoading s) = erase_overlay s"
  "erase_overlay (s\<lparr>images := x\<rparr>) = (erase_overlay s)\<lparr>images := x\<rparr>"
  "erase_overlay (s\<lparr>ctx := c\<rparr>) = (erase_overlay s)\<lparr>ctx := c\<rparr>"
  "erase_overlay (s\<lparr>isPlaying := b\<rparr>) = (erase_overlay s)\<lparr>isPlaying := b\<rparr>"
  "erase_overlay (s\<lparr>zoom := z\<rparr>) = (erase_overlay s)\<lparr>zoom := z\<rparr>"
  "erase_overlay (s\<lparr>uploadHidden := u\<rparr>) = (erase_overlay s)\<lparr>uploadHidden := u\<rparr>"
  "erase_overlay (s\<lparr>editorHidden := e\<rparr>) = (erase_overlay s)\<lparr>editorHidden := e\<rparr>"
  by (simp_all add: erase_overlay_def showLoading_def hideLoading_def Let_def)

lemma erase_overlay_eqD:
  assumes "erase_overlay a = erase_overlay b"
  shows "images a = images b" "isModelLoaded a = isModelLoaded b" "isPlaying a = isPlaying b"
    "currentFrame a = currentFrame b" "fps a = fps b" "zoom a = zoom b" "alignEyes a = alignEyes b"
    "canvas_width a = canvas_width b" "canvas_height a = canvas_height b" "ctx a = ctx b"
    "animationId a = animationId b" "zoomRangeValue a = zoomRangeValue b"
    "gifWorkerBlob a = gifWorkerBlob b" "uploadHidden a = uploadHidden b" "editorHidden a = editorHidden b"
    "dragOver a = dragOver b" "speedValue a = speedValue b" "alignEyesActive a = alignEyesActive b"
    "noAlignActive a = noAlignActive b"
  using assms by (cases a, cases b, simp add: erase_overlay_def)+

lemma wf_session_overlay [simp]:
  "wf_session (showLoading t p s) = wf_session s" "wf_session (hideLoading s) = wf_session s"
  by (simp_all add: wf_session_def)

section \<open>The slider conversions\<close>

lemma slider_value_hundredths [simp]: "slider_value (Num (of_int k / 100)) = int_to_string k"
proof -
  have "\<lfloor>of_int k / 100 * 100 + 1 / 2 :: real\<rfloor> = k" by linarith
  then show ?thesis by (simp add: slider_value_def)
qed

lemma slider_zoom_int_to_string [simp]: "slider_zoom (int_to_string k) = Num (of_int k / 100)"
  by (simp add: slider_zoom_def)

text \<open>
  C29. The zoom slider keeps the zoom to the nearest hundredth: for any zoom \<open>z\<close>, the
  value written at line 428 is the decimal string of an integer \<open>k\<close> (\<open>Math.round\<close> of
  \<open>z * 100\<close>), and the \<open>input\<close> handler reads it back as \<open>k / 100\<close>, within half a
  hundredth of \<open>z\<close>. In particular a zoom that is a whole number of hundredths comes back
  unchanged.
\<close>

theorem slider_nearest_hundredth:
  "\<exists>k. slider_value (Num z) = int_to_string k \<and> slider_zoom (slider_value (Num z)) = Num (of_int k / 100)
       \<and> \<bar>of_int k / 100 - z\<bar> \<le> 1 / 200"
proof -
  let ?k = "\<lfloor>z * 100 + 1 / 2\<rfloor>"
  have v: "slider_value (Num z) = int_to_string ?k" by (simp add: slider_value_def)
  have "of_int ?k \<le> z * 100 + 1 / 2" by (rule of_int_floor_le)
  moreover have "z * 100 + 1 / 2 < of_int ?k + 1" by (rule real_of_int_floor_add_one_gt)
  ultimately have "\<bar>of_int ?k / 100 - z\<bar> \<le> 1 / 200" unfolding abs_le_iff by (intro conjI) linarith+
  with v show ?thesis by auto
qed

end
