(* ===== verification/Geometry.thy ===== *)
theory Geometry
  imports App_State
begin

text \<open>
  Landmark geometry: the centroid of an eye cluster (\<open>getCentroid\<close>), the eye
  geometry that \<open>renderFrame\<close> and \<open>autoFitZoom\<close> both derive from a detection
  (eye centres, their midpoint, the angle and the distance between them), and the
  rotation of a point about the eyes' midpoint that \<open>autoFitZoom\<close> applies to the
  image corners. The lemmas show that the centroid is the arithmetic mean, and that
  rotating by minus the eye angle turns the eye-to-eye vector onto the positive x axis.
\<close>

section \<open>Centroid\<close>

text \<open>\<open>points.reduce((acc, p) => ({x: acc.x + p.x, y: acc.y + p.y}), {x: 0, y: 0})\<close>,
  then each coordinate divided by \<open>points.length\<close>.\<close>

definition getCentroid :: "point list \<Rightarrow> point" where
  "getCentroid points =
     (let sum = foldl (\<lambda>acc p. Pt (px acc + px p) (py acc + py p)) (Pt 0 0) points
      in Pt (px sum / real (length points)) (py sum / real (length points)))"

text \<open>\<open>Math.atan2(y, x)\<close>, the host's angle function.\<close>

definition atan2 :: "real \<Rightarrow> real \<Rightarrow> real" where
  "atan2 y x = Arg (Complex x y)"

section \<open>Eye geometry\<close>

record eye_geometry =
  leftEyeCenter :: point
  rightEyeCenter :: point
  eyesCenter :: point
  angle :: real
  currentEyesDist :: real

definition eye_geometry :: "detection \<Rightarrow> eye_geometry" where
  "eye_geometry d =
     (let leftEyeCenter = getCentroid (left_eye d);
          rightEyeCenter = getCentroid (right_eye d);
          dx = px rightEyeCenter - px leftEyeCenter;
          dy = py rightEyeCenter - py leftEyeCenter
      in \<lparr>leftEyeCenter = leftEyeCenter, rightEyeCenter = rightEyeCenter,
          eyesCenter = Pt ((px leftEyeCenter + px rightEyeCenter) / 2)
                          ((py leftEyeCenter + py rightEyeCenter) / 2),
          angle = atan2 dy dx,
          currentEyesDist = sqrt (dx * dx + dy * dy)\<rparr>)"

text \<open>
  The corner rotation of \<open>autoFitZoom\<close>: the offset of \<open>p\<close> from the eyes' midpoint,
  rotated with \<open>cos = Math.cos(-angle)\<close> and \<open>sin = Math.sin(-angle)\<close>; the result
  is \<open>{x: rotX, y: rotY}\<close>.
\<close>

definition corner_rot :: "eye_geometry \<Rightarrow> point \<Rightarrow> point" where
  "corner_rot g p =
     (let cos = cos (- angle g); sin = sin (- angle g);
          relX = px p - px (eyesCenter g);
          relY = py p - py (eyesCenter g)
      in Pt (relX * cos - relY * sin) (relX * sin + relY * cos))"

text \<open>The eye-to-eye vector \<open>(dx, dy)\<close>.\<close>

abbreviation gdx :: "eye_geometry \<Rightarrow> real" where
  "gdx g \<equiv> px (rightEyeCenter g) - px (leftEyeCenter g)"

abbreviation gdy :: "eye_geometry \<Rightarrow> real" where
  "gdy g \<equiv> py (rightEyeCenter g) - py (leftEyeCenter g)"

text \<open>A geometry as \<open>eye_geometry\<close> builds it, stated on its fields.\<close>

definition consistent :: "eye_geometry \<Rightarrow> bool" where
  "consistent g \<longleftrightarrow>
     eyesCenter g = Pt ((px (leftEyeCenter g) + px (rightEyeCenter g)) / 2)
                       ((py (leftEyeCenter g) + py (rightEyeCenter g)) / 2) \<and>
     angle g = atan2 (gdy g) (gdx g) \<and>
     currentEyesDist g = sqrt (gdx g * gdx g + gdy g * gdy g)"

section \<open>The centroid is the mean\<close>

lemma foldl_sum_points:
  "foldl (\<lambda>acc p. Pt (px acc + px p) (py acc + py p)) a ps =
     Pt (px a + sum_list (map px ps)) (py a + sum_list (map py ps))"
  by (induction ps arbitrary: a) (simp_all add: algebra_simps)

lemma getCentroid_mean [geom_simps]:
  "getCentroid ps =
     Pt (sum_list (map px ps) / real (length ps)) (sum_list (map py ps) / real (length ps))"
  by (simp add: getCentroid_def foldl_sum_points)

section \<open>Facts of one geometry\<close>

lemma eye_geometry_sel [simp]:
  "leftEyeCenter (eye_geometry d) = getCentroid (left_eye d)"
  "rightEyeCenter (eye_geometry d) = getCentroid (right_eye d)"
  "eyesCenter (eye_geometry d) =
     Pt ((px (getCentroid (left_eye d)) + px (getCentroid (right_eye d))) / 2)
        ((py (getCentroid (left_eye d)) + py (getCentroid (right_eye d))) / 2)"
  by (simp_all add: eye_geometry_def Let_def)

lemma eye_geometry_angle_dist:
  "angle (eye_geometry d) = atan2 (gdy (eye_geometry d)) (gdx (eye_geometry d))"
  "currentEyesDist (eye_geometry d) =
     sqrt (gdx (eye_geometry d) * gdx (eye_geometry d) + gdy (eye_geometry d) * gdy (eye_geometry d))"
  by (simp_all add: eye_geometry_def Let_def)

lemma consistent_eye_geometry [simp]: "consistent (eye_geometry d)"
  by (simp add: consistent_def eye_geometry_def Let_def)

lemma dist_nonneg: "consistent g \<Longrightarrow> 0 \<le> currentEyesDist g"
  by (simp add: consistent_def)

lemma dist_pos_iff:
  "consistent g \<Longrightarrow> (0 < currentEyesDist g) = (currentEyesDist g \<noteq> 0)"
  using dist_nonneg [of g] by linarith

lemma cos_sin_angle:
  assumes "consistent g" and "currentEyesDist g \<noteq> 0"
  shows "cos (angle g) = gdx g / currentEyesDist g"
    and "sin (angle g) = gdy g / currentEyesDist g"
  using assms cos_minus_Arg [of "gdx g" "gdy g"] sin_minus_Arg [of "gdx g" "gdy g"]
  by (auto simp: consistent_def atan2_def)

lemma angle_degenerate:
  "consistent g \<Longrightarrow> currentEyesDist g = 0 \<Longrightarrow> angle g = 0"
  by (simp add: consistent_def atan2_def)

lemma corner_rot_center [simp]: "corner_rot g (eyesCenter g) = Pt 0 0"
  by (simp add: corner_rot_def)

text \<open>The rotated offset of a point, once the angle is known through the eye vector.\<close>

lemma corner_rot_by_eye_vector:
  assumes "consistent g" and "currentEyesDist g \<noteq> 0"
  shows "corner_rot g p =
    (let d = currentEyesDist g; relX = px p - px (eyesCenter g); relY = py p - py (eyesCenter g)
     in Pt ((relX * gdx g + relY * gdy g) / d) ((relY * gdx g - relX * gdy g) / d))"
  using assms by (simp add: corner_rot_def cos_sin_angle Let_def diff_divide_distrib
      add_divide_distrib algebra_simps)

text \<open>Rotating by minus the eye angle puts the right eye on the positive x axis at half
  the eye distance from the midpoint, and the left eye opposite it.\<close>

lemma corner_rot_eyes:
  assumes "consistent g" and "currentEyesDist g \<noteq> 0"
  shows "corner_rot g (rightEyeCenter g) = Pt (currentEyesDist g / 2) 0"
    and "corner_rot g (leftEyeCenter g) = Pt (- (currentEyesDist g / 2)) 0"
proof -
  let ?d = "currentEyesDist g"
  have d2: "gdx g * gdx g + gdy g * gdy g = ?d * ?d"
    using assms(1) by (simp add: consistent_def)
  have c: "eyesCenter g = Pt ((px (leftEyeCenter g) + px (rightEyeCenter g)) / 2)
                            ((py (leftEyeCenter g) + py (rightEyeCenter g)) / 2)"
    using assms(1) by (simp add: consistent_def)
  have q: "(gdx g * gdx g + gdy g * gdy g) / 2 / ?d = ?d / 2"
    using assms(2) by (simp add: d2)
  have "corner_rot g (rightEyeCenter g) =
          Pt ((gdx g * gdx g + gdy g * gdy g) / 2 / ?d) 0"
    using assms by (simp add: corner_rot_by_eye_vector c field_simps)
  then show "corner_rot g (rightEyeCenter g) = Pt (?d / 2) 0"
    by (simp only: q)
  have "corner_rot g (leftEyeCenter g) =
          Pt (- ((gdx g * gdx g + gdy g * gdy g) / 2 / ?d)) 0"
    using assms by (simp add: corner_rot_by_eye_vector c field_simps)
  then show "corner_rot g (leftEyeCenter g) = Pt (- (?d / 2)) 0"
    by (simp only: q)
qed

lemma corner_rot_nonzero:
  assumes "p \<noteq> eyesCenter g"
  shows "corner_rot g p \<noteq> Pt 0 0"
proof -
  have "px p - px (eyesCenter g) \<noteq> 0 \<or> py p - py (eyesCenter g) \<noteq> 0"
    using assms by (auto simp: geom_simps)
  then show ?thesis
    using rotation_nonzero [OF cos_sin_sq_sum [of "- angle g"]]
    by (simp add: corner_rot_def Let_def)
qed

end
