(* ===== verification/Scenarios.thy ===== *)
theory Scenarios
  imports Geometry
begin

text \<open>
  Concrete sessions used by the witnesses of the component theories: the scenarios of
  the specification's section 8 written as values of the model. Scenario A has two
  1000 by 1000 photographs with level eyes 200 pixels apart on a 1000 by 1000 canvas at
  zoom 0.25; the tilted photograph has its eyes 200 pixels apart along a 3-4-5 slope;
  the degenerate photograph has both eye clusters at one point (scenario C); the wide
  photograph has no detected face.
\<close>

definition scenarioA_item1 :: item where
  "scenarioA_item1 =
     \<lparr>original = \<lparr>img_id = 1, img_width = 1000, img_height = 1000\<rparr>,
      detections = Some \<lparr>left_eye = [Pt 390 495, Pt 410 505],
                         right_eye = [Pt 600 490, Pt 600 510]\<rparr>\<rparr>"

definition scenarioA_item2 :: item where
  "scenarioA_item2 =
     \<lparr>original = \<lparr>img_id = 2, img_width = 1000, img_height = 1000\<rparr>,
      detections = Some \<lparr>left_eye = [Pt 300 500], right_eye = [Pt 500 500]\<rparr>\<rparr>"

definition tilted_item :: item where
  "tilted_item =
     \<lparr>original = \<lparr>img_id = 3, img_width = 1000, img_height = 1000\<rparr>,
      detections = Some \<lparr>left_eye = [Pt 400 500], right_eye = [Pt 520 660]\<rparr>\<rparr>"

definition degenerate_item :: item where
  "degenerate_item =
     \<lparr>original = \<lparr>img_id = 4, img_width = 1000, img_height = 1000\<rparr>,
      detections = Some \<lparr>left_eye = [Pt 500 500], right_eye = [Pt 500 500]\<rparr>\<rparr>"

definition wide_item :: item where
  "wide_item =
     \<lparr>original = \<lparr>img_id = 5, img_width = 2000, img_height = 1000\<rparr>, detections = None\<rparr>"

text \<open>Scenario B: eyes at the target height spanning the whole width, so the unscaled
  aligned photograph already fills the canvas exactly.\<close>

definition roomy_item :: item where
  "roomy_item =
     \<lparr>original = \<lparr>img_id = 6, img_width = 1000, img_height = 1000\<rparr>,
      detections = Some \<lparr>left_eye = [Pt 0 400], right_eye = [Pt 1000 400]\<rparr>\<rparr>"

definition session_with :: "item list \<Rightarrow> app_state" where
  "session_with xs =
     initial_state\<lparr>images := xs, canvas_width := 1000, canvas_height := 1000\<rparr>"

definition scenarioA_state :: app_state where
  "scenarioA_state = session_with [scenarioA_item1, scenarioA_item2]"

lemmas scenario_defs =
  scenarioA_item1_def scenarioA_item2_def tilted_item_def degenerate_item_def wide_item_def roomy_item_def
  session_with_def scenarioA_state_def initial_state_def ctx_init_def ctx_clean_def

text \<open>The eye geometry of the scenario photographs.\<close>

lemma scenarioA_geometry1:
  "eye_geometry \<lparr>left_eye = [Pt 390 495, Pt 410 505], right_eye = [Pt 600 490, Pt 600 510]\<rparr> =
     \<lparr>leftEyeCenter = Pt 400 500, rightEyeCenter = Pt 600 500, eyesCenter = Pt 500 500,
      angle = 0, currentEyesDist = 200\<rparr>"
  by (simp add: eye_geometry_def geom_simps atan2_def Arg_Complex_pos_real)

lemma scenarioA_geometry2:
  "eye_geometry \<lparr>left_eye = [Pt 300 500], right_eye = [Pt 500 500]\<rparr> =
     \<lparr>leftEyeCenter = Pt 300 500, rightEyeCenter = Pt 500 500, eyesCenter = Pt 400 500,
      angle = 0, currentEyesDist = 200\<rparr>"
  by (simp add: eye_geometry_def geom_simps atan2_def Arg_Complex_pos_real)

lemma degenerate_geometry:
  "eye_geometry \<lparr>left_eye = [Pt 500 500], right_eye = [Pt 500 500]\<rparr> =
     \<lparr>leftEyeCenter = Pt 500 500, rightEyeCenter = Pt 500 500, eyesCenter = Pt 500 500,
      angle = 0, currentEyesDist = 0\<rparr>"
  by (simp add: eye_geometry_def geom_simps atan2_def Let_def)

lemma roomy_geometry:
  "eye_geometry \<lparr>left_eye = [Pt 0 400], right_eye = [Pt 1000 400]\<rparr> =
     \<lparr>leftEyeCenter = Pt 0 400, rightEyeCenter = Pt 1000 400, eyesCenter = Pt 500 400,
      angle = 0, currentEyesDist = 1000\<rparr>"
  by (simp add: eye_geometry_def geom_simps atan2_def Arg_Complex_pos_real)

lemmas scenario_geometry = scenarioA_geometry1 scenarioA_geometry2 degenerate_geometry roomy_geometry

lemma scenario_items_wf:
  "wf_item scenarioA_item1" "wf_item scenarioA_item2" "wf_item tilted_item"
  "wf_item degenerate_item" "wf_item wide_item" "wf_item roomy_item"
  by (simp_all add: wf_item_def scenario_defs)

lemma session_with_wf:
  "\<forall>it\<in>set xs. wf_item it \<Longrightarrow> wf_session (session_with xs)"
  by (simp add: wf_session_def session_with_def initial_state_def)

lemma session_with_clean [simp]: "ctx_clean (ctx (session_with xs))"
  by (simp add: session_with_def initial_state_def ctx_clean_init)

end
