(* ===== verification/Render.thy ===== *)
theory Render
  imports Geometry Scenarios
begin

text \<open>
  The frame transform builder: \<open>renderFrame(index)\<close> of \<open>src/script.js\<close> (lines
  249-315). It clears the canvas, then either draws the image through the eye-aligning
  transform (\<open>save\<close>, translate to the target, scale, rotate by minus the eye angle,
  translate by minus the eyes' midpoint, \<open>drawImage\<close>, \<open>restore\<close>) or, when
  alignment is off or no face was detected, draws it letterboxed and centred. The lemmas
  give the matrix the image is drawn with, show that it puts the eyes' midpoint on the
  target \<open>(0.5 W, 0.4 H)\<close> and the eyes on a horizontal line \<open>W * zoom\<close> apart, that
  a render leaves the context's matrix and save stack as it found them, what happens
  when the two eye centroids coincide, and where the letterboxed image lands.
\<close>

section \<open>Definitions\<close>

text \<open>Lines 283-306: the aligned branch, from \<open>desiredEyesDist\<close> to \<open>ctx.restore()\<close>.\<close>

definition draw_aligned :: "real \<Rightarrow> real \<Rightarrow> jsnum \<Rightarrow> eye_geometry \<Rightarrow> image \<Rightarrow> ctx \<Rightarrow> ctx" where
  "draw_aligned W H z g img c =
     (let desiredEyesDist = js_mul (Num W) z;
          scale = js_div desiredEyesDist (Num (currentEyesDist g));
          targetX = W * 0.5;
          targetY = H * 0.4;
          c1 = ctx_save c;
          c2 = ctx_translate targetX targetY c1;
          c3 = ctx_scale scale scale c2;
          c4 = ctx_rotate (- angle g) c3;
          c5 = ctx_translate (- px (eyesCenter g)) (- py (eyesCenter g)) c4;
          c6 = ctx_draw_image img 0 0 (real (img_width img)) (real (img_height img)) c5
      in ctx_restore c6)"

text \<open>Lines 309-313: the letterbox branch.\<close>

definition draw_letterbox :: "real \<Rightarrow> real \<Rightarrow> image \<Rightarrow> ctx \<Rightarrow> ctx" where
  "draw_letterbox W H img c =
     (let w = real (img_width img); h = real (img_height img);
          scale = min (W / w) (H / h);
          x = (W - w * scale) / 2;
          y = (H - h * scale) / 2
      in ctx_draw_image img x y (w * scale) (h * scale) c)"

definition renderFrame :: "jsnum \<Rightarrow> app_state \<Rightarrow> app_state" where
  "renderFrame index s =
     (case js_index (images s) index of
        None \<Rightarrow> s
      | Some item \<Rightarrow>
          (let W = real (canvas_width s); H = real (canvas_height s);
               c0 = ctx_fill_rect 0 0 W H (ctx_set_fill ''#000'' (ctx s))
           in s\<lparr>ctx := (case (alignEyes s, detections item) of
                          (True, Some d) \<Rightarrow>
                            draw_aligned W H (zoom s) (eye_geometry d) (original item) c0
                        | _ \<Rightarrow> draw_letterbox W H (original item) c0)\<rparr>))"

text \<open>What a render puts on the canvas: the operations it issues.\<close>

definition frame_ops :: "jsnum \<Rightarrow> app_state \<Rightarrow> draw_op list" where
  "frame_ops i s = drop (length (display (ctx s))) (display (ctx (renderFrame i s)))"

section \<open>The matrix of the aligned draw\<close>

text \<open>The scale factor the aligned branch hands to \<open>ctx.scale\<close>.\<close>

definition align_scale :: "real \<Rightarrow> jsnum \<Rightarrow> eye_geometry \<Rightarrow> jsnum" where
  "align_scale W z g = js_div (js_mul (Num W) z) (Num (currentEyesDist g))"

text \<open>The matrix in force at \<open>drawImage\<close>, starting from the context's matrix \<open>m\<close>;
  a non-finite scale leaves the scaling out, as the canvas ignores it.\<close>

definition aligned_matrix :: "affine \<Rightarrow> real \<Rightarrow> real \<Rightarrow> jsnum \<Rightarrow> eye_geometry \<Rightarrow> affine" where
  "aligned_matrix m W H z g =
     (let m2 = affine_mult m (translation (W * 0.5) (H * 0.4));
          m3 = (case align_scale W z g of Num s \<Rightarrow> affine_mult m2 (scaling s s) | _ \<Rightarrow> m2);
          m4 = affine_mult m3 (rotation (- angle g))
      in affine_mult m4 (translation (- px (eyesCenter g)) (- py (eyesCenter g))))"

lemma draw_aligned_eq:
  "draw_aligned W H z g img c =
     c\<lparr>display := display c @
        [DrawImage (aligned_matrix (ctm c) W H z g) img 0 0
                   (real (img_width img)) (real (img_height img))]\<rparr>"
  by (cases "align_scale W z g")
     (simp_all add: draw_aligned_def aligned_matrix_def align_scale_def ctx_simps Let_def)

text \<open>With a finite scale \<open>s\<close>, a point lands at \<open>s\<close> times its rotated offset from
  the eyes' midpoint, plus the target: the formula the comment at lines 364-371 states
  and \<open>autoFitZoom\<close> relies on.\<close>

lemma aligned_matrix_apply:
  assumes "align_scale W z g = Num s"
  shows "apply_affine (aligned_matrix affine_id W H z g) p =
           Pt (s * px (corner_rot g p) + W * 0.5) (s * py (corner_rot g p) + H * 0.4)"
  using assms by (simp add: aligned_matrix_def corner_rot_def Let_def algebra_simps)

lemma align_scale_finite:
  assumes "zoom_v = Num z" and "currentEyesDist g \<noteq> 0"
  shows "align_scale W zoom_v g = Num (W * z / currentEyesDist g)"
  using assms by (simp add: align_scale_def)

text \<open>Coinciding eye centroids: \<open>W * zoom / 0\<close> is an infinity (or \<open>NaN\<close>), never
  a finite scale.\<close>

lemma align_scale_degenerate:
  "currentEyesDist g = 0 \<Longrightarrow> align_scale W z g \<notin> range Num"
  by (cases z) (auto simp: align_scale_def js_inf_sign_def)

section \<open>renderFrame, branch by branch\<close>

lemma renderFrame_out_of_range:
  "js_index (images s) i = None \<Longrightarrow> renderFrame i s = s"
  by (simp add: renderFrame_def)

lemma renderFrame_aligned:
  assumes "js_index (images s) i = Some it" and "alignEyes s" and "detections it = Some d"
  shows "renderFrame i s =
     s\<lparr>ctx := (ctx s)\<lparr>fill_style := ''#000'',
        display := display (ctx s) @
          [FillRect (ctm (ctx s)) ''#000'' 0 0 (real (canvas_width s)) (real (canvas_height s)),
           DrawImage (aligned_matrix (ctm (ctx s)) (real (canvas_width s)) (real (canvas_height s))
                        (zoom s) (eye_geometry d))
             (original it) 0 0 (real (img_width (original it))) (real (img_height (original it)))]\<rparr>\<rparr>"
  using assms by (simp add: renderFrame_def draw_aligned_eq ctx_simps Let_def)

lemma renderFrame_letterbox:
  assumes "js_index (images s) i = Some it" and "\<not> alignEyes s \<or> detections it = None"
  shows "renderFrame i s =
     s\<lparr>ctx := draw_letterbox (real (canvas_width s)) (real (canvas_height s)) (original it)
                (ctx_fill_rect 0 0 (real (canvas_width s)) (real (canvas_height s))
                  (ctx_set_fill ''#000'' (ctx s)))\<rparr>"
  using assms by (cases "alignEyes s") (auto simp: renderFrame_def Let_def split: option.splits)

text \<open>Only the context changes.\<close>

lemma renderFrame_other_fields [simp]:
  "images (renderFrame i s) = images s"
  "isPlaying (renderFrame i s) = isPlaying s"
  "currentFrame (renderFrame i s) = currentFrame s"
  "zoom (renderFrame i s) = zoom s"
  "fps (renderFrame i s) = fps s"
  "alignEyes (renderFrame i s) = alignEyes s"
  "canvas_width (renderFrame i s) = canvas_width s"
  "canvas_height (renderFrame i s) = canvas_height s"
  "animationId (renderFrame i s) = animationId s"
  "isModelLoaded (renderFrame i s) = isModelLoaded s"
  "zoomRangeValue (renderFrame i s) = zoomRangeValue s"
  "gifWorkerBlob (renderFrame i s) = gifWorkerBlob s"
  "loadingVisible (renderFrame i s) = loadingVisible s"
  "loadingText (renderFrame i s) = loadingText s"
  "progressVisible (renderFrame i s) = progressVisible s"
  "progressWidth (renderFrame i s) = progressWidth s"
  "uploadHidden (renderFrame i s) = uploadHidden s"
  "editorHidden (renderFrame i s) = editorHidden s"
  "speedValue (renderFrame i s) = speedValue s"
  "alignEyesActive (renderFrame i s) = alignEyesActive s"
  "noAlignActive (renderFrame i s) = noAlignActive s"
  by (simp_all add: renderFrame_def Let_def split: option.splits prod.splits bool.splits)

text \<open>A render does not read the overlay.\<close>

lemma frame_ops_overlay [simp]:
  "frame_ops i (showLoading t p s) = frame_ops i s" "frame_ops i (hideLoading s) = frame_ops i s"
  "frame_ops i (erase_overlay s) = frame_ops i s"
  by (simp_all add: frame_ops_def renderFrame_def erase_overlay_def Let_def
      split: option.splits prod.splits bool.splits)

lemma frame_ops_erase_overlay: "erase_overlay a = erase_overlay b \<Longrightarrow> frame_ops i a = frame_ops i b"
  by (metis frame_ops_overlay(3))

lemma renderFrame_clean_aligned:
  assumes "js_index (images s) i = Some it" and "alignEyes s" and "detections it = Some d"
      and "ctx_clean (ctx s)"
  shows "display (ctx (renderFrame i s)) = display (ctx s) @
           [FillRect affine_id ''#000'' 0 0 (real (canvas_width s)) (real (canvas_height s)),
            DrawImage (aligned_matrix affine_id (real (canvas_width s)) (real (canvas_height s))
                         (zoom s) (eye_geometry d))
              (original it) 0 0 (real (img_width (original it))) (real (img_height (original it)))]"
  using assms by (simp add: renderFrame_aligned ctx_clean_def)

lemma aligned_matrix_center:
  "apply_affine (aligned_matrix affine_id W H z g) (eyesCenter g) = Pt (W * 0.5) (H * 0.4)"
  by (cases "align_scale W z g") (simp_all add: aligned_matrix_def Let_def)

lemma aligned_matrix_eyes:
  assumes "consistent g" and "currentEyesDist g \<noteq> 0"
  shows "apply_affine (aligned_matrix affine_id W H (Num z) g) (rightEyeCenter g) =
           Pt (W * 0.5 + W * z / 2) (H * 0.4)"
    and "apply_affine (aligned_matrix affine_id W H (Num z) g) (leftEyeCenter g) =
           Pt (W * 0.5 - W * z / 2) (H * 0.4)"
  using assms
  by (simp_all add: aligned_matrix_apply [OF align_scale_finite [OF refl]] corner_rot_eyes)

text \<open>With both eye centroids at one point the scale is dropped: the matrix is the
  translation taking the eyes' midpoint to the target.\<close>

lemma aligned_matrix_degenerate:
  assumes "consistent g" and "currentEyesDist g = 0"
  shows "apply_affine (aligned_matrix affine_id W H z g) p =
           Pt (px p - px (eyesCenter g) + W * 0.5) (py p - py (eyesCenter g) + H * 0.4)"
proof -
  have "align_scale W z g \<notin> range Num" using assms(2) by (rule align_scale_degenerate)
  then have "aligned_matrix affine_id W H z g =
      affine_mult (affine_mult (translation (W * 0.5) (H * 0.4)) (rotation (- angle g)))
                  (translation (- px (eyesCenter g)) (- py (eyesCenter g)))"
    by (cases "align_scale W z g") (auto simp: aligned_matrix_def Let_def)
  then show ?thesis using angle_degenerate [OF assms] by simp
qed

lemma aligned_matrix_level:
  assumes "consistent g" and "gdy g = 0" and "0 < gdx g" and "z = Num zz"
  shows "aligned_matrix affine_id W H z g =
           \<lparr>ma = W * zz / gdx g, mb = 0, mc = 0, md = W * zz / gdx g,
            me = W * 0.5 - W * zz / gdx g * px (eyesCenter g),
            mf = H * 0.4 - W * zz / gdx g * py (eyesCenter g)\<rparr>"
proof -
  have d: "currentEyesDist g = gdx g" and a: "angle g = 0"
    using assms(1-3) by (simp_all add: consistent_def atan2_def Arg_Complex_pos_real)
  then show ?thesis using assms(3,4)
    by (simp add: aligned_matrix_def align_scale_def Let_def affine_mult_def translation_def
        scaling_def affine_id_def algebra_simps)
qed

lemma draw_letterbox_eq:
  "draw_letterbox W H img c =
     c\<lparr>display := display c @
        [DrawImage (ctm c) img
           ((W - real (img_width img) * min (W / real (img_width img)) (H / real (img_height img))) / 2)
           ((H - real (img_height img) * min (W / real (img_width img)) (H / real (img_height img))) / 2)
           (real (img_width img) * min (W / real (img_width img)) (H / real (img_height img)))
           (real (img_height img) * min (W / real (img_width img)) (H / real (img_height img)))]\<rparr>"
  by (simp add: draw_letterbox_def ctx_simps Let_def)

text \<open>The rectangle of the letterbox: inside the canvas, centred, of the image's aspect
  ratio, and as wide or as tall as the canvas.\<close>

lemma letterbox_rect:
  fixes W H w h :: real
  assumes "0 < w" "0 < h" "0 < W" "0 < H"
  defines "sc \<equiv> min (W / w) (H / h)"
  shows "0 \<le> (W - w * sc) / 2 \<and> (W - w * sc) / 2 + w * sc \<le> W
       \<and> 0 \<le> (H - h * sc) / 2 \<and> (H - h * sc) / 2 + h * sc \<le> H
       \<and> (W - w * sc) / 2 + w * sc / 2 = W / 2 \<and> (H - h * sc) / 2 + h * sc / 2 = H / 2
       \<and> (w * sc) * h = (h * sc) * w \<and> (w * sc = W \<or> h * sc = H)"
proof -
  have "sc \<le> W / w" "sc \<le> H / h" by (simp_all add: sc_def)
  then have "w * sc \<le> W" "h * sc \<le> H"
    using assms(1-2) by (simp_all add: pos_le_divide_eq mult.commute)
  moreover have "w * sc = W \<or> h * sc = H"
    using assms(1-2) by (auto simp: sc_def min_def)
  ultimately show ?thesis by (simp add: field_simps)
qed

text \<open>A render changes neither the context's matrix nor its save stack.\<close>

lemma renderFrame_ctm_saved:
  "ctm (ctx (renderFrame i s)) = ctm (ctx s) \<and> saved (ctx (renderFrame i s)) = saved (ctx s)"
proof (cases "js_index (images s) i")
  case None
  then show ?thesis by (simp add: renderFrame_out_of_range)
next
  case (Some it)
  show ?thesis
  proof (cases "alignEyes s \<and> detections it \<noteq> None")
    case True
    then obtain d where "alignEyes s" "detections it = Some d" by auto
    with Some show ?thesis by (simp add: renderFrame_aligned)
  next
    case False
    with Some show ?thesis by (simp add: renderFrame_letterbox draw_letterbox_eq ctx_simps)
  qed
qed

text \<open>A render only appends its operations to the canvas and, when it draws, leaves
  the fill style black.\<close>

lemma renderFrame_shape:
  "renderFrame i s =
     s\<lparr>ctx := (ctx s)\<lparr>fill_style := (if js_index (images s) i = None then fill_style (ctx s) else ''#000''),
                       display := display (ctx s) @ frame_ops i s\<rparr>\<rparr>"
proof (cases "js_index (images s) i")
  case None
  then show ?thesis by (simp add: renderFrame_out_of_range frame_ops_def)
next
  case (Some it)
  show ?thesis
  proof (cases "alignEyes s \<and> detections it \<noteq> None")
    case True
    then obtain d where "alignEyes s" "detections it = Some d" by auto
    with Some show ?thesis by (simp add: renderFrame_aligned frame_ops_def)
  next
    case False
    with Some show ?thesis
      by (simp add: renderFrame_letterbox frame_ops_def draw_letterbox_eq ctx_simps)
  qed
qed

lemma renderFrame_ctx_only: "\<exists>c. renderFrame i s = s\<lparr>ctx := c\<rparr>"
  by (rule exI [of _ "ctx (renderFrame i s)"]) (simp add: renderFrame_def Let_def split: option.splits)

lemma renderFrame_display: "display (ctx (renderFrame i s)) = display (ctx s) @ frame_ops i s"
  by (subst renderFrame_shape) simp

text \<open>What a render draws depends on the context only through its matrix.\<close>

lemma frame_ops_ctx:
  assumes "ctm c = ctm (ctx s)"
  shows "frame_ops i (s\<lparr>ctx := c\<rparr>) = frame_ops i s"
proof (cases "js_index (images s) i")
  case None
  then show ?thesis by (simp add: renderFrame_out_of_range frame_ops_def)
next
  case (Some it)
  show ?thesis
  proof (cases "alignEyes s \<and> detections it \<noteq> None")
    case True
    then obtain d where "alignEyes s" "detections it = Some d" by auto
    with Some assms show ?thesis by (simp add: renderFrame_aligned frame_ops_def)
  next
    case False
    with Some assms show ?thesis
      by (simp add: renderFrame_letterbox frame_ops_def draw_letterbox_eq ctx_simps)
  qed
qed

section \<open>Properties of renderFrame\<close>

text \<open>
  C1. An aligned render (alignment on, a face detected) clears the whole canvas and then
  draws the image through a matrix that maps the midpoint between the two eye centroids
  exactly onto the target \<open>(0.5 * canvas.width, 0.4 * canvas.height)\<close>, whatever the
  zoom and even when the eye distance is zero.
\<close>

theorem renderFrame_eyes_center_on_target:
  assumes "js_index (images s) i = Some it" and "alignEyes s" and "detections it = Some d"
      and "ctx_clean (ctx s)"
  shows "\<exists>M. display (ctx (renderFrame i s)) = display (ctx s) @
           [FillRect affine_id ''#000'' 0 0 (real (canvas_width s)) (real (canvas_height s)),
            DrawImage M (original it) 0 0 (real (img_width (original it))) (real (img_height (original it)))]
         \<and> apply_affine M (eyesCenter (eye_geometry d)) =
             Pt (real (canvas_width s) * 0.5) (real (canvas_height s) * 0.4)"
  using renderFrame_clean_aligned [OF assms] aligned_matrix_center by blast

text \<open>
  C2. With a finite zoom \<open>z\<close> and two distinct eye centroids, the aligned render
  draws the right eye centroid at \<open>(0.5 W + W z / 2, 0.4 H)\<close> and the left one at
  \<open>(0.5 W - W z / 2, 0.4 H)\<close>: the eyes come out level, symmetric about the target,
  exactly \<open>canvas.width * zoom\<close> apart.
\<close>

theorem renderFrame_eyes_level_at_zoom_distance:
  assumes "js_index (images s) i = Some it" and "alignEyes s" and "detections it = Some d"
      and "ctx_clean (ctx s)" and "zoom s = Num z"
      and "currentEyesDist (eye_geometry d) \<noteq> 0"
  shows "\<exists>M. display (ctx (renderFrame i s)) = display (ctx s) @
           [FillRect affine_id ''#000'' 0 0 (real (canvas_width s)) (real (canvas_height s)),
            DrawImage M (original it) 0 0 (real (img_width (original it))) (real (img_height (original it)))]
         \<and> apply_affine M (rightEyeCenter (eye_geometry d)) =
             Pt (real (canvas_width s) * 0.5 + real (canvas_width s) * z / 2) (real (canvas_height s) * 0.4)
         \<and> apply_affine M (leftEyeCenter (eye_geometry d)) =
             Pt (real (canvas_width s) * 0.5 - real (canvas_width s) * z / 2) (real (canvas_height s) * 0.4)"
  using renderFrame_clean_aligned [OF assms(1-4)] aligned_matrix_eyes [OF consistent_eye_geometry assms(6)]
    assms(5) by auto

text \<open>
  C3. When the two eye centroids coincide (\<open>currentEyesDist = 0\<close>), \<open>renderFrame\<close>
  does not fall back to the letterbox: \<open>desiredEyesDist / 0\<close> is not finite, the
  canvas ignores \<open>ctx.scale\<close>, the angle is \<open>atan2(0, 0) = 0\<close>, and the image is
  drawn at its natural size, shifted so that the eye point lands on the target.
\<close>

theorem renderFrame_coincident_eyes_unscaled:
  assumes "js_index (images s) i = Some it" and "alignEyes s" and "detections it = Some d"
      and "ctx_clean (ctx s)" and "currentEyesDist (eye_geometry d) = 0"
  shows "\<exists>M. display (ctx (renderFrame i s)) = display (ctx s) @
           [FillRect affine_id ''#000'' 0 0 (real (canvas_width s)) (real (canvas_height s)),
            DrawImage M (original it) 0 0 (real (img_width (original it))) (real (img_height (original it)))]
         \<and> (\<forall>p. apply_affine M p =
               Pt (px p - px (eyesCenter (eye_geometry d)) + real (canvas_width s) * 0.5)
                  (py p - py (eyesCenter (eye_geometry d)) + real (canvas_height s) * 0.4))"
  using renderFrame_clean_aligned [OF assms(1-4)]
    aligned_matrix_degenerate [OF consistent_eye_geometry assms(5)] by auto

text \<open>
  C4. When the eyes are level (\<open>dy = 0\<close>, right eye to the right), the aligned
  matrix has no rotation component: it is the uniform scaling by
  \<open>canvas.width * zoom / dx\<close> followed by a translation.
\<close>

theorem renderFrame_level_eyes_no_rotation:
  assumes "js_index (images s) i = Some it" and "alignEyes s" and "detections it = Some d"
      and "ctx_clean (ctx s)" and "zoom s = Num z"
      and "gdy (eye_geometry d) = 0" and "0 < gdx (eye_geometry d)"
  shows "\<exists>M. display (ctx (renderFrame i s)) = display (ctx s) @
           [FillRect affine_id ''#000'' 0 0 (real (canvas_width s)) (real (canvas_height s)),
            DrawImage M (original it) 0 0 (real (img_width (original it))) (real (img_height (original it)))]
         \<and> mb M = 0 \<and> mc M = 0
         \<and> ma M = real (canvas_width s) * z / gdx (eye_geometry d)
         \<and> md M = real (canvas_width s) * z / gdx (eye_geometry d)"
  using renderFrame_clean_aligned [OF assms(1-4)]
    aligned_matrix_level [OF consistent_eye_geometry assms(6,7,5)] by auto

text \<open>
  C5. Every render leaves the context as it found it apart from what it drew: a context
  with the identity matrix and an empty save stack keeps both, so that the next frame's
  transform is not composed onto this one's (the \<open>ctx.save()\<close>/\<open>ctx.restore()\<close>
  pair of the aligned branch is balanced, the letterbox branch sets no transform).
\<close>

theorem renderFrame_keeps_ctx_clean:
  assumes "ctx_clean (ctx s)"
  shows "ctx_clean (ctx (renderFrame i s))"
  using assms renderFrame_ctm_saved [of i s] by (simp add: ctx_clean_def)

text \<open>
  C6. Without alignment, or for a frame where no face was detected, an image of positive
  size on a canvas of positive size is drawn letterboxed: untransformed, inside the
  canvas, centred on it, with the image's aspect ratio, and filling its width or its
  height.
\<close>

theorem renderFrame_letterbox_fits_centered:
  assumes "js_index (images s) i = Some it" and "\<not> alignEyes s \<or> detections it = None"
      and "ctx_clean (ctx s)" and "wf_item it"
      and "0 < canvas_width s" and "0 < canvas_height s"
  shows "\<exists>x y w h. display (ctx (renderFrame i s)) = display (ctx s) @
           [FillRect affine_id ''#000'' 0 0 (real (canvas_width s)) (real (canvas_height s)),
            DrawImage affine_id (original it) x y w h]
         \<and> 0 \<le> x \<and> x + w \<le> real (canvas_width s) \<and> 0 \<le> y \<and> y + h \<le> real (canvas_height s)
         \<and> x + w / 2 = real (canvas_width s) / 2 \<and> y + h / 2 = real (canvas_height s) / 2
         \<and> w * real (img_height (original it)) = h * real (img_width (original it))
         \<and> (w = real (canvas_width s) \<or> h = real (canvas_height s))"
proof -
  define W H w h where "W = real (canvas_width s)" and "H = real (canvas_height s)"
    and "w = real (img_width (original it))" and "h = real (img_height (original it))"
  define sc where "sc = min (W / w) (H / h)"
  define x y ww hh where "x = (W - w * sc) / 2" and "y = (H - h * sc) / 2"
    and "ww = w * sc" and "hh = h * sc"
  have pos: "0 < w" "0 < h" "0 < W" "0 < H"
    using assms(4-6) by (simp_all add: wf_item_def W_def H_def w_def h_def)
  have disp: "display (ctx (renderFrame i s)) = display (ctx s) @
      [FillRect affine_id ''#000'' 0 0 W H, DrawImage affine_id (original it) x y ww hh]"
    using assms(1-3) by (simp add: renderFrame_letterbox draw_letterbox_eq ctx_simps
        ctx_clean_def W_def H_def w_def h_def sc_def x_def y_def ww_def hh_def)
  have "0 \<le> x \<and> x + ww \<le> W \<and> 0 \<le> y \<and> y + hh \<le> H \<and> x + ww / 2 = W / 2
      \<and> y + hh / 2 = H / 2 \<and> ww * h = hh * w \<and> (ww = W \<or> hh = H)"
    using letterbox_rect [OF pos] by (simp add: sc_def x_def y_def ww_def hh_def)
  with disp show ?thesis by (auto simp: W_def H_def w_def h_def)
qed

text \<open>
  C25. Rendering is idempotent, the specification's property that building the transform
  twice gives the same matrix: a second \<open>renderFrame(i)\<close> right after the first issues
  exactly the same drawing operations, matrices included, whatever the state.
\<close>

theorem renderFrame_twice_same_frame:
  "frame_ops i (renderFrame i s) = frame_ops i s"
proof -
  obtain c where c: "renderFrame i s = s\<lparr>ctx := c\<rparr>" using renderFrame_ctx_only by blast
  then have "ctm c = ctm (ctx s)" using renderFrame_ctm_saved [of i s] by simp
  then show ?thesis using c frame_ops_ctx [of c s i] by simp
qed

section \<open>Witnesses\<close>

theorem renderFrame_eyes_center_on_target_witness:
  "\<exists>M. display (ctx (renderFrame (js_nat 0) scenarioA_state)) =
        [FillRect affine_id ''#000'' 0 0 1000 1000,
         DrawImage M (original scenarioA_item1) 0 0 1000 1000]
      \<and> apply_affine M (Pt 500 500) = Pt 500 400"
  using renderFrame_eyes_center_on_target
    [of scenarioA_state "js_nat 0" scenarioA_item1 "the (detections scenarioA_item1)"]
  by (simp add: scenario_defs geom_simps eye_geometry_angle_dist(2))

theorem renderFrame_eyes_level_at_zoom_distance_witness:
  "\<exists>M. display (ctx (renderFrame (js_nat 0) (session_with [tilted_item]))) =
        [FillRect affine_id ''#000'' 0 0 1000 1000,
         DrawImage M (original tilted_item) 0 0 1000 1000]
      \<and> apply_affine M (Pt 520 660) = Pt 625 400
      \<and> apply_affine M (Pt 400 500) = Pt 375 400"
  using renderFrame_eyes_level_at_zoom_distance
    [of "session_with [tilted_item]" "js_nat 0" tilted_item "the (detections tilted_item)" "25 / 100"]
  by (simp add: scenario_defs geom_simps eye_geometry_angle_dist(2))

theorem renderFrame_coincident_eyes_unscaled_witness:
  "\<exists>M. display (ctx (renderFrame (js_nat 0) (session_with [degenerate_item]))) =
        [FillRect affine_id ''#000'' 0 0 1000 1000,
         DrawImage M (original degenerate_item) 0 0 1000 1000]
      \<and> apply_affine M (Pt 0 0) = Pt 0 (- 100)
      \<and> apply_affine M (Pt 1000 1000) = Pt 1000 900"
  using renderFrame_coincident_eyes_unscaled
    [of "session_with [degenerate_item]" "js_nat 0" degenerate_item "the (detections degenerate_item)"]
  by (auto simp add: scenario_defs geom_simps eye_geometry_angle_dist(2))

theorem renderFrame_level_eyes_no_rotation_witness:
  "\<exists>M. display (ctx (renderFrame (js_nat 1) scenarioA_state)) =
        [FillRect affine_id ''#000'' 0 0 1000 1000,
         DrawImage M (original scenarioA_item2) 0 0 1000 1000]
      \<and> mb M = 0 \<and> mc M = 0 \<and> ma M = 5 / 4 \<and> md M = 5 / 4"
  using renderFrame_level_eyes_no_rotation
    [of scenarioA_state "js_nat 1" scenarioA_item2 "the (detections scenarioA_item2)" "25 / 100"]
  by (simp add: scenario_defs geom_simps eye_geometry_angle_dist(2))

theorem renderFrame_keeps_ctx_clean_witness:
  "ctx_clean (ctx (renderFrame (js_nat 0) scenarioA_state))"
  using renderFrame_keeps_ctx_clean [of scenarioA_state "js_nat 0"]
  by (simp add: scenarioA_state_def)

theorem renderFrame_letterbox_fits_centered_witness:
  "display (ctx (renderFrame (js_nat 0) (session_with [wide_item]))) =
     [FillRect affine_id ''#000'' 0 0 1000 1000, DrawImage affine_id (original wide_item) 0 250 1000 500]"
proof -
  have "\<exists>x y w h. display (ctx (renderFrame (js_nat 0) (session_with [wide_item]))) =
      [FillRect affine_id ''#000'' 0 0 1000 1000, DrawImage affine_id (original wide_item) x y w h]
      \<and> 0 \<le> x \<and> x + w \<le> 1000 \<and> 0 \<le> y \<and> y + h \<le> 1000
      \<and> x + w / 2 = 1000 / 2 \<and> y + h / 2 = 1000 / 2
      \<and> w * 1000 = h * 2000 \<and> (w = 1000 \<or> h = 1000)"
    using renderFrame_letterbox_fits_centered [of "session_with [wide_item]" "js_nat 0" wide_item]
    by (simp add: scenario_defs wf_item_def)
  then obtain x y w h where
    d: "display (ctx (renderFrame (js_nat 0) (session_with [wide_item]))) =
      [FillRect affine_id ''#000'' 0 0 1000 1000, DrawImage affine_id (original wide_item) x y w h]"
    and r: "x + w / 2 = 1000 / 2" "y + h / 2 = 1000 / 2" "w * 1000 = h * 2000"
      "x + w \<le> 1000" "y + h \<le> 1000" "w = 1000 \<or> h = 1000"
    by blast
  from r have "w = 1000" "h = 500" "x = 0" "y = 250" by auto
  with d show ?thesis by simp
qed

end
