(* ===== verification/AutoFit.thy ===== *)
theory AutoFit
  imports Render
begin

text \<open>
  The auto-fit solver: \<open>autoFitZoom()\<close> of \<open>src/script.js\<close> (lines 322-434). For every
  image with a detected face it rotates the four image corners about the eyes' midpoint,
  bounds the scale so that each rotated corner, scaled and moved to the target, stays
  inside the canvas (a \<open>Math.min\<close> fold that starts from \<open>Infinity\<close>), converts the
  bound to a zoom, and takes the minimum with \<open>1.0\<close> over the images; the result is
  multiplied by the margin 0.95, floored to hundredths and clamped to the slider's
  \<open>[0.1, 1.0]\<close>, stored in \<open>state.zoom\<close> and the slider, and the current frame is
  re-rendered when playback is paused. The lemmas show that the per-image bound is exactly
  the largest scale that keeps every corner inside, that it is finite and positive for a
  positive-size image, what the per-image zoom and the overall minimum are, and that the
  stored zoom lies in \<open>[0.1, 0.95]\<close> on a two-decimal grid.
\<close>

section \<open>Definitions\<close>

text \<open>Lines 376-381.\<close>

definition corners :: "image \<Rightarrow> point list" where
  "corners img =
     [Pt 0 0, Pt (real (img_width img)) 0,
      Pt (real (img_width img)) (real (img_height img)), Pt 0 (real (img_height img))]"

text \<open>One axis of one corner (lines 403-404 for x, 409-410 for y): the bound that
  \<open>0 \<le> s * rot + target \<le> extent\<close> puts on the scale \<open>s\<close>, folded into the running
  minimum.\<close>

definition axis_bound :: "real \<Rightarrow> real \<Rightarrow> real \<Rightarrow> jsnum \<Rightarrow> jsnum" where
  "axis_bound extent target rot m =
     (if rot > 0 then js_min m (Num ((extent - target) / rot))
      else if rot < 0 then js_min m (Num (- target / rot))
      else m)"

text \<open>The body of \<open>corners.forEach\<close> (lines 388-411).\<close>

definition corner_bound :: "real \<Rightarrow> real \<Rightarrow> eye_geometry \<Rightarrow> jsnum \<Rightarrow> point \<Rightarrow> jsnum" where
  "corner_bound canvasWidth canvasHeight g maxScale p =
     (let targetX = canvasWidth * 0.5;
          targetY = canvasHeight * 0.4;
          rot = corner_rot g p;
          m1 = axis_bound canvasWidth targetX (px rot) maxScale
      in axis_bound canvasHeight targetY (py rot) m1)"

text \<open>\<open>maxScaleForThisImage\<close>, from \<open>Infinity\<close> through the four corners
  (lines 376-411).\<close>

definition maxScaleForImage :: "real \<Rightarrow> real \<Rightarrow> eye_geometry \<Rightarrow> image \<Rightarrow> jsnum" where
  "maxScaleForImage canvasWidth canvasHeight g img =
     foldl (corner_bound canvasWidth canvasHeight g) PosInf (corners img)"

text \<open>Line 417: the scale bound converted to the zoom unit.\<close>

definition safeZoom :: "real \<Rightarrow> real \<Rightarrow> eye_geometry \<Rightarrow> image \<Rightarrow> jsnum" where
  "safeZoom canvasWidth canvasHeight g img =
     js_div (js_mul (maxScaleForImage canvasWidth canvasHeight g img) (Num (currentEyesDist g)))
            (Num canvasWidth)"

text \<open>The body of \<open>state.images.forEach\<close> (lines 344-419): images without a detection
  are skipped.\<close>

definition fit_step :: "real \<Rightarrow> real \<Rightarrow> jsnum \<Rightarrow> item \<Rightarrow> jsnum" where
  "fit_step canvasWidth canvasHeight minSafeZoom it =
     (case detections it of
        None \<Rightarrow> minSafeZoom
      | Some d \<Rightarrow> js_min minSafeZoom (safeZoom canvasWidth canvasHeight (eye_geometry d) (original it)))"

text \<open>\<open>minSafeZoom\<close>, from \<open>1.0\<close> through all images (lines 337-419).\<close>

definition minSafeZoom :: "real \<Rightarrow> real \<Rightarrow> item list \<Rightarrow> jsnum" where
  "minSafeZoom canvasWidth canvasHeight items = foldl (fit_step canvasWidth canvasHeight) (Num 1) items"

text \<open>Lines 422-425: margin, floor to hundredths, clamp to the slider's range.\<close>

definition clampedZoom :: "jsnum \<Rightarrow> jsnum" where
  "clampedZoom minSafe =
     (let finalZoom = js_div (js_floor (js_mul (js_mul minSafe (Num 0.95)) (Num 100))) (Num 100)
      in js_max (Num 0.1) (js_min (Num 1) finalZoom))"

text \<open>The handler (lines 322-434): nothing without images; otherwise show the overlay's
  "Calculating optimal zoom..." text, store the zoom, write \<open>Math.round(zoom * 100)\<close> to
  the slider, hide the overlay, and re-render when paused.\<close>

definition autoFitZoom :: "app_state \<Rightarrow> app_state" where
  "autoFitZoom s =
     (if images s = [] then s
      else
        let s0 = showLoading ''Calculating optimal zoom...'' (Num (- 1)) s;
            canvasWidth = real (canvas_width s0);
            canvasHeight = real (canvas_height s0);
            z = clampedZoom (minSafeZoom canvasWidth canvasHeight (images s0));
            s' = hideLoading (s0\<lparr>zoom := z, zoomRangeValue := slider_value z\<rparr>)
        in if \<not> isPlaying s' then renderFrame (currentFrame s') s' else s')"

text \<open>A point inside the canvas rectangle \<open>[0, W] \<times> [0, H]\<close>.\<close>

definition in_canvas :: "real \<Rightarrow> real \<Rightarrow> point \<Rightarrow> bool" where
  "in_canvas W H q \<longleftrightarrow> 0 \<le> px q \<and> px q \<le> W \<and> 0 \<le> py q \<and> py q \<le> H"

text \<open>Where a point lands under scale \<open>s\<close>: the formula of the comment at lines
  370-371, which \<open>Render.aligned_matrix_apply\<close> shows is the matrix of \<open>renderFrame\<close>.\<close>

definition landed :: "real \<Rightarrow> real \<Rightarrow> eye_geometry \<Rightarrow> real \<Rightarrow> point \<Rightarrow> point" where
  "landed W H g s p = Pt (s * px (corner_rot g p) + W * 0.5) (s * py (corner_rot g p) + H * 0.4)"

text \<open>A running bound that is \<open>Infinity\<close> or a positive number.\<close>

definition scale_bound_ok :: "jsnum \<Rightarrow> bool" where
  "scale_bound_ok v \<longleftrightarrow> v = PosInf \<or> (\<exists>x. v = Num x \<and> 0 < x)"

section \<open>The per-axis bound is exact\<close>

lemma axis_bound_exact:
  assumes "0 \<le> s" and "0 \<le> t" and "t \<le> E"
  shows "js_le_num s (axis_bound E t rot m) = (js_le_num s m \<and> 0 \<le> s * rot + t \<and> s * rot + t \<le> E)"
proof (cases "rot > 0")
  case True
  have "(s \<le> (E - t) / rot) = (s * rot + t \<le> E)"
    using True by (simp add: pos_le_divide_eq algebra_simps)
  moreover have "0 \<le> s * rot + t" using True assms by simp
  ultimately show ?thesis using True by (simp add: axis_bound_def)
next
  case False
  show ?thesis
  proof (cases "rot < 0")
    case True
    have n: "0 < - rot" using True by simp
    have "- t / rot = t / (- rot)" by simp
    then have "(s \<le> - t / rot) = (s * (- rot) \<le> t)"
      using pos_le_divide_eq [OF n, of s t] by simp
    then have "(s \<le> - t / rot) = (0 \<le> s * rot + t)" by linarith
    moreover have "s * rot + t \<le> E"
      using True assms mult_nonneg_nonpos [of s rot] by linarith
    ultimately show ?thesis using True by (simp add: axis_bound_def)
  next
    case False
    with \<open>\<not> rot > 0\<close> have "rot = 0" by simp
    then show ?thesis using assms by (simp add: axis_bound_def)
  qed
qed

lemma corner_bound_exact:
  assumes "0 \<le> s" and "0 \<le> W" and "0 \<le> H"
  shows "js_le_num s (corner_bound W H g m p) = (js_le_num s m \<and> in_canvas W H (landed W H g s p))"
  using assms by (simp add: corner_bound_def axis_bound_exact in_canvas_def landed_def Let_def)

lemma foldl_corner_bound_exact:
  assumes "0 \<le> s" and "0 \<le> W" and "0 \<le> H"
  shows "js_le_num s (foldl (corner_bound W H g) m ps) =
           (js_le_num s m \<and> (\<forall>p\<in>set ps. in_canvas W H (landed W H g s p)))"
  by (induction ps arbitrary: m) (auto simp: corner_bound_exact [OF assms])

lemma maxScaleForImage_exact:
  assumes "0 \<le> s" and "0 \<le> W" and "0 \<le> H"
  shows "js_le_num s (maxScaleForImage W H g img) =
           (\<forall>p\<in>set (corners img). in_canvas W H (landed W H g s p))"
  using foldl_corner_bound_exact [OF assms, of g PosInf] by (simp add: maxScaleForImage_def)

section \<open>The per-image bound is finite and positive\<close>

lemma axis_bound_ok:
  assumes "0 < t" and "t < E" and "scale_bound_ok m"
  shows "scale_bound_ok (axis_bound E t rot m)"
proof -
  have pos: "0 < (E - t) / rot" if "0 < rot" using that assms by simp
  have neg: "0 < - t / rot" if "rot < 0" using that assms by (simp add: divide_pos_neg)
  show ?thesis using assms(3) pos neg
    by (auto simp: axis_bound_def scale_bound_ok_def)
qed

lemma axis_bound_Num: "\<exists>x. axis_bound E t rot (Num a) = Num x"
  by (simp add: axis_bound_def)

lemma axis_bound_finite:
  assumes "rot \<noteq> 0" and "scale_bound_ok m"
  shows "\<exists>x. axis_bound E t rot m = Num x"
  using assms by (auto simp: axis_bound_def scale_bound_ok_def)

lemma corner_bound_ok:
  assumes "0 < W" and "0 < H" and "scale_bound_ok m"
  shows "scale_bound_ok (corner_bound W H g m p)"
  using assms by (simp add: corner_bound_def Let_def axis_bound_ok)

lemma corner_bound_Num: "\<exists>x. corner_bound W H g (Num a) p = Num x"
  using axis_bound_Num by (metis corner_bound_def)

lemma corner_bound_finite:
  assumes "0 < W" and "0 < H" and "scale_bound_ok m" and "p \<noteq> eyesCenter g"
  shows "\<exists>x. corner_bound W H g m p = Num x"
proof -
  let ?r = "corner_rot g p"
  have r: "px ?r \<noteq> 0 \<or> py ?r \<noteq> 0"
    using corner_rot_nonzero [OF assms(4)] by (auto simp: geom_simps)
  let ?m1 = "axis_bound W (W * 0.5) (px ?r) m"
  have ok1: "scale_bound_ok ?m1" using assms(1,3) by (simp add: axis_bound_ok)
  show ?thesis
  proof (cases "px ?r = 0")
    case True
    with r have "py ?r \<noteq> 0" by simp
    with ok1 show ?thesis by (simp add: corner_bound_def Let_def axis_bound_finite)
  next
    case False
    then obtain a where "?m1 = Num a" using axis_bound_finite [OF False assms(3)] by blast
    then show ?thesis by (simp add: corner_bound_def Let_def axis_bound_Num)
  qed
qed

lemma foldl_corner_bound_Num: "\<exists>x. foldl (corner_bound W H g) (Num a) ps = Num x"
proof (induction ps arbitrary: a)
  case Nil
  then show ?case by simp
next
  case (Cons p ps)
  obtain b where "corner_bound W H g (Num a) p = Num b" using corner_bound_Num by blast
  then show ?case using Cons.IH by simp
qed

lemma foldl_corner_bound_ok:
  "0 < W \<Longrightarrow> 0 < H \<Longrightarrow> scale_bound_ok m \<Longrightarrow> scale_bound_ok (foldl (corner_bound W H g) m ps)"
  by (rule foldl_invariant) (auto intro: corner_bound_ok)

text \<open>A positive-width image has two distinct top corners, so one of them is off the
  eyes' midpoint and bounds the scale: \<open>Infinity\<close> never survives the fold.\<close>

lemma maxScaleForImage_finite:
  assumes "0 < W" and "0 < H" and "0 < img_width img"
  shows "\<exists>x. maxScaleForImage W H g img = Num x \<and> 0 < x"
proof -
  let ?p0 = "Pt 0 0" and ?p1 = "Pt (real (img_width img)) 0"
  let ?m2 = "corner_bound W H g (corner_bound W H g PosInf ?p0) ?p1"
  have ok0: "scale_bound_ok PosInf" by (simp add: scale_bound_ok_def)
  have ok1: "scale_bound_ok (corner_bound W H g PosInf ?p0)"
    using assms(1,2) ok0 by (rule corner_bound_ok)
  have "\<exists>x. ?m2 = Num x"
  proof (cases "?p0 = eyesCenter g")
    case True
    then have "?p1 \<noteq> eyesCenter g" using assms(3) by (auto simp: geom_simps)
    then show ?thesis using corner_bound_finite [OF assms(1,2) ok1] by blast
  next
    case False
    then obtain a where "corner_bound W H g PosInf ?p0 = Num a"
      using corner_bound_finite [OF assms(1,2) ok0] by blast
    then show ?thesis using corner_bound_Num by simp
  qed
  then obtain a where m2: "?m2 = Num a" by blast
  have eq: "maxScaleForImage W H g img = foldl (corner_bound W H g) ?m2
      [Pt (real (img_width img)) (real (img_height img)), Pt 0 (real (img_height img))]"
    by (simp add: maxScaleForImage_def corners_def)
  obtain x where x: "maxScaleForImage W H g img = Num x"
    using foldl_corner_bound_Num eq m2 by metis
  have "scale_bound_ok (maxScaleForImage W H g img)"
    unfolding maxScaleForImage_def using assms(1,2) ok0 by (rule foldl_corner_bound_ok)
  with x show ?thesis by (simp add: scale_bound_ok_def)
qed

section \<open>From scale to zoom\<close>

lemma safeZoom_Num:
  assumes "maxScaleForImage W H g img = Num x" and "0 < W"
  shows "safeZoom W H g img = Num (x * currentEyesDist g / W)"
  using assms by (simp add: safeZoom_def)

lemma safeZoom_finite:
  assumes "0 < W" and "0 < H" and "0 < img_width img" and "consistent g"
  shows "\<exists>y. safeZoom W H g img = Num y \<and> 0 \<le> y"
proof -
  obtain x where "maxScaleForImage W H g img = Num x" "0 < x"
    using maxScaleForImage_finite [OF assms(1-3)] by blast
  then show ?thesis using assms(1) dist_nonneg [OF assms(4)] by (simp add: safeZoom_Num)
qed

text \<open>A zoom \<open>z\<close> is below the image's safe zoom exactly when, at the scale
  \<open>W * z / dist\<close> that \<open>renderFrame\<close> uses, all four corners land in the canvas.\<close>

lemma safeZoom_fits:
  assumes "0 < W" and "0 < H" and "0 < img_width img" and "0 < currentEyesDist g"
      and "0 \<le> z"
  shows "js_le_num z (safeZoom W H g img) =
           (\<forall>p\<in>set (corners img). in_canvas W H (landed W H g (W * z / currentEyesDist g) p))"
proof -
  let ?d = "currentEyesDist g"
  obtain x where x: "maxScaleForImage W H g img = Num x"
    using maxScaleForImage_finite [OF assms(1-3)] by blast
  have "(z \<le> x * ?d / W) = (W * z / ?d \<le> x)"
    using assms(1,4) by (simp add: field_simps)
  moreover have "0 \<le> W * z / ?d" using assms(1,4,5) by simp
  ultimately show ?thesis
    using maxScaleForImage_exact [of "W * z / ?d" W H g img] assms(1,2) x
    by (simp add: safeZoom_Num [OF x assms(1)])
qed

section \<open>The minimum over the images\<close>

lemma foldl_fit_step_le:
  "js_le_num z (foldl (fit_step W H) m items) =
     (js_le_num z m \<and> (\<forall>it\<in>set items. \<forall>d. detections it = Some d \<longrightarrow>
        js_le_num z (safeZoom W H (eye_geometry d) (original it))))"
  by (induction items arbitrary: m) (auto simp: fit_step_def js_le_num_min split: option.splits)

lemma minSafeZoom_le:
  "js_le_num z (minSafeZoom W H items) =
     (z \<le> 1 \<and> (\<forall>it\<in>set items. \<forall>d. detections it = Some d \<longrightarrow>
        js_le_num z (safeZoom W H (eye_geometry d) (original it))))"
  by (simp add: minSafeZoom_def foldl_fit_step_le)

lemma minSafeZoom_finite:
  assumes "0 < W" and "0 < H" and "\<forall>it\<in>set items. wf_item it"
  shows "\<exists>m. minSafeZoom W H items = Num m \<and> 0 \<le> m \<and> m \<le> 1"
  unfolding minSafeZoom_def
proof (rule foldl_invariant [where P = "\<lambda>v. \<exists>m. v = Num m \<and> 0 \<le> m \<and> m \<le> 1"])
  show "\<exists>m. Num 1 = Num m \<and> 0 \<le> m \<and> m \<le> (1::real)" by simp
next
  fix acc it
  assume acc: "\<exists>m. acc = Num m \<and> 0 \<le> m \<and> m \<le> 1" and it: "it \<in> set items"
  then obtain m where m: "acc = Num m" "0 \<le> m" "m \<le> 1" by blast
  show "\<exists>m. fit_step W H acc it = Num m \<and> 0 \<le> m \<and> m \<le> 1"
  proof (cases "detections it")
    case None
    with m show ?thesis by (simp add: fit_step_def)
  next
    case (Some d)
    have "0 < img_width (original it)" using assms(3) it by (simp add: wf_item_def)
    then obtain y where "safeZoom W H (eye_geometry d) (original it) = Num y" "0 \<le> y"
      using safeZoom_finite [OF assms(1,2)] consistent_eye_geometry by blast
    with m Some show ?thesis by (simp add: fit_step_def)
  qed
qed

section \<open>Margin, rounding and clamping\<close>

lemma clampedZoom_Num:
  "clampedZoom (Num m) = Num (max (1 / 10) (min 1 (of_int \<lfloor>95 * m\<rfloor> / 100)))"
proof -
  have "m * 0.95 * 100 = 95 * (m::real)" by simp
  then show ?thesis by (simp add: clampedZoom_def Let_def)
qed

lemma clampedZoom_range:
  assumes "m \<le> 1"
  shows "clampedZoom (Num m) = Num (max (1 / 10) (of_int \<lfloor>95 * m\<rfloor> / 100))"
    and "\<lfloor>95 * m\<rfloor> \<le> 95"
proof -
  have "95 * m \<le> (95::real)" using assms by simp
  then have "\<lfloor>95 * m\<rfloor> \<le> \<lfloor>95::real\<rfloor>" by (rule floor_mono)
  then show le95: "\<lfloor>95 * m\<rfloor> \<le> 95" by simp
  then have "of_int \<lfloor>95 * m\<rfloor> / 100 \<le> (1::real)" by simp
  then have "min 1 (of_int \<lfloor>95 * m\<rfloor> / 100) = (of_int \<lfloor>95 * m\<rfloor> / 100 :: real)"
    by (rule min_absorb2)
  then show "clampedZoom (Num m) = Num (max (1 / 10) (of_int \<lfloor>95 * m\<rfloor> / 100))"
    by (simp only: clampedZoom_Num)
qed

section \<open>The handler\<close>

lemma autoFitZoom_fields:
  assumes "images s \<noteq> []"
  shows "zoom (autoFitZoom s) =
           clampedZoom (minSafeZoom (real (canvas_width s)) (real (canvas_height s)) (images s))"
    and "zoomRangeValue (autoFitZoom s) = slider_value (zoom (autoFitZoom s))"
    and "images (autoFitZoom s) = images s"
    and "isPlaying (autoFitZoom s) = isPlaying s"
    and "currentFrame (autoFitZoom s) = currentFrame s"
    and "canvas_width (autoFitZoom s) = canvas_width s"
    and "canvas_height (autoFitZoom s) = canvas_height s"
    and "alignEyes (autoFitZoom s) = alignEyes s"
  using assms by (simp_all add: autoFitZoom_def Let_def)

lemma autoFitZoom_ui [simp]:
  "fps (autoFitZoom s) = fps s" "speedValue (autoFitZoom s) = speedValue s"
  "alignEyesActive (autoFitZoom s) = alignEyesActive s" "noAlignActive (autoFitZoom s) = noAlignActive s"
  "uploadHidden (autoFitZoom s) = uploadHidden s" "editorHidden (autoFitZoom s) = editorHidden s"
  by (simp_all add: autoFitZoom_def Let_def)

lemma autoFitZoom_ctx_clean:
  "ctx_clean (ctx s) \<Longrightarrow> ctx_clean (ctx (autoFitZoom s))"
  using renderFrame_ctm_saved by (simp add: autoFitZoom_def Let_def ctx_clean_def)

lemma autoFitZoom_value:
  assumes "wf_session s" and "images s \<noteq> []"
  obtains m where "minSafeZoom (real (canvas_width s)) (real (canvas_height s)) (images s) = Num m"
    and "0 \<le> m" and "m \<le> 1"
    and "zoom (autoFitZoom s) = Num (max (1 / 10) (of_int \<lfloor>95 * m\<rfloor> / 100))"
    and "\<lfloor>95 * m\<rfloor> \<le> 95"
proof -
  have "0 < real (canvas_width s)" "0 < real (canvas_height s)" "\<forall>it\<in>set (images s). wf_item it"
    using assms(1) by (simp_all add: wf_session_def)
  then obtain m where m: "minSafeZoom (real (canvas_width s)) (real (canvas_height s)) (images s) = Num m"
      "0 \<le> m" "m \<le> 1"
    using minSafeZoom_finite by blast
  show ?thesis
    using that [OF m] clampedZoom_range [OF m(3)] autoFitZoom_fields(1) [OF assms(2)] m(1) by simp
qed

text \<open>Corner rotations, hence the scale bound, depend on the eyes' midpoint and angle
  only, not on the eye distance.\<close>

lemma maxScaleForImage_cong:
  assumes "eyesCenter g1 = eyesCenter g2" and "angle g1 = angle g2"
  shows "maxScaleForImage W H g1 img = maxScaleForImage W H g2 img"
proof -
  have "corner_rot g1 = corner_rot g2" using assms by (simp add: corner_rot_def fun_eq_iff)
  then have "corner_bound W H g1 = corner_bound W H g2"
    by (intro ext) (simp add: corner_bound_def)
  then show ?thesis by (simp add: maxScaleForImage_def)
qed

text \<open>The stored zoom is a whole number of hundredths, between 10 and 95 of them, and
  the slider receives that number.\<close>

lemma autoFitZoom_hundredths:
  assumes "wf_session s" and "images s \<noteq> []"
  shows "\<exists>k::int. zoom (autoFitZoom s) = Num (of_int k / 100) \<and> 10 \<le> k \<and> k \<le> 95
           \<and> zoomRangeValue (autoFitZoom s) = int_to_string k"
proof -
  obtain m :: real where z: "zoom (autoFitZoom s) = Num (max (1 / 10) (of_int \<lfloor>95 * m\<rfloor> / 100))"
      and le: "\<lfloor>95 * m\<rfloor> \<le> 95"
    by (rule autoFitZoom_value [OF assms])
  define k where "k = max 10 \<lfloor>95 * m\<rfloor>"
  have zk: "max (1 / 10) (of_int \<lfloor>95 * m\<rfloor> / 100) = (of_int k / 100 :: real)"
    by (auto simp: k_def max_def)
  have "zoomRangeValue (autoFitZoom s) = int_to_string k"
    using autoFitZoom_fields(2) [OF assms(2)] z zk by simp
  moreover have "10 \<le> k" "k \<le> 95" using le by (simp_all add: k_def)
  ultimately show ?thesis using z zk by auto
qed

section \<open>Properties of autoFitZoom\<close>

text \<open>
  C7. For a positive-size image on a positive-size canvas, the bound
  \<open>maxScaleForThisImage\<close> that \<open>autoFitZoom\<close> computes is a positive number
  (never the \<open>Infinity\<close> it starts from), and it is exactly the largest scale at which all
  four image corners, rotated about the eyes' midpoint, scaled and moved to the target,
  land inside the canvas: a scale keeps every corner in if and only if it is at most
  the bound.
\<close>

theorem maxScaleForImage_largest_safe_scale:
  assumes "0 < W" and "0 < H" and "0 < img_width img"
  shows "\<exists>x. 0 < x \<and> maxScaleForImage W H g img = Num x
            \<and> (\<forall>s\<ge>0. (\<forall>p\<in>set (corners img). in_canvas W H (landed W H g s p)) = (s \<le> x))"
proof -
  obtain x where x: "maxScaleForImage W H g img = Num x" "0 < x"
    using maxScaleForImage_finite [OF assms] by blast
  have "\<forall>s\<ge>0. (\<forall>p\<in>set (corners img). in_canvas W H (landed W H g s p)) = (s \<le> x)"
    using maxScaleForImage_exact [of _ W H g img] assms(1,2) x(1) by simp
  with x show ?thesis by blast
qed

text \<open>
  C8. On a well-formed session with at least one image, \<open>autoFitZoom\<close> stores a finite
  zoom between 0.1 and 0.95 that is a whole number of hundredths, and writes that number
  of hundredths to the zoom slider, as the decimal string of that integer.
\<close>

theorem autoFitZoom_zoom_range:
  assumes "wf_session s" and "images s \<noteq> []"
  shows "\<exists>k::int. zoom (autoFitZoom s) = Num (of_int k / 100) \<and> 10 \<le> k \<and> k \<le> 95
           \<and> zoomRangeValue (autoFitZoom s) = int_to_string k"
  using assms by (rule autoFitZoom_hundredths)

text \<open>
  C9. A single detected frame whose two eye centroids coincide drives the auto-fit zoom
  to the slider minimum 0.1, whatever the other frames: its eye distance is 0, so its
  \<open>safeZoom = maxScale * 0 / width\<close> is 0 and becomes the minimum. It is not excluded
  from the bound.
\<close>

theorem autoFitZoom_coincident_eyes_forces_minimum:
  assumes "wf_session s" and "it \<in> set (images s)" and "detections it = Some d"
      and "currentEyesDist (eye_geometry d) = 0"
  shows "zoom (autoFitZoom s) = Num (1 / 10)"
proof -
  have ne: "images s \<noteq> []" using assms(2) by auto
  obtain m where m: "minSafeZoom (real (canvas_width s)) (real (canvas_height s)) (images s) = Num m"
      and m0: "0 \<le> m" and z: "zoom (autoFitZoom s) = Num (max (1 / 10) (of_int \<lfloor>95 * m\<rfloor> / 100))"
    using autoFitZoom_value [OF assms(1) ne] by blast
  have pos: "0 < real (canvas_width s)" "0 < real (canvas_height s)" "0 < img_width (original it)"
    using assms(1,2) by (auto simp: wf_session_def wf_item_def)
  obtain x where "maxScaleForImage (real (canvas_width s)) (real (canvas_height s))
                    (eye_geometry d) (original it) = Num x"
    using maxScaleForImage_finite [OF pos] by blast
  then have sz: "safeZoom (real (canvas_width s)) (real (canvas_height s)) (eye_geometry d) (original it) = Num 0"
    using assms(4) pos(1) by (simp add: safeZoom_Num)
  have "js_le_num m (minSafeZoom (real (canvas_width s)) (real (canvas_height s)) (images s))"
    using m by simp
  then have "m \<le> 0" using minSafeZoom_le assms(2,3) sz by fastforce
  with m0 have "m = 0" by simp
  with z show ?thesis by simp
qed

text \<open>
  C10. Holding the eyes' midpoint, the eye angle and the image fixed, a smaller eye
  distance gives a strictly smaller safe zoom for that image: \<open>safeZoom\<close> is the
  distance-independent scale bound times the eye distance over the canvas width.
\<close>

theorem safeZoom_grows_with_eye_distance:
  assumes "0 < W" and "0 < H" and "0 < img_width img"
      and "eyesCenter g1 = eyesCenter g2" and "angle g1 = angle g2"
      and "currentEyesDist g1 < currentEyesDist g2"
  shows "\<exists>z1 z2. safeZoom W H g1 img = Num z1 \<and> safeZoom W H g2 img = Num z2 \<and> z1 < z2"
proof -
  obtain x where x1: "maxScaleForImage W H g1 img = Num x" and x0: "0 < x"
    using maxScaleForImage_finite [OF assms(1-3)] by blast
  have x2: "maxScaleForImage W H g2 img = Num x"
    using x1 maxScaleForImage_cong [OF assms(4,5)] by simp
  have "x * currentEyesDist g1 / W < x * currentEyesDist g2 / W"
    using x0 assms(1,6) by (simp add: divide_strict_right_mono)
  then show ?thesis using safeZoom_Num [OF x1 assms(1)] safeZoom_Num [OF x2 assms(1)] by blast
qed

text \<open>
  C28. Scenario B of the specification: when every detected frame could be drawn at zoom
  1.0 without clipping, the solver does not return a larger value: the minimum stays at
  its start value 1.0 and the stored zoom is the maximum times the margin, 0.95. This
  includes a session in which no frame has a detected face, where the specification
  keeps 1.0.
\<close>

theorem autoFitZoom_roomy_frames_capped:
  assumes "wf_session s" and "images s \<noteq> []"
      and "\<forall>it\<in>set (images s). \<forall>d. detections it = Some d \<longrightarrow>
             js_le_num 1 (safeZoom (real (canvas_width s)) (real (canvas_height s)) (eye_geometry d) (original it))"
  shows "zoom (autoFitZoom s) = Num (95 / 100)"
proof -
  let ?W = "real (canvas_width s)" and ?H = "real (canvas_height s)"
  obtain m where m: "minSafeZoom ?W ?H (images s) = Num m" "m \<le> 1"
    using minSafeZoom_finite [of ?W ?H "images s"] assms(1) by (auto simp: wf_session_def)
  have "js_le_num 1 (minSafeZoom ?W ?H (images s))" using assms(3) by (simp add: minSafeZoom_le)
  then have "m = 1" using m by simp
  then show ?thesis using m by (simp add: autoFitZoom_fields(1) [OF assms(2)] clampedZoom_Num)
qed

section \<open>Witnesses\<close>

theorem maxScaleForImage_largest_safe_scale_witness:
  "maxScaleForImage 1000 1000 (eye_geometry (the (detections scenarioA_item1))) (original scenarioA_item1)
     = Num (4 / 5)
   \<and> in_canvas 1000 1000 (landed 1000 1000 (eye_geometry (the (detections scenarioA_item1))) (4 / 5) (Pt 0 0))
   \<and> in_canvas 1000 1000 (landed 1000 1000 (eye_geometry (the (detections scenarioA_item1))) (4 / 5) (Pt 1000 0))
   \<and> in_canvas 1000 1000 (landed 1000 1000 (eye_geometry (the (detections scenarioA_item1))) (4 / 5) (Pt 1000 1000))
   \<and> in_canvas 1000 1000 (landed 1000 1000 (eye_geometry (the (detections scenarioA_item1))) (4 / 5) (Pt 0 1000))
   \<and> \<not> in_canvas 1000 1000 (landed 1000 1000 (eye_geometry (the (detections scenarioA_item1))) (9 / 10) (Pt 0 0))"
proof -
  let ?g = "eye_geometry (the (detections scenarioA_item1))" and ?img = "original scenarioA_item1"
  have m: "maxScaleForImage 1000 1000 ?g ?img = Num (4 / 5)"
    by (simp add: scenario_geometry maxScaleForImage_def corners_def corner_bound_def
        corner_rot_def axis_bound_def scenario_defs Let_def)
  obtain x where "maxScaleForImage 1000 1000 ?g ?img = Num x"
      and x: "\<forall>s\<ge>0. (\<forall>p\<in>set (corners ?img). in_canvas 1000 1000 (landed 1000 1000 ?g s p)) = (s \<le> x)"
    using maxScaleForImage_largest_safe_scale [of 1000 1000 ?img ?g] by (auto simp: scenario_defs)
  with m have x45: "x = 4 / 5" by simp
  have cs: "corners ?img = [Pt 0 0, Pt 1000 0, Pt 1000 1000, Pt 0 1000]"
    by (simp add: corners_def scenario_defs)
  have "\<forall>p\<in>set (corners ?img). in_canvas 1000 1000 (landed 1000 1000 ?g (4 / 5) p)"
    using x x45 by simp
  moreover have "\<not> in_canvas 1000 1000 (landed 1000 1000 ?g (9 / 10) (Pt 0 0))"
    by (simp add: scenario_defs scenario_geometry landed_def corner_rot_def in_canvas_def)
  ultimately show ?thesis using m cs by auto
qed

lemma scenarioA_autofit_zoom: "zoom (autoFitZoom scenarioA_state) = Num (15 / 100)"
  by (simp add: autoFitZoom_def minSafeZoom_def fit_step_def safeZoom_def maxScaleForImage_def
      corners_def corner_bound_def corner_rot_def axis_bound_def scenario_defs scenario_geometry
      Let_def clampedZoom_Num)

theorem autoFitZoom_zoom_range_witness:
  "zoom (autoFitZoom scenarioA_state) = Num (15 / 100)
   \<and> zoomRangeValue (autoFitZoom scenarioA_state) = ''15''"
proof -
  have "wf_session scenarioA_state"
    by (simp add: scenarioA_state_def session_with_wf scenario_items_wf)
  then obtain k :: int where "zoom (autoFitZoom scenarioA_state) = Num (of_int k / 100)"
      "zoomRangeValue (autoFitZoom scenarioA_state) = int_to_string k"
    using autoFitZoom_zoom_range [of scenarioA_state] by (auto simp: scenario_defs)
  moreover have "int_to_string 15 = ''15''"
    by (simp add: int_to_string_def nat_digits.simps digit_char_def decimal_digits_def)
  ultimately show ?thesis using scenarioA_autofit_zoom by simp
qed

theorem autoFitZoom_coincident_eyes_forces_minimum_witness:
  "zoom (autoFitZoom (session_with [scenarioA_item1, degenerate_item])) = Num (1 / 10)"
  using autoFitZoom_coincident_eyes_forces_minimum
    [of "session_with [scenarioA_item1, degenerate_item]" degenerate_item
        "the (detections degenerate_item)"]
  by (simp add: session_with_wf scenario_items_wf scenario_geometry)
     (simp add: scenario_defs scenario_geometry)

theorem safeZoom_grows_with_eye_distance_witness:
  "\<exists>z1 z2.
     safeZoom 1000 1000 \<lparr>leftEyeCenter = Pt 450 500, rightEyeCenter = Pt 550 500,
       eyesCenter = Pt 500 500, angle = 0, currentEyesDist = 100\<rparr> (original scenarioA_item1) = Num z1
   \<and> safeZoom 1000 1000 \<lparr>leftEyeCenter = Pt 400 500, rightEyeCenter = Pt 600 500,
       eyesCenter = Pt 500 500, angle = 0, currentEyesDist = 200\<rparr> (original scenarioA_item1) = Num z2
   \<and> z1 < z2"
  by (rule safeZoom_grows_with_eye_distance) (simp_all add: scenario_defs)

theorem autoFitZoom_roomy_frames_capped_witness:
  "zoom (autoFitZoom (session_with [roomy_item])) = Num (95 / 100)"
proof -
  have "safeZoom 1000 1000 (eye_geometry (the (detections roomy_item))) (original roomy_item) = Num 1"
    by (simp add: scenario_geometry safeZoom_def maxScaleForImage_def corners_def corner_bound_def
        corner_rot_def axis_bound_def scenario_defs Let_def)
  then show ?thesis
    using autoFitZoom_roomy_frames_capped [of "session_with [roomy_item]"]
    by (simp add: session_with_wf scenario_items_wf) (simp add: scenario_defs)
qed

end
