(* ===== verification/Session.thy ===== *)
theory Session
  imports AutoFit
begin

text \<open>
  The playback sequencer and the UI handlers, with the part of the host they rely on.
  The browser keeps a queue of \<open>requestAnimationFrame\<close> callbacks, each with a numeric
  id that \<open>cancelAnimationFrame\<close> removes; once per display frame it takes the callbacks
  queued so far and runs them in order with the frame's timestamp. \<open>startPlayback\<close>
  (lines 226-247) creates a fresh closure \<open>loop\<close> with its own \<open>lastTime\<close>; the model
  numbers these closures and keeps their \<open>lastTime\<close> in \<open>last_time\<close>. A host state is
  the app state together with that queue, the pending asynchronous jobs and the alerts
  shown. The lemmas give each operation's effect, the
  behaviour of a tick of the loop, and what happens when playback is started twice
  before its first frame.
\<close>

section \<open>The host\<close>

text \<open>A file of the upload: its name and MIME type.\<close>

record upload_file =
  fname :: string
  ftype :: string

text \<open>A pending upload loop: the accepted \<open>files\<close> of the closure and those still to
  process (the loop index is the number already processed).\<close>

record ingest_job =
  job_files :: "upload_file list"
  job_rest :: "upload_file list"

text \<open>A GIF export whose encoder is still running: whether playback was on, the
  frames handed to \<open>gif.addFrame\<close> (the drawing operations of each rendered frame and
  its delay), and the encoder's options \<open>width\<close>, \<open>height\<close> and \<open>workerScript\<close>.\<close>

record gif_job =
  gif_wasPlaying :: bool
  gif_frames :: "(draw_op list \<times> jsnum) list"
  gif_width :: nat
  gif_height :: nat
  gif_worker :: string

text \<open>A video export: whether playback was on, the file extension chosen, the next loop
  index, where in the canvas's drawing the recording started, and, once
  \<open>mediaRecorder.stop()\<close> ran, what was recorded.\<close>

record mp4_job =
  mp4_wasPlaying :: bool
  mp4_ext :: string
  mp4_next :: nat
  mp4_rec_start :: nat
  mp4_recorded :: "draw_op list option"

record host =
  st :: app_state
  raf_queue :: "(nat \<times> nat) list"
  next_raf :: nat
  last_time :: "nat \<Rightarrow> real"
  loops :: nat
  ingest_jobs :: "ingest_job list"
  gif_jobs :: "gif_job list"
  mp4_jobs :: "mp4_job list"
  alerts :: "string list"

text \<open>\<open>requestAnimationFrame(loop_k)\<close>: queue the callback and return its id (ids start
  at 1, so a returned id is truthy).\<close>

definition request_frame :: "nat \<Rightarrow> host \<Rightarrow> nat \<times> host" where
  "request_frame k h =
     (next_raf h, h\<lparr>raf_queue := raf_queue h @ [(next_raf h, k)], next_raf := Suc (next_raf h)\<rparr>)"

text \<open>\<open>if (state.animationId) cancelAnimationFrame(state.animationId)\<close>.\<close>

definition cancel_frame :: "nat option \<Rightarrow> host \<Rightarrow> host" where
  "cancel_frame a h =
     (case a of
        None \<Rightarrow> h
      | Some i \<Rightarrow> h\<lparr>raf_queue := filter (\<lambda>(j, _). j \<noteq> i) (raf_queue h)\<rparr>)"

text \<open>Lines 226-247. The id of the first \<open>requestAnimationFrame(loop)\<close> is not stored.\<close>

definition startPlayback :: "host \<Rightarrow> host" where
  "startPlayback h =
     (let h1 = cancel_frame (animationId (st h)) h;
          k = loops h1;
          h2 = h1\<lparr>st := (st h1)\<lparr>isPlaying := True, currentFrame := Num 0\<rparr>,
                  last_time := (last_time h1)(k := 0), loops := Suc k\<rparr>
      in snd (request_frame k h2))"

text \<open>Lines 233-244: one run of the closure \<open>loop\<close> of the \<open>k\<close>-th \<open>startPlayback\<close>.\<close>

definition loop :: "nat \<Rightarrow> real \<Rightarrow> host \<Rightarrow> host" where
  "loop k timestamp h =
     (if \<not> isPlaying (st h) then h
      else
        let interval = js_div (Num 1000) (Num (of_int (fps (st h))));
            h1 = (if js_less interval (Num (timestamp - last_time h k))
                  then let s1 = renderFrame (currentFrame (st h)) (st h);
                           s2 = s1\<lparr>currentFrame :=
                                  js_mod (js_add (currentFrame s1) (Num 1)) (js_nat (length (images s1)))\<rparr>
                       in h\<lparr>st := s2, last_time := (last_time h)(k := timestamp)\<rparr>
                  else h);
            (i, h2) = request_frame k h1
        in h2\<lparr>st := (st h2)\<lparr>animationId := Some i\<rparr>\<rparr>)"

text \<open>One display frame at time \<open>t\<close>: the callbacks queued so far run in order; those
  they queue wait for the next frame.\<close>

definition animation_frame :: "real \<Rightarrow> host \<Rightarrow> host" where
  "animation_frame t h = foldl (\<lambda>h' (i, k). loop k t h') (h\<lparr>raf_queue := []\<rparr>) (raf_queue h)"

text \<open>Lines 436-443.\<close>

definition resetApp :: "host \<Rightarrow> host" where
  "resetApp h =
     (let h1 = h\<lparr>st := (st h)\<lparr>isPlaying := False\<rparr>\<rparr>;
          h2 = cancel_frame (animationId (st h1)) h1
      in h2\<lparr>st := (st h2)\<lparr>images := [], editorHidden := True, uploadHidden := False,
                             fileInputValue := []\<rparr>\<rparr>)"

text \<open>The speed slider (lines 104-107): \<open>state.fps = parseInt(value)\<close>, with \<open>v\<close> the
  integer the slider's value reads as, then the label \<open>`${state.fps} fps`\<close>.\<close>

definition speedInput :: "int \<Rightarrow> host \<Rightarrow> host" where
  "speedInput v h = h\<lparr>st := (st h)\<lparr>fps := v, speedValue := int_to_string v @ '' fps''\<rparr>\<rparr>"

text \<open>The user drags the zoom slider to position \<open>k\<close>: the range input's value becomes
  the string of \<open>k\<close> (host side, before the \<open>input\<close> event).\<close>

definition move_zoom_slider :: "int \<Rightarrow> host \<Rightarrow> host" where
  "move_zoom_slider k h = h\<lparr>st := (st h)\<lparr>zoomRangeValue := int_to_string k\<rparr>\<rparr>"

text \<open>The zoom slider's \<open>input\<close> handler (lines 109-115):
  \<open>state.zoom = parseInt(e.target.value) / 100\<close>, re-render when paused.\<close>

definition zoomInput :: "host \<Rightarrow> host" where
  "zoomInput h =
     (let s = (st h)\<lparr>zoom := slider_zoom (zoomRangeValue (st h))\<rparr>
      in h\<lparr>st := (if \<not> isPlaying s \<and> images s \<noteq> [] then renderFrame (currentFrame s) s else s)\<rparr>)"

text \<open>\<open>setAlignMode\<close> (lines 133-138): the flag and the two buttons' \<open>active\<close> classes.\<close>

definition setAlignMode :: "bool \<Rightarrow> host \<Rightarrow> host" where
  "setAlignMode a h = h\<lparr>st := (st h)\<lparr>alignEyes := a, alignEyesActive := a, noAlignActive := \<not> a\<rparr>\<rparr>"

text \<open>The auto-fit button (line 117).\<close>

definition autoFitClick :: "host \<Rightarrow> host" where
  "autoFitClick h = h\<lparr>st := autoFitZoom (st h)\<rparr>"

text \<open>\<open>window.alert(msg)\<close>: the host shows the message; the model keeps the messages
  shown, in order.\<close>

definition alert :: "string \<Rightarrow> host \<Rightarrow> host" where
  "alert msg h = h\<lparr>alerts := alerts h @ [msg]\<rparr>"

text \<open>The page after \<open>init()\<close> attached the canvas and called
  \<open>showLoading('Loading AI models...')\<close> (lines 43-52): nothing queued, no jobs.\<close>

definition init_host :: host where
  "init_host =
     \<lparr>st = showLoading ''Loading AI models...'' (Num (- 1)) initial_state, raf_queue = [],
      next_raf = 1, last_time = (\<lambda>_. 0), loops = 0, ingest_jobs = [], gif_jobs = [],
      mp4_jobs = [], alerts = []\<rparr>"

text \<open>The page after scenario A's upload with a third, tilted photograph.\<close>

definition demo_host :: host where
  "demo_host = init_host\<lparr>st := session_with [scenarioA_item1, scenarioA_item2, tilted_item]\<rparr>"

text \<open>Display frames at the times \<open>ts\<close>, each more than \<open>iv\<close> milliseconds after the
  previous one (the first after \<open>t0\<close>).\<close>

fun due_times :: "real \<Rightarrow> real \<Rightarrow> real list \<Rightarrow> bool" where
  "due_times iv t0 [] = True"
| "due_times iv t0 (t # ts) = (iv < t - t0 \<and> due_times iv t ts)"

section \<open>Basic facts\<close>

text \<open>A slider event at position \<open>k\<close> stores the zoom \<open>k / 100\<close>: the string the host
  writes is read back exactly.\<close>

lemma zoomInput_move:
  "zoomInput (move_zoom_slider k h) =
     (let s = (st h)\<lparr>zoomRangeValue := int_to_string k, zoom := Num (of_int k / 100)\<rparr>
      in h\<lparr>st := (if \<not> isPlaying s \<and> images s \<noteq> [] then renderFrame (currentFrame s) s else s)\<rparr>)"
  by (simp add: zoomInput_def move_zoom_slider_def Let_def)

text \<open>What a render draws does not depend on the playback fields or the slider.\<close>

lemma frame_ops_playback_fields [simp]:
  "frame_ops i (s\<lparr>isPlaying := b, currentFrame := c\<rparr>) = frame_ops i s"
  "frame_ops i (s\<lparr>currentFrame := c\<rparr>) = frame_ops i s"
  "frame_ops i (s\<lparr>currentFrame := c, animationId := a\<rparr>) = frame_ops i s"
  "frame_ops i (s\<lparr>zoomRangeValue := v\<rparr>) = frame_ops i s"
  by (simp_all add: frame_ops_def renderFrame_def Let_def split: option.splits prod.splits bool.splits)

lemma alert_fields [simp]:
  "st (alert m h) = st h" "raf_queue (alert m h) = raf_queue h" "next_raf (alert m h) = next_raf h"
  "last_time (alert m h) = last_time h" "loops (alert m h) = loops h"
  "ingest_jobs (alert m h) = ingest_jobs h" "gif_jobs (alert m h) = gif_jobs h"
  "mp4_jobs (alert m h) = mp4_jobs h" "alerts (alert m h) = alerts h @ [m]"
  by (simp_all add: alert_def)

lemma request_frame_st [simp]:
  "st (snd (request_frame k h)) = st h" "ingest_jobs (snd (request_frame k h)) = ingest_jobs h"
  "gif_jobs (snd (request_frame k h)) = gif_jobs h" "mp4_jobs (snd (request_frame k h)) = mp4_jobs h"
  by (simp_all add: request_frame_def)

lemma cancel_frame_st [simp]:
  "st (cancel_frame a h) = st h" "ingest_jobs (cancel_frame a h) = ingest_jobs h"
  "gif_jobs (cancel_frame a h) = gif_jobs h" "mp4_jobs (cancel_frame a h) = mp4_jobs h"
  "next_raf (cancel_frame a h) = next_raf h" "loops (cancel_frame a h) = loops h"
  "last_time (cancel_frame a h) = last_time h"
  by (simp_all add: cancel_frame_def split: option.splits)

lemma loop_not_playing [simp]: "\<not> isPlaying (st h) \<Longrightarrow> loop k t h = h"
  by (simp add: loop_def)

lemma foldl_loop_not_playing:
  "\<not> isPlaying (st h) \<Longrightarrow> foldl (\<lambda>h' (i, k). loop k t h') h q = h"
  by (induction q) auto

lemma loop_playing:
  assumes "isPlaying (st h)" and "0 < fps (st h)"
  shows "loop k t h =
    (let h1 = (if 1000 / of_int (fps (st h)) < t - last_time h k
               then h\<lparr>st := (renderFrame (currentFrame (st h)) (st h))\<lparr>currentFrame :=
                        js_mod (js_add (currentFrame (st h)) (Num 1)) (js_nat (length (images (st h))))\<rparr>,
                      last_time := (last_time h)(k := t)\<rparr>
               else h)
     in h1\<lparr>st := (st h1)\<lparr>animationId := Some (next_raf h)\<rparr>,
            raf_queue := raf_queue h @ [(next_raf h, k)], next_raf := Suc (next_raf h)\<rparr>)"
  using assms by (simp add: loop_def request_frame_def Let_def)

lemma animation_frame_single:
  "raf_queue h = [(i, k)] \<Longrightarrow> animation_frame t h = loop k t (h\<lparr>raf_queue := []\<rparr>)"
  by (simp add: animation_frame_def)

text \<open>A tick of a loop that is due: the frame advances, the loop is queued again, and
  the other loops' timestamps are untouched.\<close>

lemma loop_tick:
  assumes "isPlaying (st h)" and "0 < fps (st h)" and "currentFrame (st h) = js_nat c"
      and "images (st h) \<noteq> []" and "1000 / of_int (fps (st h)) < t - last_time h k"
  shows "isPlaying (st (loop k t h))" "fps (st (loop k t h)) = fps (st h)"
    "images (st (loop k t h)) = images (st h)"
    "currentFrame (st (loop k t h)) = js_nat (Suc c mod length (images (st h)))"
    "raf_queue (loop k t h) = raf_queue h @ [(next_raf h, k)]"
    "last_time (loop k t h) = (last_time h)(k := t)"
  using assms by (simp_all add: loop_playing js_mod_succ_nat)

text \<open>Whatever the rate and the clock, a tick keeps the index or advances it by one.\<close>

lemma loop_currentFrame:
  "currentFrame (st (loop k t h)) \<in>
     {currentFrame (st h), js_mod (js_add (currentFrame (st h)) (Num 1)) (js_nat (length (images (st h))))}"
  by (simp add: loop_def Let_def request_frame_def split: prod.splits)

section \<open>Properties of the playback loop\<close>

text \<open>
  C12. With one pending loop callback, playback on, a positive frame rate and more than
  \<open>1000 / fps\<close> milliseconds since the loop last drew, a display frame renders the
  current frame \<open>c\<close> and advances the index to \<open>(c + 1) mod n\<close> over the \<open>n\<close> images,
  records the time, and leaves exactly one callback of the same loop queued, whose id
  is stored in \<open>state.animationId\<close>.
\<close>

theorem animation_frame_advances_one_frame:
  assumes "raf_queue h = [(i, k)]" and "isPlaying (st h)" and "0 < fps (st h)"
      and "currentFrame (st h) = js_nat c" and "images (st h) \<noteq> []"
      and "1000 / of_int (fps (st h)) < t - last_time h k"
  shows "st (animation_frame t h) =
           (renderFrame (js_nat c) (st h))\<lparr>currentFrame := js_nat (Suc c mod length (images (st h))),
                                             animationId := Some (next_raf h)\<rparr>
         \<and> raf_queue (animation_frame t h) = [(next_raf h, k)]
         \<and> last_time (animation_frame t h) k = t"
  using assms by (simp add: animation_frame_single loop_playing js_mod_succ_nat)

text \<open>
  C13. Before the interval has elapsed a display frame draws nothing and keeps the index;
  it only queues the loop again.
\<close>

theorem animation_frame_waits_for_interval:
  assumes "raf_queue h = [(i, k)]" and "isPlaying (st h)" and "0 < fps (st h)"
      and "t - last_time h k \<le> 1000 / of_int (fps (st h))"
  shows "st (animation_frame t h) = (st h)\<lparr>animationId := Some (next_raf h)\<rparr>
         \<and> raf_queue (animation_frame t h) = [(next_raf h, k)]
         \<and> last_time (animation_frame t h) k = last_time h k"
  using assms by (simp add: animation_frame_single loop_playing)

text \<open>
  C14. \<open>startPlayback\<close> does not store the id of its first \<open>requestAnimationFrame\<close>, so
  a second call before the first display frame cannot cancel the first loop: two loop
  closures run, and the next display frame renders two frames and advances the index by
  two. The single-timeline requirement of the specification fails.
\<close>

theorem startPlayback_twice_runs_two_loops:
  assumes "raf_queue h = []" and "animationId (st h) = None"
      and "images (st h) \<noteq> []" and "0 < fps (st h)" and "1000 / of_int (fps (st h)) < t"
  shows "length (raf_queue (startPlayback (startPlayback h))) = 2
         \<and> currentFrame (st (animation_frame t (startPlayback (startPlayback h)))) =
              js_nat (2 mod length (images (st h)))
         \<and> length (raf_queue (animation_frame t (startPlayback (startPlayback h)))) = 2"
proof -
  let ?n = "length (images (st h))" and ?k = "loops h" and ?r = "next_raf h"
  let ?h2 = "startPlayback (startPlayback h)"
  have q: "raf_queue ?h2 = [(?r, ?k), (Suc ?r, Suc ?k)]"
    using assms(1,2) by (simp add: startPlayback_def cancel_frame_def request_frame_def Let_def)
  have s2: "isPlaying (st ?h2)" "fps (st ?h2) = fps (st h)" "images (st ?h2) = images (st h)"
      "currentFrame (st ?h2) = js_nat 0" "last_time ?h2 ?k = 0" "last_time ?h2 (Suc ?k) = 0"
    using assms(2) by (simp_all add: startPlayback_def cancel_frame_def request_frame_def Let_def js_nat_def)
  let ?a = "loop ?k t (?h2\<lparr>raf_queue := []\<rparr>)"
  have a: "isPlaying (st ?a)" "fps (st ?a) = fps (st h)" "images (st ?a) = images (st h)"
      "currentFrame (st ?a) = js_nat (Suc 0 mod ?n)" "last_time ?a (Suc ?k) = 0"
      "length (raf_queue ?a) = 1"
    using loop_tick [of "?h2\<lparr>raf_queue := []\<rparr>" 0 t ?k] s2 assms(3-5) by simp_all
  have b: "currentFrame (st (loop (Suc ?k) t ?a)) = js_nat (Suc (Suc 0 mod ?n) mod ?n)"
      "length (raf_queue (loop (Suc ?k) t ?a)) = 2"
    using loop_tick [of ?a "Suc 0 mod ?n" t "Suc ?k"] a assms(3-5) by simp_all
  have "Suc (Suc 0 mod ?n) mod ?n = 2 mod ?n" by (simp add: mod_Suc_eq numeral_2_eq_2)
  then show ?thesis using q b by (simp add: animation_frame_def)
qed

text \<open>
  C15. \<open>resetApp\<close> stops every loop, however many are queued (even the two of C15): at the
  next display frame each pending callback returns at its \<open>isPlaying\<close> test without
  rendering or re-requesting, so the queue is empty and the state unchanged. No render
  fires after the session is torn down.
\<close>

theorem resetApp_stops_all_loops:
  "st (animation_frame t (resetApp h)) = st (resetApp h)
   \<and> raf_queue (animation_frame t (resetApp h)) = []"
proof -
  have "\<not> isPlaying (st (resetApp h\<lparr>raf_queue := []\<rparr>))"
    by (simp add: resetApp_def Let_def)
  then show ?thesis
    by (simp add: animation_frame_def foldl_loop_not_playing)
qed

text \<open>
  C16. Scenario D: whatever the new rate set by the speed slider, a display frame with one
  loop queued leaves the index at \<open>c\<close> or advances it to \<open>(c + 1) mod n\<close>: a speed change
  neither skips nor repeats a frame.
\<close>

theorem speedInput_advances_at_most_one:
  assumes "raf_queue h = [(i, k)]" and "currentFrame (st h) = js_nat c" and "images (st h) \<noteq> []"
  shows "currentFrame (st (animation_frame t (speedInput v h))) \<in>
           {js_nat c, js_nat (Suc c mod length (images (st h)))}"
proof -
  have "raf_queue (speedInput v h) = [(i, k)]" "currentFrame (st (speedInput v h)) = js_nat c"
      "images (st (speedInput v h)) = images (st h)"
    using assms by (simp_all add: speedInput_def)
  then show ?thesis
    using loop_currentFrame [of k t "speedInput v h\<lparr>raf_queue := []\<rparr>"] assms(3)
    by (auto simp: animation_frame_single js_mod_succ_nat)
qed

text \<open>
  C27. Playback shows the photographs in order, cyclically: from index \<open>c\<close>, display
  frames that each come more than \<open>1000 / fps\<close> after the previous draw add, in that
  order, exactly the frames \<open>c, c + 1, ...\<close> modulo the number of photographs, one per
  display frame, each as \<open>renderFrame\<close> draws it.
\<close>

theorem playback_shows_frames_in_order:
  assumes "raf_queue h = [(i, k)]" and "isPlaying (st h)" and "0 < fps (st h)"
      and "currentFrame (st h) = js_nat c" and "c < length (images (st h))"
      and "due_times (1000 / of_int (fps (st h))) (last_time h k) ts"
  shows "display (ctx (st (foldl (\<lambda>h t. animation_frame t h) h ts))) =
           display (ctx (st h)) @
           concat (map (\<lambda>m. frame_ops (js_nat ((c + m) mod length (images (st h)))) (st h)) [0..<length ts])"
  using assms
proof (induction ts arbitrary: h i c)
  case Nil
  then show ?case by simp
next
  case (Cons t ts)
  let ?n = "length (images (st h))" and ?h1 = "animation_frame t h"
  have st1: "st ?h1 = (renderFrame (js_nat c) (st h))\<lparr>currentFrame := js_nat (Suc c mod ?n),
                                                       animationId := Some (next_raf h)\<rparr>"
    and q1: "raf_queue ?h1 = [(next_raf h, k)]" and l1: "last_time ?h1 k = t"
    using Cons.prems by (auto simp: animation_frame_single loop_playing js_mod_succ_nat)
  obtain c1 where r: "renderFrame (js_nat c) (st h) = (st h)\<lparr>ctx := c1\<rparr>"
    using renderFrame_ctx_only by blast
  have m: "ctm c1 = ctm (ctx (st h))" using r renderFrame_ctm_saved [of "js_nat c" "st h"] by simp
  have fo: "frame_ops x (st ?h1) = frame_ops x (st h)" for x
    using frame_ops_ctx [OF m, of x] by (simp add: st1 r)
  have d1: "display (ctx (st ?h1)) = display (ctx (st h)) @ frame_ops (js_nat c) (st h)"
    using renderFrame_display [of "js_nat c" "st h"] by (simp add: st1)
  have f1: "isPlaying (st ?h1)" "fps (st ?h1) = fps (st h)" "images (st ?h1) = images (st h)"
    using Cons.prems(2) by (simp_all add: st1)
  have "display (ctx (st (foldl (\<lambda>h t. animation_frame t h) ?h1 ts))) =
          display (ctx (st ?h1)) @
          concat (map (\<lambda>m. frame_ops (js_nat ((Suc c mod ?n + m) mod ?n)) (st h)) [0..<length ts])"
  proof -
    have p: "0 < fps (st ?h1)" "currentFrame (st ?h1) = js_nat (Suc c mod ?n)"
        "Suc c mod ?n < length (images (st ?h1))"
        "due_times (1000 / of_int (fps (st ?h1))) (last_time ?h1 k) ts"
      using Cons.prems f1 l1 by (simp_all add: st1, cases ?n, simp_all)
    show ?thesis using Cons.IH [OF q1 f1(1) p] fo f1(3) by simp
  qed
  moreover have "(Suc c mod ?n + m) mod ?n = (c + Suc m) mod ?n" for m by (simp add: mod_add_left_eq)
  moreover have "[0..<Suc (length ts)] = 0 # map Suc [0..<length ts]"
    by (simp add: upt_conv_Cons map_Suc_upt del: upt_Suc)
  ultimately show ?case using d1 Cons.prems(5) by (simp add: comp_def del: upt_Suc)
qed

section \<open>Witnesses\<close>

lemmas demo_host_defs = demo_host_def init_host_def scenario_defs

theorem animation_frame_advances_one_frame_witness:
  "currentFrame (st (animation_frame 150 (startPlayback demo_host))) = js_nat 1
   \<and> raf_queue (animation_frame 150 (startPlayback demo_host)) = [(2, 0)]
   \<and> last_time (animation_frame 150 (startPlayback demo_host)) 0 = 150"
  using animation_frame_advances_one_frame [of "startPlayback demo_host" 1 0 0 150]
  by (simp add: demo_host_defs startPlayback_def cancel_frame_def request_frame_def js_nat_def)

theorem animation_frame_waits_for_interval_witness:
  "currentFrame (st (animation_frame 60 (startPlayback demo_host))) = Num 0
   \<and> raf_queue (animation_frame 60 (startPlayback demo_host)) = [(2, 0)]"
  using animation_frame_waits_for_interval [of "startPlayback demo_host" 1 0 60]
  by (simp add: demo_host_defs startPlayback_def cancel_frame_def request_frame_def)

theorem startPlayback_twice_runs_two_loops_witness:
  "currentFrame (st (animation_frame 150 (startPlayback (startPlayback demo_host)))) = js_nat 2
   \<and> length (raf_queue (animation_frame 150 (startPlayback (startPlayback demo_host)))) = 2"
  using startPlayback_twice_runs_two_loops [of demo_host 150]
  by (simp add: demo_host_defs)

theorem speedInput_advances_at_most_one_witness:
  "currentFrame (st (animation_frame 600 (speedInput 2 (startPlayback demo_host)))) \<in> {js_nat 0, js_nat 1}"
  using speedInput_advances_at_most_one [of "startPlayback demo_host" 1 0 0 600 2]
  by (simp add: demo_host_defs startPlayback_def cancel_frame_def request_frame_def js_nat_def)

theorem playback_shows_frames_in_order_witness:
  "display (ctx (st (foldl (\<lambda>h t. animation_frame t h) (startPlayback demo_host) [150, 300, 450, 600]))) =
     concat (map (\<lambda>m. frame_ops (js_nat (m mod 3)) (st (startPlayback demo_host))) [0..<4])"
proof -
  have "raf_queue (startPlayback demo_host) = [(1, 0)]" "isPlaying (st (startPlayback demo_host))"
      "fps (st (startPlayback demo_host)) = 10" "currentFrame (st (startPlayback demo_host)) = js_nat 0"
      "length (images (st (startPlayback demo_host))) = 3" "last_time (startPlayback demo_host) 0 = 0"
      "display (ctx (st (startPlayback demo_host))) = []"
    by (simp_all add: demo_host_defs startPlayback_def cancel_frame_def request_frame_def js_nat_def)
  then show ?thesis
    using playback_shows_frames_in_order [of "startPlayback demo_host" 1 0 0 "[150, 300, 450, 600]"]
    by (simp add: upt_rec)
qed

end
