(* ===== verification/Ingestion.thy ===== *)
theory Ingestion
  imports Session
begin

text \<open>
  Ingestion: the outcomes of \<open>init()\<close>'s model loading and worker preload, and
  \<open>handleFiles\<close> (lines 140-209) with the file filter, the per-file pipeline (HEIC
  conversion, \<open>loadImage\<close>, \<open>detectFace\<close>), the progress overlay of every iteration and
  the canvas sizing at the end. The loop of \<open>handleFiles\<close> awaits the host for every
  file, so other events can run between two files; the model makes the pending loop a job
  of the host (the closure's files and those still to process) and each file one step, whose outcome the host decides: whether the HEIC
  conversion succeeded, the decoded image or a load error, and the detector's result.
  The main lemma shows that, run without interference, the job computes the synchronous
  skip-and-continue pipeline of the specification's design notes; the others give the
  overlay during and after the loop.
\<close>

section \<open>The file filter\<close>

text \<open>\<open>String.prototype.toLowerCase\<close> on the ASCII letters; file names are byte strings
  here, and no other character lowercases to one of the letters of \<open>.heic\<close>/\<open>.heif\<close>.\<close>

definition lower_ascii :: "char \<Rightarrow> char" where
  "lower_ascii c =
     (let n = (of_char c :: nat) in if 65 \<le> n \<and> n \<le> 90 then char_of (n + 32) else c)"

definition toLowerCase :: "string \<Rightarrow> string" where
  "toLowerCase s = map lower_ascii s"

definition startsWith :: "string \<Rightarrow> string \<Rightarrow> bool" where
  "startsWith s p \<longleftrightarrow> take (length p) s = p"

definition endsWith :: "string \<Rightarrow> string \<Rightarrow> bool" where
  "endsWith s e \<longleftrightarrow> length e \<le> length s \<and> drop (length s - length e) s = e"

text \<open>The test of lines 148-149 and 167.\<close>

definition is_heic_name :: "string \<Rightarrow> bool" where
  "is_heic_name n \<longleftrightarrow> endsWith (toLowerCase n) ''.heic'' \<or> endsWith (toLowerCase n) ''.heif''"

text \<open>The filter of lines 146-150.\<close>

definition accepted :: "upload_file \<Rightarrow> bool" where
  "accepted f \<longleftrightarrow> startsWith (ftype f) ''image/'' \<or> is_heic_name (fname f)"

section \<open>The pipeline\<close>

text \<open>What the host decides for one file: whether \<open>heic2any\<close> resolved, the image
  \<open>loadImage\<close> resolved with (\<open>None\<close>: \<open>onerror\<close>), and what \<open>detectFace\<close> resolved with.\<close>

type_synonym outcome = "bool \<times> image option \<times> detection option"

text \<open>The \<open>try\<close> block of lines 163-190 for one file: \<open>None\<close> when it throws (the
  \<open>catch\<close> only warns), otherwise the entry it pushes.\<close>

definition process_file :: "upload_file \<Rightarrow> bool \<Rightarrow> image option \<Rightarrow> detection option \<Rightarrow> item option" where
  "process_file f conv img det =
     (if is_heic_name (fname f) \<and> \<not> conv then None
      else case img of
             None \<Rightarrow> None
           | Some i \<Rightarrow> Some \<lparr>original = i, detections = det\<rparr>)"

text \<open>The model loading of \<open>init()\<close> succeeding (lines 64-65).\<close>

definition modelsLoaded :: "host \<Rightarrow> host" where
  "modelsLoaded h = h\<lparr>st := hideLoading ((st h)\<lparr>isModelLoaded := True\<rparr>)\<rparr>"

text \<open>The \<open>catch\<close> of \<open>init()\<close> (lines 76-78): a model failed to load.\<close>

definition modelsFailed :: "host \<Rightarrow> host" where
  "modelsFailed h = h\<lparr>st := showLoading ''Error loading AI models. Please refresh.'' (Num (- 1)) (st h)\<rparr>"

text \<open>The preload of lines 69-74 resolving: \<open>state.gifWorkerBlob\<close> takes the object URL
  the host made for the fetched worker script.\<close>

definition gifWorkerLoaded :: "string \<Rightarrow> host \<Rightarrow> host" where
  "gifWorkerLoaded url h = h\<lparr>st := (st h)\<lparr>gifWorkerBlob := Some url\<rparr>\<rparr>"

text \<open>The start of the \<open>i\<close>-th iteration of the loop (lines 161-168), with \<open>rest\<close> the
  files from the \<open>i\<close>-th on: the progress \<open>Math.round(i / files.length * 100)\<close> and
  its text, then the conversion text for a HEIC file, up to the first \<open>await\<close>.\<close>

definition file_start :: "upload_file list \<Rightarrow> upload_file list \<Rightarrow> app_state \<Rightarrow> app_state" where
  "file_start files rest s =
     (let i = length files - length rest;
          progress = js_round (js_mul (js_div (js_nat i) (js_nat (length files))) (Num 100));
          s1 = showLoading (''Processing image '' @ int_to_string (int i + 1) @ '' of ''
                 @ int_to_string (int (length files)) @ ''...'') progress s
      in if is_heic_name (fname (hd rest))
         then showLoading (''Converting HEIC image '' @ int_to_string (int i + 1) @ ''...'') progress s1
         else s1)"

text \<open>Lines 140-168: the guards, the overlay, then \<open>state.images = []\<close> and the loop,
  pending at its first \<open>await\<close>.\<close>

definition handleFiles :: "upload_file list \<Rightarrow> host \<Rightarrow> host" where
  "handleFiles fl h =
     (if \<not> isModelLoaded (st h) then alert ''Models are still loading, please wait...'' h
      else let files = filter accepted fl in
        if files = [] then h
        else let s1 = showLoading (''Processing '' @ int_to_string (int (length files)) @ '' images...'')
                        (Num (- 1)) (st h)
             in h\<lparr>st := file_start files files (s1\<lparr>uploadHidden := True, editorHidden := False, images := []\<rparr>),
                  ingest_jobs := ingest_jobs h @ [\<lparr>job_files = files, job_rest = files\<rparr>]\<rparr>)"

text \<open>Lines 198-200: \<open>canvas.width = w; canvas.height = h\<close>, each resetting the context.\<close>

definition resize_canvas :: "nat \<Rightarrow> nat \<Rightarrow> app_state \<Rightarrow> app_state" where
  "resize_canvas w hh s =
     s\<lparr>canvas_width := w, canvas_height := hh, ctx := ctx_reset (ctx_reset (ctx s))\<rparr>"

text \<open>Lines 196-208, after the last file.\<close>

definition finish_ingest :: "host \<Rightarrow> host" where
  "finish_ingest h =
     (if images (st h) \<noteq> []
      then let first = original (hd (images (st h)))
           in startPlayback (h\<lparr>st := hideLoading (resize_canvas (img_width first) (img_height first) (st h))\<rparr>)
      else resetApp (alert ''No valid images found.'' h))"

text \<open>One iteration of the loop of lines 159-194 for the \<open>j\<close>-th pending upload: push
  the entry if the file went through, then either wait for the next file or finish.\<close>

definition ingest_result :: "nat \<Rightarrow> bool \<Rightarrow> image option \<Rightarrow> detection option \<Rightarrow> host \<Rightarrow> host" where
  "ingest_result j conv img det h =
     (if length (ingest_jobs h) \<le> j then h
      else let job = ingest_jobs h ! j in
        case job_rest job of
          [] \<Rightarrow> h
        | f # rest \<Rightarrow>
            let s1 = (st h)\<lparr>images := images (st h) @
                       (case process_file f conv img det of None \<Rightarrow> [] | Some it \<Rightarrow> [it])\<rparr>
            in if rest = [] then finish_ingest (h\<lparr>st := s1, ingest_jobs := remove_at j (ingest_jobs h)\<rparr>)
               else h\<lparr>st := file_start (job_files job) rest s1,
                      ingest_jobs := (ingest_jobs h)[j := job\<lparr>job_rest := rest\<rparr>]\<rparr>)"

text \<open>The specification's synchronous pipeline (design notes): the entries of the files
  that went through, in input order.\<close>

fun ingested :: "upload_file list \<Rightarrow> outcome list \<Rightarrow> item list" where
  "ingested (f # fs) ((c, i, d) # os) =
     (case process_file f c i d of None \<Rightarrow> ingested fs os | Some it \<Rightarrow> it # ingested fs os)"
| "ingested _ _ = []"

text \<open>The drop zone's listeners (lines 84-97): \<open>dragover\<close> and \<open>dragleave\<close> set and
  clear the \<open>drag-over\<close> class; \<open>drop\<close> clears it and hands the files to
  \<open>handleFiles\<close>.\<close>

definition dragOverZone :: "host \<Rightarrow> host" where
  "dragOverZone h = h\<lparr>st := (st h)\<lparr>dragOver := True\<rparr>\<rparr>"

definition dragLeaveZone :: "host \<Rightarrow> host" where
  "dragLeaveZone h = h\<lparr>st := (st h)\<lparr>dragOver := False\<rparr>\<rparr>"

definition dropFiles :: "upload_file list \<Rightarrow> host \<Rightarrow> host" where
  "dropFiles fl h = handleFiles fl (h\<lparr>st := (st h)\<lparr>dragOver := False\<rparr>\<rparr>)"

text \<open>A session in which the models have loaded.\<close>

definition ready_host :: host where
  "ready_host = init_host\<lparr>st := initial_state\<lparr>isModelLoaded := True\<rparr>\<rparr>"

section \<open>Lemmas\<close>

text \<open>The rules that evaluate the file filter on literal names and types.\<close>

lemmas filter_eval = accepted_def startsWith_def is_heic_name_def endsWith_def toLowerCase_def
  lower_ascii_def char_of_def bit_Suc_0_iff

text \<open>The start of an iteration changes the overlay only, and shows it.\<close>

lemma file_start_overlay [simp]:
  "erase_overlay (file_start fs r s) = erase_overlay s" "loadingVisible (file_start fs r s)"
  "images (file_start fs r s) = images s" "ctx (file_start fs r s) = ctx s"
  "isPlaying (file_start fs r s) = isPlaying s" "currentFrame (file_start fs r s) = currentFrame s"
  "fps (file_start fs r s) = fps s" "animationId (file_start fs r s) = animationId s"
  "isModelLoaded (file_start fs r s) = isModelLoaded s" "alignEyes (file_start fs r s) = alignEyes s"
  "zoom (file_start fs r s) = zoom s" "canvas_width (file_start fs r s) = canvas_width s"
  "canvas_height (file_start fs r s) = canvas_height s"
  by (simp_all add: file_start_def Let_def)

lemma handleFiles_ready:
  assumes "isModelLoaded (st h)" and "filter accepted fl \<noteq> []"
  shows "handleFiles fl h =
           h\<lparr>st := file_start (filter accepted fl) (filter accepted fl)
                   ((showLoading (''Processing '' @ int_to_string (int (length (filter accepted fl)))
                       @ '' images...'') (Num (- 1)) (st h))\<lparr>uploadHidden := True, editorHidden := False,
                    images := []\<rparr>),
             ingest_jobs := ingest_jobs h @ [\<lparr>job_files = filter accepted fl, job_rest = filter accepted fl\<rparr>]\<rparr>"
  using assms by (simp add: handleFiles_def Let_def)

text \<open>An upload loop run to its end without interference: up to the overlay, the state
  it finishes with holds the entries of the files that went through; the overlay is still
  shown.\<close>

lemma ingest_fold:
  assumes "ingest_jobs h = [job]" and "job_rest job = fs" and "length outs = length fs"
      and "fs \<noteq> []" and "loadingVisible (st h)"
  shows "\<exists>s'. foldl (\<lambda>h (c, i, d). ingest_result 0 c i d h) h outs =
                finish_ingest (h\<lparr>st := s', ingest_jobs := []\<rparr>)
           \<and> erase_overlay s' = erase_overlay ((st h)\<lparr>images := images (st h) @ ingested fs outs\<rparr>)
           \<and> loadingVisible s'"
  using assms
proof (induction outs arbitrary: fs h job)
  case Nil
  then show ?case by simp
next
  case (Cons oc os)
  obtain f rest where fs: "fs = f # rest" using Cons.prems(4) by (cases fs) auto
  obtain c i d where oc: "oc = (c, i, d)" by (cases oc) auto
  define new where "new = (case process_file f c i d of None \<Rightarrow> [] | Some it \<Rightarrow> [it])"
  define s1 where "s1 = (st h)\<lparr>images := images (st h) @ new\<rparr>"
  have ing: "ingested fs (oc # os) = new @ ingested rest os"
    by (simp add: fs oc new_def split: option.splits)
  have step: "ingest_result 0 c i d h =
      (if rest = [] then finish_ingest (h\<lparr>st := s1, ingest_jobs := []\<rparr>)
       else h\<lparr>st := file_start (job_files job) rest s1, ingest_jobs := [job\<lparr>job_rest := rest\<rparr>]\<rparr>)"
    using Cons.prems(1,2) fs by (simp add: ingest_result_def s1_def new_def)
  show ?case
  proof (cases "rest = []")
    case True
    then have "os = []" using Cons.prems(3) fs by simp
    then show ?thesis using True step ing Cons.prems(5) by (intro exI [of _ s1]) (simp add: oc s1_def)
  next
    case False
    let ?h1 = "h\<lparr>st := file_start (job_files job) rest s1, ingest_jobs := [job\<lparr>job_rest := rest\<rparr>]\<rparr>"
    have "\<exists>s'. foldl (\<lambda>h (c, i, d). ingest_result 0 c i d h) ?h1 os =
                finish_ingest (?h1\<lparr>st := s', ingest_jobs := []\<rparr>)
           \<and> erase_overlay s' = erase_overlay ((st ?h1)\<lparr>images := images (st ?h1) @ ingested rest os\<rparr>)
           \<and> loadingVisible s'"
      using False Cons.prems(3) fs
      by (intro Cons.IH [where fs = rest and h = ?h1 and job = "job\<lparr>job_rest := rest\<rparr>"]) simp_all
    then obtain s' where "foldl (\<lambda>h (c, i, d). ingest_result 0 c i d h) ?h1 os =
                finish_ingest (?h1\<lparr>st := s', ingest_jobs := []\<rparr>)"
        "erase_overlay s' = erase_overlay ((st ?h1)\<lparr>images := images (st ?h1) @ ingested rest os\<rparr>)"
        "loadingVisible s'" by blast
    then show ?thesis using False step ing by (intro exI [of _ s']) (simp add: oc s1_def)
  qed
qed

text \<open>An upload started with the models loaded and run to its end without interference.\<close>

lemma handleFiles_run:
  assumes "isModelLoaded (st h)" and "ingest_jobs h = []"
      and "filter accepted fl \<noteq> []" and "length outs = length (filter accepted fl)"
  obtains s' where "foldl (\<lambda>h (c, i, d). ingest_result 0 c i d h) (handleFiles fl h) outs =
                      finish_ingest (h\<lparr>st := s', ingest_jobs := []\<rparr>)"
    and "images s' = ingested (filter accepted fl) outs" and "loadingVisible s'"
proof -
  let ?fs = "filter accepted fl"
  let ?h0 = "handleFiles fl h"
  have h0: "ingest_jobs ?h0 = [\<lparr>job_files = ?fs, job_rest = ?fs\<rparr>]" "loadingVisible (st ?h0)"
      "images (st ?h0) = []" "?h0\<lparr>st := s', ingest_jobs := []\<rparr> = h\<lparr>st := s', ingest_jobs := []\<rparr>" for s'
    using assms by (simp_all add: handleFiles_def Let_def)
  obtain s' where s': "foldl (\<lambda>h (c, i, d). ingest_result 0 c i d h) ?h0 outs =
                finish_ingest (?h0\<lparr>st := s', ingest_jobs := []\<rparr>)"
      "erase_overlay s' = erase_overlay ((st ?h0)\<lparr>images := images (st ?h0) @ ingested ?fs outs\<rparr>)"
      "loadingVisible s'"
    using ingest_fold [OF h0(1) _ assms(4) assms(3) h0(2)] by auto
  have "images s' = ingested ?fs outs" using erase_overlay_eqD(1) [OF s'(2)] h0(3) by simp
  then show ?thesis using that s'(1,3) h0(4) by simp
qed

text \<open>What the overlay shows at the start of the \<open>k\<close>-th iteration.\<close>

lemma file_start_shows:
  assumes "k < length files"
  shows "loadingVisible (file_start files (drop k files) s)
       \<and> progressVisible (file_start files (drop k files) s)
       \<and> progressWidth (file_start files (drop k files) s) =
            int_to_string \<lfloor>real k / real (length files) * 100 + 1 / 2\<rfloor> @ ''%''
       \<and> loadingText (file_start files (drop k files) s) =
            (if is_heic_name (fname (files ! k))
             then ''Converting HEIC image '' @ int_to_string (int k + 1) @ ''...''
             else ''Processing image '' @ int_to_string (int k + 1) @ '' of ''
                    @ int_to_string (int (length files)) @ ''...'')"
proof -
  let ?z = "\<lfloor>real k / real (length files) * 100 + 1 / 2\<rfloor>"
  have n: "0 < length files" using assms by (cases files) auto
  have "js_round (js_mul (js_div (js_nat k) (js_nat (length files))) (Num 100)) = Num (of_int ?z)"
    using n by (simp add: js_nat_def)
  moreover have "length files - length (drop k files) = k" using assms by simp
  moreover have "hd (drop k files) = files ! k" using assms by (simp add: hd_drop_conv_nth)
  ultimately show ?thesis by (simp add: file_start_def showLoading_def Let_def not_less divide_nonneg_nonneg)
qed

text \<open>Part of an upload loop run without interference: the job has moved on by one file
  per result, and the state is that of the start of the next iteration.\<close>

lemma ingest_partial:
  assumes "ingest_jobs h = [job]" and "job_rest job = fs" and "length outs < length fs"
      and "st h = file_start (job_files job) fs sa"
  shows "\<exists>s'. ingest_jobs (foldl (\<lambda>h (c, i, d). ingest_result 0 c i d h) h outs) =
                [job\<lparr>job_rest := drop (length outs) fs\<rparr>]
           \<and> st (foldl (\<lambda>h (c, i, d). ingest_result 0 c i d h) h outs) =
                file_start (job_files job) (drop (length outs) fs) s'"
  using assms
proof (induction outs arbitrary: fs h job sa)
  case Nil
  then show ?case by auto
next
  case (Cons oc os)
  obtain f rest where fs: "fs = f # rest" using Cons.prems(3) by (cases fs) auto
  obtain c i d where oc: "oc = (c, i, d)" by (cases oc) auto
  have ne: "rest \<noteq> []" using Cons.prems(3) fs by auto
  let ?s1 = "(st h)\<lparr>images := images (st h) @
               (case process_file f c i d of None \<Rightarrow> [] | Some it \<Rightarrow> [it])\<rparr>"
  let ?h1 = "h\<lparr>st := file_start (job_files job) rest ?s1, ingest_jobs := [job\<lparr>job_rest := rest\<rparr>]\<rparr>"
  have step: "ingest_result 0 c i d h = ?h1"
    using Cons.prems(1,2) fs ne by (simp add: ingest_result_def)
  have "\<exists>s'. ingest_jobs (foldl (\<lambda>h (c, i, d). ingest_result 0 c i d h) ?h1 os) =
                [job\<lparr>job_rest := rest\<rparr>\<lparr>job_rest := drop (length os) rest\<rparr>]
           \<and> st (foldl (\<lambda>h (c, i, d). ingest_result 0 c i d h) ?h1 os) =
                file_start (job_files (job\<lparr>job_rest := rest\<rparr>)) (drop (length os) rest) s'"
    using Cons.prems(3) fs
    by (intro Cons.IH [where fs = rest and h = ?h1 and job = "job\<lparr>job_rest := rest\<rparr>" and sa = ?s1])
      simp_all
  then show ?case by (simp add: oc step fs)
qed

section \<open>Properties of ingestion\<close>

text \<open>
  C17. An upload processed without interference computes the specification's
  skip-and-continue pipeline: \<open>state.images\<close> holds the entries of the accepted files that
  went through, in input order. If there is one, the canvas takes the first image's size
  with its context reset and playback starts at frame 0; if none, the app is reset and
  stays paused.
\<close>

theorem handleFiles_ingests_in_order:
  assumes "isModelLoaded (st h)" and "ingest_jobs h = []"
      and "filter accepted fl \<noteq> []" and "length outs = length (filter accepted fl)"
  shows "let h' = foldl (\<lambda>h (c, i, d). ingest_result 0 c i d h) (handleFiles fl h) outs;
             its = ingested (filter accepted fl) outs
         in images (st h') = its \<and> ingest_jobs h' = [] \<and>
            (if its = [] then \<not> isPlaying (st h')
             else isPlaying (st h') \<and> currentFrame (st h') = Num 0
                  \<and> canvas_width (st h') = img_width (original (hd its))
                  \<and> canvas_height (st h') = img_height (original (hd its))
                  \<and> ctx_clean (ctx (st h')))"
proof -
  obtain s' where run: "foldl (\<lambda>h (c, i, d). ingest_result 0 c i d h) (handleFiles fl h) outs =
                          finish_ingest (h\<lparr>st := s', ingest_jobs := []\<rparr>)"
      and im: "images s' = ingested (filter accepted fl) outs"
    using assms by (rule handleFiles_run)
  show ?thesis unfolding run
    by (simp add: im finish_ingest_def resize_canvas_def startPlayback_def resetApp_def
        request_frame_def hideLoading_def Let_def)
qed

text \<open>
  C31. The loading overlay at the end of an upload processed without interference: when
  some file went through it is hidden and no message is shown; when every accepted file
  failed, the code shows the alert "No valid images found." and resets the app, but never
  calls \<open>hideLoading\<close>, so the overlay stays shown over the upload screen.
\<close>

theorem handleFiles_overlay:
  assumes "isModelLoaded (st h)" and "ingest_jobs h = []"
      and "filter accepted fl \<noteq> []" and "length outs = length (filter accepted fl)"
  shows "let h' = foldl (\<lambda>h (c, i, d). ingest_result 0 c i d h) (handleFiles fl h) outs
         in if ingested (filter accepted fl) outs = []
            then loadingVisible (st h') \<and> alerts h' = alerts h @ [''No valid images found.'']
                 \<and> images (st h') = [] \<and> \<not> isPlaying (st h')
            else \<not> loadingVisible (st h') \<and> alerts h' = alerts h"
proof -
  obtain s' where run: "foldl (\<lambda>h (c, i, d). ingest_result 0 c i d h) (handleFiles fl h) outs =
                          finish_ingest (h\<lparr>st := s', ingest_jobs := []\<rparr>)"
      and im: "images s' = ingested (filter accepted fl) outs" and vis: "loadingVisible s'"
    using assms by (rule handleFiles_run)
  show ?thesis unfolding run
    by (simp add: im vis finish_ingest_def resize_canvas_def startPlayback_def resetApp_def
        request_frame_def cancel_frame_def Let_def split: option.splits)
qed

text \<open>
  C33. The progress shown while an upload is processed without interference: after
  \<open>k\<close> of the \<open>n\<close> accepted files (\<open>k < n\<close>), the loop is at file \<open>k\<close>, the overlay and the
  progress bar are shown, the bar's width is \<open>Math.round(k / n * 100)%\<close>, and the text is
  "Processing image k+1 of n..." or, for a HEIC file, "Converting HEIC image k+1...".
\<close>

theorem upload_progress_overlay:
  assumes "isModelLoaded (st h)" and "ingest_jobs h = []"
      and "k < length (filter accepted fl)" and "length outs = k"
  shows "let h' = foldl (\<lambda>h (c, i, d). ingest_result 0 c i d h) (handleFiles fl h) outs;
             fs = filter accepted fl
         in ingest_jobs h' = [\<lparr>job_files = fs, job_rest = drop k fs\<rparr>]
            \<and> loadingVisible (st h') \<and> progressVisible (st h')
            \<and> progressWidth (st h') = int_to_string \<lfloor>real k / real (length fs) * 100 + 1 / 2\<rfloor> @ ''%''
            \<and> loadingText (st h') =
                 (if is_heic_name (fname (fs ! k))
                  then ''Converting HEIC image '' @ int_to_string (int k + 1) @ ''...''
                  else ''Processing image '' @ int_to_string (int k + 1) @ '' of ''
                         @ int_to_string (int (length fs)) @ ''...'')"
proof -
  let ?fs = "filter accepted fl"
  have "?fs \<noteq> []" using assms(3) by auto
  then obtain s' where s': "ingest_jobs (foldl (\<lambda>h (c, i, d). ingest_result 0 c i d h) (handleFiles fl h) outs) =
                [\<lparr>job_files = ?fs, job_rest = drop k ?fs\<rparr>]"
      "st (foldl (\<lambda>h (c, i, d). ingest_result 0 c i d h) (handleFiles fl h) outs) =
                file_start ?fs (drop k ?fs) s'"
    using ingest_partial [of "handleFiles fl h" "\<lparr>job_files = ?fs, job_rest = ?fs\<rparr>" ?fs outs]
      assms by (auto simp: handleFiles_ready)
  show ?thesis unfolding Let_def s' using file_start_shows [OF assms(3)] by simp
qed

text \<open>
  C35. Reset does not cancel an upload: if the reset button is clicked while the files of
  an upload are still being processed, \<open>resetApp\<close> shows the upload screen and empties
  \<open>state.images\<close>, but the pending loop goes on; when its files are in, the entries of
  those that went through are back in \<open>state.images\<close> and playback runs, while the
  editor stays hidden behind the upload screen.
\<close>

theorem reset_during_upload_plays_hidden:
  assumes "isModelLoaded (st h)" and "ingest_jobs h = []"
      and "filter accepted fl \<noteq> []" and "length outs = length (filter accepted fl)"
      and "ingested (filter accepted fl) outs \<noteq> []"
  shows "let h' = foldl (\<lambda>h (c, i, d). ingest_result 0 c i d h) (resetApp (handleFiles fl h)) outs
         in images (st h') = ingested (filter accepted fl) outs \<and> isPlaying (st h')
            \<and> editorHidden (st h') \<and> \<not> uploadHidden (st h') \<and> \<not> loadingVisible (st h')"
proof -
  let ?fs = "filter accepted fl"
  let ?h1 = "resetApp (handleFiles fl h)"
  have h1: "ingest_jobs ?h1 = [\<lparr>job_files = ?fs, job_rest = ?fs\<rparr>]" "loadingVisible (st ?h1)"
      "images (st ?h1) = []" "editorHidden (st ?h1)" "\<not> uploadHidden (st ?h1)"
    using assms by (simp_all add: handleFiles_ready resetApp_def Let_def)
  obtain s' where run: "foldl (\<lambda>h (c, i, d). ingest_result 0 c i d h) ?h1 outs =
                finish_ingest (?h1\<lparr>st := s', ingest_jobs := []\<rparr>)"
      and E: "erase_overlay s' = erase_overlay ((st ?h1)\<lparr>images := images (st ?h1) @ ingested ?fs outs\<rparr>)"
    using ingest_fold [OF h1(1) _ assms(4) assms(3) h1(2)] by auto
  have f: "images s' = ingested ?fs outs" "editorHidden s'" "\<not> uploadHidden s'"
    using erase_overlay_eqD(1,14,15) [OF E] h1(3-5) by simp_all
  show ?thesis unfolding Let_def run
    using assms(5) f by (simp add: finish_ingest_def resize_canvas_def startPlayback_def
        request_frame_def Let_def)
qed

section \<open>Witnesses\<close>

theorem handleFiles_ingests_in_order_witness:
  "let h' = foldl (\<lambda>h (c, i, d). ingest_result 0 c i d h)
              (handleFiles [\<lparr>fname = ''a.jpg'', ftype = ''image/jpeg''\<rparr>,
                            \<lparr>fname = ''notes.txt'', ftype = ''text/plain''\<rparr>,
                            \<lparr>fname = ''IMG_2.HEIC'', ftype = ''''\<rparr>] ready_host)
              [(True, Some \<lparr>img_id = 1, img_width = 640, img_height = 480\<rparr>, None),
               (False, Some \<lparr>img_id = 2, img_width = 800, img_height = 600\<rparr>, None)]
   in images (st h') = [\<lparr>original = \<lparr>img_id = 1, img_width = 640, img_height = 480\<rparr>, detections = None\<rparr>]
      \<and> isPlaying (st h') \<and> canvas_width (st h') = 640 \<and> canvas_height (st h') = 480"
  using handleFiles_ingests_in_order
    [of ready_host "[\<lparr>fname = ''a.jpg'', ftype = ''image/jpeg''\<rparr>,
                     \<lparr>fname = ''notes.txt'', ftype = ''text/plain''\<rparr>,
                     \<lparr>fname = ''IMG_2.HEIC'', ftype = ''''\<rparr>]"
        "[(True, Some \<lparr>img_id = 1, img_width = 640, img_height = 480\<rparr>, None),
          (False, Some \<lparr>img_id = 2, img_width = 800, img_height = 600\<rparr>, None)]"]
  by (simp add: ready_host_def init_host_def initial_state_def filter_eval process_file_def Let_def)

theorem handleFiles_overlay_witness:
  "let h' = foldl (\<lambda>h (c, i, d). ingest_result 0 c i d h)
              (handleFiles [\<lparr>fname = ''a.jpg'', ftype = ''image/jpeg''\<rparr>] ready_host)
              [(True, None, None)]
   in loadingVisible (st h') \<and> alerts h' = [''No valid images found.'']"
  using handleFiles_overlay [of ready_host "[\<lparr>fname = ''a.jpg'', ftype = ''image/jpeg''\<rparr>]"
      "[(True, None, None)]"]
  by (simp add: ready_host_def init_host_def initial_state_def filter_eval process_file_def Let_def)

theorem upload_progress_overlay_witness:
  "let h' = foldl (\<lambda>h (c, i, d). ingest_result 0 c i d h)
              (handleFiles [\<lparr>fname = ''a.jpg'', ftype = ''image/jpeg''\<rparr>,
                            \<lparr>fname = ''b.heic'', ftype = ''image/heic''\<rparr>] ready_host)
              [(True, None, None)]
   in progressWidth (st h') = int_to_string 50 @ ''%''
      \<and> loadingText (st h') = ''Converting HEIC image '' @ int_to_string 2 @ ''...''"
proof -
  have "\<lfloor>real 1 / real 2 * 100 + 1 / 2 :: real\<rfloor> = 50" by simp
  then show ?thesis
    using upload_progress_overlay [of ready_host 1 "[\<lparr>fname = ''a.jpg'', ftype = ''image/jpeg''\<rparr>,
        \<lparr>fname = ''b.heic'', ftype = ''image/heic''\<rparr>]" "[(True, None, None)]"]
    by (simp add: ready_host_def init_host_def initial_state_def filter_eval Let_def)
qed

theorem reset_during_upload_plays_hidden_witness:
  "let h' = foldl (\<lambda>h (c, i, d). ingest_result 0 c i d h)
              (resetApp (handleFiles [\<lparr>fname = ''a.jpg'', ftype = ''image/jpeg''\<rparr>] ready_host))
              [(True, Some \<lparr>img_id = 1, img_width = 640, img_height = 480\<rparr>, None)]
   in isPlaying (st h') \<and> editorHidden (st h')"
  using reset_during_upload_plays_hidden [of ready_host "[\<lparr>fname = ''a.jpg'', ftype = ''image/jpeg''\<rparr>]"
      "[(True, Some \<lparr>img_id = 1, img_width = 640, img_height = 480\<rparr>, None)]"]
  by (simp add: ready_host_def init_host_def initial_state_def filter_eval process_file_def Let_def)

end
