(* ===== verification/Export.thy ===== *)
theory Export
  imports Session
begin

text \<open>
  Export: \<open>exportGif\<close> (lines 462-510) and \<open>exportMp4\<close> (lines 512-574). Both pause
  playback (read \<open>isPlaying\<close>, clear it, cancel \<open>state.animationId\<close>) and restart it at
  the end when it was on. The GIF export renders every frame synchronously and hands
  each canvas to the encoder, whose \<open>finished\<close> event comes later; the model keeps the
  encoder's input as a pending job. The video export records the canvas while a loop
  renders one frame per \<open>setTimeout\<close>; the model keeps the loop's index and where the
  recording started, and each timer firing is one step. The encoders, the stream capture
  and the download are the host's; a failure of the GIF constructor or of
  \<open>captureStream\<close>/\<open>new MediaRecorder\<close> is the flag \<open>ok\<close> of the export event, and
  leads to the \<open>catch\<close> block's alert. Both exports drive the loading overlay: its text
  and progress during the export, hidden at the end or on failure.
\<close>

section \<open>Pausing\<close>

text \<open>Lines 467-469 and 519-521: \<open>wasPlaying\<close>, then the paused host.\<close>

definition pause_playback :: "host \<Rightarrow> bool \<times> host" where
  "pause_playback h =
     (isPlaying (st h),
      cancel_frame (animationId (st h)) (h\<lparr>st := (st h)\<lparr>isPlaying := False\<rparr>\<rparr>))"

text \<open>\<open>if (wasPlaying) startPlayback()\<close>.\<close>

definition resume :: "bool \<Rightarrow> host \<Rightarrow> host" where
  "resume was h = (if was then startPlayback h else h)"

section \<open>GIF\<close>

text \<open>\<open>1000 / state.fps\<close>, the delay of a GIF frame and of a video frame.\<close>

definition frame_delay :: "app_state \<Rightarrow> jsnum" where
  "frame_delay s = js_div (Num 1000) (Num (of_int (fps s)))"

text \<open>One iteration of lines 482-486: render frame \<open>i\<close>, hand the canvas to the encoder,
  show the progress \<open>Math.round(i / state.images.length * 50)\<close>.\<close>

definition gif_add_frame :: "app_state \<times> (draw_op list \<times> jsnum) list \<Rightarrow> nat \<Rightarrow>
    app_state \<times> (draw_op list \<times> jsnum) list" where
  "gif_add_frame acc i =
     (let (s, fr) = acc; s' = renderFrame (js_nat i) s;
          fr' = fr @ [(frame_ops (js_nat i) s, frame_delay s')]
      in (showLoading ''Adding frames...''
            (js_round (js_mul (js_div (js_nat i) (js_nat (length (images s')))) (Num 50))) s', fr'))"

text \<open>The \<open>workerScript\<close> option of line 478: \<open>state.gifWorkerBlob\<close> when it is a
  non-empty string (truthy), else the CDN address.\<close>

definition gif_worker_default :: string where
  "gif_worker_default = ''https://cdnjs.cloudflare.com/ajax/libs/gif.js/0.2.0/gif.worker.js''"

definition workerScript :: "app_state \<Rightarrow> string" where
  "workerScript s =
     (case gifWorkerBlob s of
        Some u \<Rightarrow> if u = [] then gif_worker_default else u
      | None \<Rightarrow> gif_worker_default)"

text \<open>The \<open>catch\<close> blocks of both exports (lines 504-508 and 568-572), before
  \<open>if (wasPlaying) startPlayback()\<close>: the alert, then \<open>hideLoading()\<close>.\<close>

definition export_error :: "string \<Rightarrow> host \<Rightarrow> host" where
  "export_error msg h = (let h1 = alert msg h in h1\<lparr>st := hideLoading (st h1)\<rparr>)"

text \<open>Lines 462-503 up to \<open>gif.render()\<close>; \<open>ok\<close> is false when \<open>new GIF\<close> throws.\<close>

definition exportGif :: "bool \<Rightarrow> host \<Rightarrow> host" where
  "exportGif ok h =
     (if images (st h) = [] then h
      else let h0 = h\<lparr>st := showLoading ''Generating GIF...'' (Num 0) (st h)\<rparr>;
               (was, h1) = pause_playback h0
           in if ok
              then let s1 = st h1;
                       (s', frames) = foldl gif_add_frame (s1, []) [0..<length (images s1)]
                   in h1\<lparr>st := s', gif_jobs := gif_jobs h1 @
                        [\<lparr>gif_wasPlaying = was, gif_frames = frames, gif_width = canvas_width s1,
                          gif_height = canvas_height s1, gif_worker = workerScript s1\<rparr>]\<rparr>
              else resume was (export_error ''Failed to export GIF. See console for details.'' h1))"

text \<open>The \<open>progress\<close> handler of the \<open>j\<close>-th pending encoder (lines 488-490), with the
  fraction \<open>p\<close> the encoder reports.\<close>

definition gif_progress :: "nat \<Rightarrow> jsnum \<Rightarrow> host \<Rightarrow> host" where
  "gif_progress j p h =
     (if length (gif_jobs h) \<le> j then h
      else h\<lparr>st := showLoading ''Rendering GIF...'' (js_add (Num 50) (js_round (js_mul p (Num 50)))) (st h)\<rparr>)"

text \<open>The \<open>finished\<close> handler of the \<open>j\<close>-th pending encoder (lines 492-500); the
  download is the host's.\<close>

definition gif_finished :: "nat \<Rightarrow> host \<Rightarrow> host" where
  "gif_finished j h =
     (if length (gif_jobs h) \<le> j then h
      else resume (gif_wasPlaying (gif_jobs h ! j))
             (h\<lparr>st := hideLoading (st h), gif_jobs := remove_at j (gif_jobs h)\<rparr>))"

section \<open>Video\<close>

text \<open>Lines 525-537: the MIME type and the extension, from what \<open>isTypeSupported\<close>
  answers for \<open>video/mp4\<close> and for \<open>video/webm;codecs=h264\<close>.\<close>

definition mp4_format :: "bool \<Rightarrow> bool \<Rightarrow> string \<times> string" where
  "mp4_format mp4 h264 =
     (if mp4 then (''video/mp4'', ''mp4'')
      else if h264 then (''video/webm;codecs=h264'', ''mp4'')
      else (''video/webm;codecs=vp9'', ''webm''))"

text \<open>One test of the loop of lines 558-562 for the \<open>j\<close>-th recording: render frame
  \<open>i\<close> and wait, or leave the loop and call \<open>mediaRecorder.stop()\<close>, which ends the
  recording of the canvas.\<close>

definition mp4_iteration :: "nat \<Rightarrow> host \<Rightarrow> host" where
  "mp4_iteration j h =
     (let job = mp4_jobs h ! j; i = mp4_next job
      in if i < length (images (st h))
         then h\<lparr>st := renderFrame (js_nat i) (st h),
                mp4_jobs := (mp4_jobs h)[j := job\<lparr>mp4_next := Suc i\<rparr>]\<rparr>
         else h\<lparr>mp4_jobs := (mp4_jobs h)[j := job\<lparr>mp4_recorded :=
                  Some (drop (mp4_rec_start job) (display (ctx (st h))))\<rparr>]\<rparr>)"

text \<open>Lines 512-564 up to the first \<open>await\<close>; \<open>ok\<close> is false when \<open>captureStream\<close> or
  \<open>new MediaRecorder\<close> throws.\<close>

definition exportMp4 :: "bool \<Rightarrow> bool \<Rightarrow> bool \<Rightarrow> host \<Rightarrow> host" where
  "exportMp4 ok mp4 h264 h =
     (if images (st h) = [] then h
      else let h0 = h\<lparr>st := showLoading ''Generating Video...'' (Num (- 1)) (st h)\<rparr>;
               (was, h1) = pause_playback h0
           in if ok
              then let job = \<lparr>mp4_wasPlaying = was, mp4_ext = snd (mp4_format mp4 h264), mp4_next = 0,
                               mp4_rec_start = length (display (ctx (st h1))), mp4_recorded = None\<rparr>
                   in mp4_iteration (length (mp4_jobs h1)) (h1\<lparr>mp4_jobs := mp4_jobs h1 @ [job]\<rparr>)
              else resume was (export_error
                     ''Failed to export video. Your browser might not support MediaRecorder.'' h1))"

text \<open>The \<open>setTimeout\<close> of line 561 firing for the \<open>j\<close>-th recording.\<close>

definition mp4_timer :: "nat \<Rightarrow> host \<Rightarrow> host" where
  "mp4_timer j h =
     (if j < length (mp4_jobs h) \<and> mp4_recorded (mp4_jobs h ! j) = None then mp4_iteration j h else h)"

text \<open>\<open>mediaRecorder.onstop\<close> (lines 545-554) for the \<open>j\<close>-th recording.\<close>

definition mp4_stopped :: "nat \<Rightarrow> host \<Rightarrow> host" where
  "mp4_stopped j h =
     (if j < length (mp4_jobs h) \<and> mp4_recorded (mp4_jobs h ! j) \<noteq> None
      then resume (mp4_wasPlaying (mp4_jobs h ! j))
             (h\<lparr>st := hideLoading (st h), mp4_jobs := remove_at j (mp4_jobs h)\<rparr>)
      else h)"

section \<open>Lemmas\<close>

lemma pause_playback_st [simp]:
  "st (snd (pause_playback h)) = (st h)\<lparr>isPlaying := False\<rparr>"
  "gif_jobs (snd (pause_playback h)) = gif_jobs h"
  "mp4_jobs (snd (pause_playback h)) = mp4_jobs h"
  "fst (pause_playback h) = isPlaying (st h)"
  by (simp_all add: pause_playback_def)

lemma frame_delay_fields [simp]:
  "frame_delay (s\<lparr>isPlaying := b\<rparr>) = frame_delay s" "frame_delay (showLoading t p s) = frame_delay s"
  "frame_delay (renderFrame i s) = frame_delay s"
  by (simp_all add: frame_delay_def)

lemma frame_ops_isPlaying [simp]: "frame_ops i (s\<lparr>isPlaying := b\<rparr>) = frame_ops i s"
  by (simp add: frame_ops_def renderFrame_def Let_def split: option.splits prod.splits bool.splits)

text \<open>One iteration of the frames loop on a state that is \<open>s\<close> up to the overlay and the
  drawing so far: it hands the encoder what a render of \<open>s\<close> draws, and leaves such a
  state.\<close>

lemma gif_add_frame_step:
  assumes "erase_overlay s0 = erase_overlay (s\<lparr>ctx := c0\<rparr>)" and "ctm c0 = ctm (ctx s)"
  obtains c1 where "snd (gif_add_frame (s0, fr) x) = fr @ [(frame_ops (js_nat x) s, frame_delay s)]"
    and "erase_overlay (fst (gif_add_frame (s0, fr) x)) = erase_overlay (s\<lparr>ctx := c1\<rparr>)"
    and "ctm c1 = ctm (ctx s)"
proof -
  obtain c1 where r: "renderFrame (js_nat x) s0 = s0\<lparr>ctx := c1\<rparr>"
    using renderFrame_ctx_only by blast
  have e: "ctx s0 = c0" "fps s0 = fps s" using erase_overlay_eqD(10,5) [OF assms(1)] by simp_all
  have "ctm c1 = ctm (ctx s)"
    using renderFrame_ctm_saved [of "js_nat x" s0] r e assms(2) by simp
  moreover have "frame_ops (js_nat x) s0 = frame_ops (js_nat x) s"
    using frame_ops_erase_overlay [OF assms(1)] frame_ops_ctx [OF assms(2)] by simp
  moreover have "erase_overlay (s0\<lparr>ctx := c1\<rparr>) = erase_overlay (s\<lparr>ctx := c1\<rparr>)"
    using assms(1) by simp
  ultimately show ?thesis using that e
    by (simp add: gif_add_frame_def Let_def r frame_delay_def)
qed

text \<open>The frames loop renders frame after frame on a context whose matrix it keeps: up
  to the overlay, the state is the starting one with more drawn, and each frame is what a
  render of the starting state draws.\<close>

lemma foldl_gif_add_frame:
  assumes "erase_overlay s0 = erase_overlay (s\<lparr>ctx := c0\<rparr>)" and "ctm c0 = ctm (ctx s)"
  shows "\<exists>s' c. foldl gif_add_frame (s0, fr) xs =
                 (s', fr @ map (\<lambda>i. (frame_ops (js_nat i) s, frame_delay s)) xs)
               \<and> erase_overlay s' = erase_overlay (s\<lparr>ctx := c\<rparr>)"
  using assms
proof (induction xs arbitrary: s0 c0 fr)
  case Nil
  then show ?case by auto
next
  case (Cons x xs)
  obtain c1 where g: "snd (gif_add_frame (s0, fr) x) = fr @ [(frame_ops (js_nat x) s, frame_delay s)]"
      "erase_overlay (fst (gif_add_frame (s0, fr) x)) = erase_overlay (s\<lparr>ctx := c1\<rparr>)"
      "ctm c1 = ctm (ctx s)"
    using gif_add_frame_step [OF Cons.prems] by blast
  have "foldl gif_add_frame (s0, fr) (x # xs) =
          foldl gif_add_frame (fst (gif_add_frame (s0, fr) x), snd (gif_add_frame (s0, fr) x)) xs"
    by simp
  then show ?case using Cons.IH [OF g(2,3), of "snd (gif_add_frame (s0, fr) x)"] g(1) by auto
qed

text \<open>The frames loop of the GIF export, from the paused state.\<close>

lemma gif_frames_loop:
  "\<exists>s' c. foldl gif_add_frame (s, []) [0..<n] =
           (s', map (\<lambda>i. (frame_ops (js_nat i) s, frame_delay s)) [0..<n])
         \<and> erase_overlay s' = erase_overlay (s\<lparr>ctx := c\<rparr>)"
  using foldl_gif_add_frame [of s "ctx s" s "[]" "[0..<n]"] by auto

text \<open>A recording that has drawn frames \<open>i\<close> to \<open>n - 1\<close> ahead of it: after \<open>n - i + 1\<close>
  timer firings it has recorded frames \<open>0\<close> to \<open>n - 1\<close> in order and stopped.\<close>

lemma mp4_timers:
  assumes "mp4_jobs h = [job]" and "mp4_recorded job = None" and "mp4_next job = i"
      and "i + k = length (images s)" and "st h = s\<lparr>ctx := c\<rparr>" and "ctm c = ctm (ctx s)"
      and "display c = d0 @ concat (map (\<lambda>i. frame_ops (js_nat i) s) [0..<i])"
      and "mp4_rec_start job = length d0"
  shows "\<exists>c'. (mp4_timer 0 ^^ Suc k) h =
           h\<lparr>st := s\<lparr>ctx := c'\<rparr>,
             mp4_jobs := [job\<lparr>mp4_next := length (images s),
                             mp4_recorded := Some (concat (map (\<lambda>i. frame_ops (js_nat i) s)
                                                     [0..<length (images s)]))\<rparr>]\<rparr>"
  using assms
proof (induction k arbitrary: i h c job)
  case 0
  then show ?case
    by (intro exI [of _ c]) (simp add: mp4_timer_def mp4_iteration_def Let_def)
next
  case (Suc k)
  obtain c1 where r: "renderFrame (js_nat i) (s\<lparr>ctx := c\<rparr>) = s\<lparr>ctx := c1\<rparr>"
    using renderFrame_ctx_only [of "js_nat i" "s\<lparr>ctx := c\<rparr>"] by auto
  have m: "ctm c1 = ctm (ctx s)"
    using Suc.prems(6) renderFrame_ctm_saved [of "js_nat i" "s\<lparr>ctx := c\<rparr>"] r by simp
  have d: "display c1 = display c @ frame_ops (js_nat i) s"
  proof -
    have "display c1 = display (ctx (renderFrame (js_nat i) (s\<lparr>ctx := c\<rparr>)))" using r by simp
    also have "\<dots> = display c @ frame_ops (js_nat i) (s\<lparr>ctx := c\<rparr>)"
      by (subst renderFrame_shape) simp
    also have "\<dots> = display c @ frame_ops (js_nat i) s" using Suc.prems(6) by (simp add: frame_ops_ctx)
    finally show ?thesis .
  qed
  let ?h1 = "h\<lparr>st := s\<lparr>ctx := c1\<rparr>, mp4_jobs := [job\<lparr>mp4_next := Suc i\<rparr>]\<rparr>"
  have step: "mp4_timer 0 h = ?h1"
    using Suc.prems r by (simp add: mp4_timer_def mp4_iteration_def Let_def)
  have "\<exists>c'. (mp4_timer 0 ^^ Suc k) ?h1 =
          ?h1\<lparr>st := s\<lparr>ctx := c'\<rparr>,
             mp4_jobs := [job\<lparr>mp4_next := Suc i\<rparr>\<lparr>mp4_next := length (images s),
                             mp4_recorded := Some (concat (map (\<lambda>i. frame_ops (js_nat i) s)
                                                     [0..<length (images s)]))\<rparr>]\<rparr>"
    using Suc.prems m d by (intro Suc.IH [where job = "job\<lparr>mp4_next := Suc i\<rparr>" and i = "Suc i"]) simp_all
  then show ?case by (simp add: funpow_Suc_right step del: funpow.simps)
qed

section \<open>Properties of the exports\<close>

text \<open>
  C18. A GIF export of a non-empty session stops playback and hands the encoder exactly
  the frames \<open>0\<close> to \<open>n - 1\<close> in order, each what a render of that index draws, with delay
  \<open>1000 / fps\<close>; the index is untouched, and at the next display frame every queued loop
  callback returns without drawing, so playback and export do not interleave.
\<close>

theorem exportGif_captures_every_frame:
  assumes "images (st h) \<noteq> []"
  shows "gif_jobs (exportGif True h) =
           gif_jobs h @ [\<lparr>gif_wasPlaying = isPlaying (st h),
                          gif_frames = map (\<lambda>i. (frame_ops (js_nat i) (st h), frame_delay (st h)))
                                         [0..<length (images (st h))],
                          gif_width = canvas_width (st h), gif_height = canvas_height (st h),
                          gif_worker = workerScript (st h)\<rparr>]
         \<and> \<not> isPlaying (st (exportGif True h))
         \<and> currentFrame (st (exportGif True h)) = currentFrame (st h)
         \<and> raf_queue (animation_frame t (exportGif True h)) = []"
proof -
  let ?s = "(showLoading ''Generating GIF...'' (Num 0) (st h))\<lparr>isPlaying := False\<rparr>"
  obtain s' c where c: "foldl gif_add_frame (?s, []) [0..<length (images ?s)] =
      (s', map (\<lambda>i. (frame_ops (js_nat i) ?s, frame_delay ?s)) [0..<length (images ?s)])"
      and E: "erase_overlay s' = erase_overlay (?s\<lparr>ctx := c\<rparr>)"
    using gif_frames_loop by blast
  have p: "\<not> isPlaying s'" "currentFrame s' = currentFrame (st h)"
    using erase_overlay_eqD(3,4) [OF E] by simp_all
  have e: "exportGif True h =
      (snd (pause_playback (h\<lparr>st := showLoading ''Generating GIF...'' (Num 0) (st h)\<rparr>)))\<lparr>st := s',
        gif_jobs := gif_jobs h @
          [\<lparr>gif_wasPlaying = isPlaying (st h),
            gif_frames = map (\<lambda>i. (frame_ops (js_nat i) ?s, frame_delay ?s)) [0..<length (images ?s)],
            gif_width = canvas_width ?s, gif_height = canvas_height ?s, gif_worker = workerScript ?s\<rparr>]\<rparr>"
    using assms c by (simp add: exportGif_def pause_playback_def Let_def)
  have "\<not> isPlaying (st (exportGif True h\<lparr>raf_queue := []\<rparr>))" by (simp add: e p)
  then show ?thesis
    by (simp add: e p workerScript_def animation_frame_def foldl_loop_not_playing del: foldl_Cons)
qed

text \<open>
  C19. A video export run without interference, that is \<open>n\<close> timer firings after
  \<open>exportMp4\<close> on a session of \<open>n\<close> images with no other recording, records frames
  \<open>0\<close> to \<open>n - 1\<close> in order, each what a render of that index draws, with nothing else
  in between; \<open>onstop\<close> then removes the recording and restarts playback exactly when
  it was on.
\<close>

theorem exportMp4_records_every_frame:
  assumes "images (st h) \<noteq> []" and "mp4_jobs h = []"
  shows "let h' = (mp4_timer 0 ^^ length (images (st h))) (exportMp4 True m4 h264 h)
         in map mp4_recorded (mp4_jobs h') =
              [Some (concat (map (\<lambda>i. frame_ops (js_nat i) (st h)) [0..<length (images (st h))]))]
            \<and> \<not> isPlaying (st h')
            \<and> mp4_jobs (mp4_stopped 0 h') = []
            \<and> isPlaying (st (mp4_stopped 0 h')) = isPlaying (st h)"
proof -
  let ?s = "(showLoading ''Generating Video...'' (Num (- 1)) (st h))\<lparr>isPlaying := False\<rparr>"
    and ?n = "length (images (st h))"
  let ?job = "\<lparr>mp4_wasPlaying = isPlaying (st h), mp4_ext = snd (mp4_format m4 h264), mp4_next = 0,
               mp4_rec_start = length (display (ctx (st h))), mp4_recorded = None\<rparr>"
  let ?h2 = "(snd (pause_playback (h\<lparr>st := showLoading ''Generating Video...'' (Num (- 1)) (st h)\<rparr>)))
              \<lparr>mp4_jobs := [?job]\<rparr>"
  have e: "exportMp4 True m4 h264 h = mp4_timer 0 ?h2"
    using assms by (simp add: exportMp4_def pause_playback_def mp4_timer_def)
  obtain c' where c': "(mp4_timer 0 ^^ Suc ?n) ?h2 =
      ?h2\<lparr>st := ?s\<lparr>ctx := c'\<rparr>,
          mp4_jobs := [?job\<lparr>mp4_next := ?n, mp4_recorded := Some (concat (map (\<lambda>i. frame_ops (js_nat i) ?s) [0..<?n]))\<rparr>]\<rparr>"
    using mp4_timers [of ?h2 ?job 0 ?n ?s "ctx ?s" "display (ctx ?s)"] by auto
  have h': "(mp4_timer 0 ^^ ?n) (exportMp4 True m4 h264 h) = (mp4_timer 0 ^^ Suc ?n) ?h2"
    by (simp add: e funpow_Suc_right del: funpow.simps)
  show ?thesis
    unfolding Let_def h' c'
    by (simp add: mp4_stopped_def resume_def startPlayback_def request_frame_def Let_def)
qed

text \<open>One timer firing of a recording in progress: it draws the next frame and moves on,
  or, past the last image, stops the recorder.\<close>

lemma mp4_timer_progress:
  assumes "j < length (mp4_jobs h)" and "mp4_recorded (mp4_jobs h ! j) = None"
  shows "length (mp4_jobs (mp4_timer j h)) = length (mp4_jobs h)"
    and "images (st (mp4_timer j h)) = images (st h)"
    and "mp4_next (mp4_jobs h ! j) < length (images (st h)) \<Longrightarrow>
           mp4_next (mp4_jobs (mp4_timer j h) ! j) = Suc (mp4_next (mp4_jobs h ! j))
           \<and> mp4_recorded (mp4_jobs (mp4_timer j h) ! j) = None"
    and "\<not> mp4_next (mp4_jobs h ! j) < length (images (st h)) \<Longrightarrow>
           mp4_recorded (mp4_jobs (mp4_timer j h) ! j) \<noteq> None"
  using assms by (simp_all add: mp4_timer_def mp4_iteration_def Let_def)

text \<open>
  C26. A recording always ends: whatever the state, the \<open>j\<close>-th recording in progress,
  at loop index \<open>i\<close> over \<open>n\<close> images, has stopped its recorder after \<open>n - i + 1\<close> firings
  of its timer, so \<open>onstop\<close> can run.
\<close>

theorem mp4_recording_stops:
  assumes "j < length (mp4_jobs h)" and "mp4_recorded (mp4_jobs h ! j) = None"
  shows "mp4_recorded (mp4_jobs ((mp4_timer j ^^ Suc (length (images (st h)) - mp4_next (mp4_jobs h ! j))) h) ! j)
           \<noteq> None"
  using assms
proof (induction "length (images (st h)) - mp4_next (mp4_jobs h ! j)" arbitrary: h)
  case 0
  then show ?case using mp4_timer_progress(4) [OF 0(2,3)] by simp
next
  case (Suc k)
  let ?h1 = "mp4_timer j h"
  have lt: "mp4_next (mp4_jobs h ! j) < length (images (st h))" using Suc.hyps(2) by simp
  note p = mp4_timer_progress [OF Suc.prems]
  have "k = length (images (st ?h1)) - mp4_next (mp4_jobs ?h1 ! j)" using Suc.hyps(2) p(2) p(3) [OF lt] by simp
  then have "mp4_recorded (mp4_jobs ((mp4_timer j ^^ Suc k) ?h1) ! j) \<noteq> None"
    using Suc.hyps(1) [of ?h1] p(1) p(3) [OF lt] Suc.prems(1) by simp
  then show ?case using Suc.hyps(2) by (simp add: funpow_Suc_right del: funpow.simps)
qed

section \<open>Witnesses\<close>

theorem exportGif_captures_every_frame_witness:
  "length (gif_frames (hd (gif_jobs (exportGif True (startPlayback demo_host))))) = 3
   \<and> gif_wasPlaying (hd (gif_jobs (exportGif True (startPlayback demo_host))))
   \<and> raf_queue (animation_frame 500 (exportGif True (startPlayback demo_host))) = []"
  using exportGif_captures_every_frame [of "startPlayback demo_host" 500]
  by (simp add: demo_host_defs startPlayback_def cancel_frame_def request_frame_def)

theorem exportMp4_records_every_frame_witness:
  "let h' = (mp4_timer 0 ^^ 3) (exportMp4 True False True (startPlayback demo_host))
   in mp4_recorded (hd (mp4_jobs h')) \<noteq> None \<and> isPlaying (st (mp4_stopped 0 h'))"
proof -
  have a: "images (st (startPlayback demo_host)) \<noteq> []" "mp4_jobs (startPlayback demo_host) = []"
      "length (images (st (startPlayback demo_host))) = 3" "isPlaying (st (startPlayback demo_host))"
    by (simp_all add: demo_host_defs startPlayback_def cancel_frame_def request_frame_def)
  show ?thesis
    using exportMp4_records_every_frame [OF a(1,2), of False True] unfolding a(3) Let_def
    by (simp add: a(4) map_eq_Cons_conv del: funpow.simps) (metis list.sel(1))
qed

theorem mp4_recording_stops_witness:
  "mp4_recorded (mp4_jobs ((mp4_timer 0 ^^ 3) (exportMp4 True True False (startPlayback demo_host))) ! 0)
     \<noteq> None"
proof -
  obtain h where h: "h = exportMp4 True True False (startPlayback demo_host)" by blast
  have "mp4_jobs h \<noteq> []" "mp4_recorded (mp4_jobs h ! 0) = None"
      "length (images (st h)) = 3" "mp4_next (mp4_jobs h ! 0) = 1"
    by (simp_all add: h demo_host_defs startPlayback_def cancel_frame_def request_frame_def exportMp4_def
        pause_playback_def mp4_iteration_def Let_def)
  then show ?thesis using mp4_recording_stops [of 0 h] h by (simp add: numeral_3_eq_3)
qed

end
