(* ===== verification/Events.thy ===== *)
theory Events
  imports Ingestion Export
begin

text \<open>
  The program as a whole: every way control enters \<open>src/script.js\<close> after \<open>init()\<close>,
  as one event type, and the step function that dispatches each event to the handler
  the code registers for it: the display frame that runs the queued \<open>loop\<close> callbacks,
  the model loading succeeding or failing, the GIF worker arriving, an upload and each of
  its per-file steps, the sliders and buttons of \<open>setupEventListeners\<close>, and the
  asynchronous completions of the two exports (encoder progress and finish, recording
  timers and \<open>onstop\<close>). A run is a list of events; the reachable states are those of
  the runs from the page's initial state. The invariant of this theory holds in every
  reachable state, which includes the agreement of the zoom slider with the zoom; the
  properties at the end show which interleavings the code allows and that nothing is
  ingested before the models load.
\<close>

section \<open>Events\<close>

datatype event =
    AnimationFrame real
  | ModelsLoaded
  | ModelsFailed
  | GifWorkerLoaded string
  | HandleFiles "upload_file list"
  | DragOver
  | DragLeave
  | Drop "upload_file list"
  | IngestResult nat bool "image option" "detection option"
  | SpeedInput int
  | ZoomInput int
  | AutoFitClick
  | AlignEyesClick
  | NoAlignClick
  | ResetClick
  | ExportGifClick bool
  | GifProgress nat jsnum
  | GifFinished nat
  | ExportMp4Click bool bool bool
  | Mp4Timer nat
  | Mp4Stopped nat

text \<open>The dispatch of \<open>setupEventListeners\<close> (lines 82-131), of the host's frame
  callbacks and of the awaited results.\<close>

fun step :: "event \<Rightarrow> host \<Rightarrow> host" where
  "step (AnimationFrame t) h = animation_frame t h"
| "step ModelsLoaded h = modelsLoaded h"
| "step ModelsFailed h = modelsFailed h"
| "step (GifWorkerLoaded url) h = gifWorkerLoaded url h"
| "step (HandleFiles fl) h = handleFiles fl h"
| "step DragOver h = dragOverZone h"
| "step DragLeave h = dragLeaveZone h"
| "step (Drop fl) h = dropFiles fl h"
| "step (IngestResult j c img det) h = ingest_result j c img det h"
| "step (SpeedInput v) h = speedInput v h"
| "step (ZoomInput k) h = zoomInput (move_zoom_slider k h)"
| "step AutoFitClick h = autoFitClick h"
| "step AlignEyesClick h = setAlignMode True h"
| "step NoAlignClick h = setAlignMode False h"
| "step ResetClick h = resetApp h"
| "step (ExportGifClick ok) h = exportGif ok h"
| "step (GifProgress j p) h = gif_progress j p h"
| "step (GifFinished j) h = gif_finished j h"
| "step (ExportMp4Click ok m h264) h = exportMp4 ok m h264 h"
| "step (Mp4Timer j) h = mp4_timer j h"
| "step (Mp4Stopped j) h = mp4_stopped j h"

definition run :: "event list \<Rightarrow> host \<Rightarrow> host" where
  "run es h = foldl (\<lambda>h e. step e h) h es"

text \<open>The file input's \<open>change\<close> and the drop zone's \<open>drop\<close> (lines 84-101).\<close>

fun is_upload :: "event \<Rightarrow> bool" where
  "is_upload (HandleFiles fl) = True"
| "is_upload (Drop fl) = True"
| "is_upload _ = False"

text \<open>An upload of scenario A's two photographs, processed, then one display frame.\<close>

definition upload_trace :: "event list" where
  "upload_trace =
     [ModelsLoaded,
      HandleFiles [\<lparr>fname = ''a.jpg'', ftype = ''image/jpeg''\<rparr>, \<lparr>fname = ''b.jpg'', ftype = ''image/jpeg''\<rparr>],
      IngestResult 0 True (Some (original scenarioA_item1)) (detections scenarioA_item1),
      IngestResult 0 True (Some (original scenarioA_item2)) (detections scenarioA_item2),
      AnimationFrame 150]"

text \<open>Scenario A's three photographs playing after the models have loaded; the same
  session as the GIF button, the video button and one display frame leave it (the GIF
  encoder running, the recording at its first frame, the paused loop gone); a session
  of one photograph.\<close>

definition playing_host :: host where
  "playing_host = startPlayback (demo_host\<lparr>st := (st demo_host)\<lparr>isModelLoaded := True\<rparr>\<rparr>)"

definition export_clash_host :: host where
  "export_clash_host =
     demo_host\<lparr>st := (st demo_host)\<lparr>isPlaying := False\<rparr>, raf_queue := [], next_raf := 2,
       loops := 1, gif_jobs := [\<lparr>gif_wasPlaying = True, gif_frames = [], gif_width = 1000,
         gif_height = 1000, gif_worker = gif_worker_default\<rparr>],
       mp4_jobs := [\<lparr>mp4_wasPlaying = False, mp4_ext = ''webm'', mp4_next = 1, mp4_rec_start = 0,
                      mp4_recorded = None\<rparr>]\<rparr>"

definition single_host :: host where
  "single_host = init_host\<lparr>st := session_with [scenarioA_item1]\<rparr>"

text \<open>What the model assumes of the host's answers: a decoded image has a positive size
  and face-api's eye clusters are not empty.\<close>

fun wf_event :: "event \<Rightarrow> bool" where
  "wf_event (IngestResult j c (Some img) det) = wf_item \<lparr>original = img, detections = det\<rparr>"
| "wf_event _ = True"

inductive reachable :: "host \<Rightarrow> bool" where
  init: "reachable init_host"
| step: "reachable h \<Longrightarrow> wf_event e \<Longrightarrow> reachable (step e h)"

section \<open>The invariant\<close>

text \<open>A JavaScript number that is a frame index: a natural number, or \<open>NaN\<close>, which
  \<open>(currentFrame + 1) % 0\<close> produces while an upload has emptied \<open>state.images\<close>.\<close>

fun index_or_nan :: "jsnum \<Rightarrow> bool" where
  "index_or_nan (Num x) = (x \<in> \<nat>)"
| "index_or_nan NaN = True"
| "index_or_nan _ = False"

fun finite_num :: "jsnum \<Rightarrow> bool" where
  "finite_num (Num x) = True"
| "finite_num _ = False"

definition st_inv :: "app_state \<Rightarrow> bool" where
  "st_inv s \<longleftrightarrow>
     ctx_clean (ctx s) \<and> wf_session s \<and> finite_num (zoom s) \<and> index_or_nan (currentFrame s)
     \<and> is_int_string (zoomRangeValue s) \<and> slider_zoom (zoomRangeValue s) = zoom s
     \<and> speedValue s = int_to_string (fps s) @ '' fps'' \<and> alignEyesActive s = alignEyes s
     \<and> noAlignActive s = (\<not> alignEyes s) \<and> editorHidden s = (\<not> uploadHidden s)"

text \<open>Every id handed out by \<open>requestAnimationFrame\<close> is below the next one, so a fresh
  request never collides with a queued or stored id.\<close>

definition ids_inv :: "host \<Rightarrow> bool" where
  "ids_inv h \<longleftrightarrow>
     list_all (\<lambda>(i, _). i < next_raf h) (raf_queue h) \<and>
     pred_option (\<lambda>i. i < next_raf h) (animationId (st h))"

definition host_inv :: "host \<Rightarrow> bool" where
  "host_inv h \<longleftrightarrow> st_inv (st h) \<and> ids_inv h"

section \<open>Each handler keeps the invariant\<close>

named_theorems inv_rules "the handlers keep the invariant"

lemma st_inv_renderFrame [inv_rules]: "st_inv s \<Longrightarrow> st_inv (renderFrame i s)"
  using renderFrame_ctm_saved [of i s] by (simp add: st_inv_def ctx_clean_def wf_session_def)

lemma index_or_nan_succ:
  assumes "index_or_nan c"
  shows "index_or_nan (js_mod (js_add c (Num 1)) (js_nat n))"
proof (cases c)
  case (Num x)
  then obtain m where "c = js_nat m" using assms by (auto simp: js_nat_def elim: Nats_cases)
  moreover have "index_or_nan (js_nat k)" for k by (simp add: js_nat_def)
  ultimately show ?thesis by (simp add: js_mod_succ_nat)
qed (use assms in auto)

lemma ids_inv_request [inv_rules]:
  "ids_inv h \<Longrightarrow> ids_inv ((snd (request_frame k h))\<lparr>st := (st h)\<lparr>animationId := Some (next_raf h)\<rparr>\<rparr>)"
  "ids_inv h \<Longrightarrow> ids_inv (snd (request_frame k h))"
  by (cases "animationId (st h)"; auto simp: ids_inv_def request_frame_def list_all_iff)+

lemma ids_inv_cancel [inv_rules]: "ids_inv h \<Longrightarrow> ids_inv (cancel_frame a h)"
  by (auto simp: ids_inv_def cancel_frame_def list_all_iff split: option.splits)

text \<open>A handler that changes only the app state keeps the ids invariant if it keeps the
  stored id.\<close>

lemma ids_inv_st:
  "ids_inv h \<Longrightarrow> animationId s = animationId (st h) \<Longrightarrow> ids_inv (h\<lparr>st := s\<rparr>)"
  by (simp add: ids_inv_def split: option.splits)

lemma host_inv_loop [inv_rules]: "host_inv h \<Longrightarrow> host_inv (loop k t h)"
  by (auto simp: loop_def Let_def host_inv_def request_frame_def ids_inv_def list_all_iff
      st_inv_def ctx_clean_def wf_session_def index_or_nan_succ renderFrame_ctm_saved
      split: option.splits)

lemma host_inv_animation_frame [inv_rules]:
  assumes "host_inv h"
  shows "host_inv (animation_frame t h)"
  unfolding animation_frame_def
proof (rule foldl_invariant [where P = host_inv])
  show "host_inv (h\<lparr>raf_queue := []\<rparr>)"
    using assms by (simp add: host_inv_def ids_inv_def split: option.splits)
next
  fix acc and x :: "nat \<times> nat"
  assume "host_inv acc"
  then show "host_inv ((\<lambda>h' (i, k). loop k t h') acc x)" by (cases x) (simp add: host_inv_loop)
qed

text \<open>A handler that changes only the app state, keeping the stored id, keeps the
  invariant if the new app state satisfies its part.\<close>

lemma host_inv_st:
  "host_inv h \<Longrightarrow> st_inv s \<Longrightarrow> animationId s = animationId (st h) \<Longrightarrow> host_inv (h\<lparr>st := s\<rparr>)"
  by (simp add: host_inv_def ids_inv_st)

lemma host_inv_startPlayback [inv_rules]: "host_inv h \<Longrightarrow> host_inv (startPlayback h)"
  by (auto simp: startPlayback_def Let_def host_inv_def st_inv_def ids_inv_def cancel_frame_def
      request_frame_def list_all_iff ctx_clean_def wf_session_def split: option.splits)

lemma host_inv_resetApp [inv_rules]: "host_inv h \<Longrightarrow> host_inv (resetApp h)"
  by (auto simp: resetApp_def Let_def host_inv_def st_inv_def ids_inv_def cancel_frame_def
      list_all_iff ctx_clean_def wf_session_def split: option.splits)

lemma host_inv_controls [inv_rules]:
  "host_inv h \<Longrightarrow> host_inv (speedInput v h)"
  "host_inv h \<Longrightarrow> host_inv (setAlignMode a h)"
  "host_inv h \<Longrightarrow> host_inv (modelsLoaded h)"
  "host_inv h \<Longrightarrow> host_inv (modelsFailed h)"
  "host_inv h \<Longrightarrow> host_inv (gifWorkerLoaded url h)"
  "host_inv h \<Longrightarrow> host_inv (alert msg h)"
  "host_inv h \<Longrightarrow> host_inv (dragOverZone h)"
  "host_inv h \<Longrightarrow> host_inv (dragLeaveZone h)"
  by (simp_all add: speedInput_def setAlignMode_def modelsLoaded_def modelsFailed_def
      gifWorkerLoaded_def alert_def dragOverZone_def dragLeaveZone_def hideLoading_def showLoading_def Let_def host_inv_def st_inv_def
      ids_inv_def ctx_clean_def wf_session_def)

lemma host_inv_zoomInput [inv_rules]: "host_inv h \<Longrightarrow> host_inv (zoomInput (move_zoom_slider v h))"
proof -
  assume h: "host_inv h"
  let ?s = "(st h)\<lparr>zoomRangeValue := int_to_string v, zoom := Num (of_int v / 100)\<rparr>"
  have "st_inv ?s" using h by (simp add: host_inv_def st_inv_def ctx_clean_def wf_session_def)
  then have "st_inv (if \<not> isPlaying ?s \<and> images ?s \<noteq> [] then renderFrame (currentFrame ?s) ?s else ?s)"
    by (simp add: st_inv_renderFrame)
  with h show ?thesis unfolding zoomInput_move Let_def by (rule host_inv_st) simp
qed

lemma st_inv_autoFitZoom: "st_inv s \<Longrightarrow> st_inv (autoFitZoom s)"
proof (cases "images s = []")
  case True
  then show "st_inv s \<Longrightarrow> st_inv (autoFitZoom s)" by (simp add: autoFitZoom_def)
next
  case False
  assume s: "st_inv s"
  then have "wf_session s" by (simp add: st_inv_def)
  then obtain k :: int where "zoom (autoFitZoom s) = Num (of_int k / 100)"
      "zoomRangeValue (autoFitZoom s) = int_to_string k"
    using False autoFitZoom_hundredths by blast
  then show ?thesis
    using s False autoFitZoom_ctx_clean [of s]
    by (simp add: st_inv_def wf_session_def autoFitZoom_fields)
qed

lemma autoFitZoom_animationId [simp]: "animationId (autoFitZoom s) = animationId s"
  by (simp add: autoFitZoom_def Let_def)

lemma host_inv_autoFitClick [inv_rules]: "host_inv h \<Longrightarrow> host_inv (autoFitClick h)"
  unfolding autoFitClick_def
  by (rule host_inv_st) (simp_all add: host_inv_def st_inv_autoFitZoom)

lemma host_inv_jobs [simp]:
  "host_inv (h\<lparr>ingest_jobs := x\<rparr>) = host_inv h"
  "host_inv (h\<lparr>gif_jobs := y\<rparr>) = host_inv h"
  "host_inv (h\<lparr>mp4_jobs := z\<rparr>) = host_inv h"
  "ids_inv (h\<lparr>ingest_jobs := x\<rparr>) = ids_inv h"
  "ids_inv (h\<lparr>gif_jobs := y\<rparr>) = ids_inv h"
  "ids_inv (h\<lparr>mp4_jobs := z\<rparr>) = ids_inv h"
  by (simp_all add: host_inv_def ids_inv_def)

text \<open>The invariant does not look at the overlay.\<close>

lemma host_inv_erase_overlay:
  assumes "erase_overlay s = erase_overlay s'"
  shows "host_inv (h\<lparr>st := s\<rparr>) = host_inv (h\<lparr>st := s'\<rparr>)"
  using erase_overlay_eqD [OF assms]
  by (simp add: host_inv_def st_inv_def ids_inv_def wf_session_def ctx_clean_def)

lemma host_inv_file_start [simp]: "host_inv (h\<lparr>st := file_start fs r s\<rparr>) = host_inv (h\<lparr>st := s\<rparr>)"
  by (rule host_inv_erase_overlay) simp

lemma host_inv_overlay [simp]:
  "host_inv (h\<lparr>st := hideLoading s\<rparr>) = host_inv (h\<lparr>st := s\<rparr>)"
  "host_inv (h\<lparr>st := showLoading t p s\<rparr>) = host_inv (h\<lparr>st := s\<rparr>)"
  "host_inv (h\<lparr>st := (showLoading t p s)\<lparr>uploadHidden := u, editorHidden := e, images := x\<rparr>\<rparr>) =
     host_inv (h\<lparr>st := s\<lparr>uploadHidden := u, editorHidden := e, images := x\<rparr>\<rparr>)"
  by (rule host_inv_erase_overlay, simp)+

lemma host_inv_handleFiles [inv_rules]: "host_inv h \<Longrightarrow> host_inv (handleFiles fl h)"
proof -
  assume h: "host_inv h"
  then have "host_inv (h\<lparr>st := (st h)\<lparr>uploadHidden := True, editorHidden := False, images := []\<rparr>\<rparr>)"
    by (simp add: host_inv_def st_inv_def ids_inv_def ctx_clean_def wf_session_def)
  then show ?thesis using h by (simp add: handleFiles_def Let_def inv_rules)
qed

lemma host_inv_dropFiles [inv_rules]: "host_inv h \<Longrightarrow> host_inv (dropFiles fl h)"
  unfolding dropFiles_def
  by (intro host_inv_handleFiles) (simp add: host_inv_def st_inv_def ids_inv_def ctx_clean_def wf_session_def)

lemma host_inv_finish_ingest [inv_rules]: "host_inv h \<Longrightarrow> host_inv (finish_ingest h)"
proof (cases "images (st h) = []")
  case True
  then show "host_inv h \<Longrightarrow> host_inv (finish_ingest h)"
    by (simp add: finish_ingest_def inv_rules)
next
  case False
  assume h: "host_inv h"
  let ?i = "original (hd (images (st h)))"
  have "wf_item (hd (images (st h)))"
    using h False by (simp add: host_inv_def st_inv_def wf_session_def)
  then have "st_inv (resize_canvas (img_width ?i) (img_height ?i) (st h))"
    using h by (simp add: host_inv_def st_inv_def wf_session_def wf_item_def resize_canvas_def)
  with h have "host_inv (h\<lparr>st := resize_canvas (img_width ?i) (img_height ?i) (st h)\<rparr>)"
    by (rule host_inv_st) (simp add: resize_canvas_def)
  then show ?thesis using False by (simp add: finish_ingest_def Let_def host_inv_startPlayback)
qed

lemma process_file_wf:
  "process_file f c img det = Some it \<Longrightarrow> wf_event (IngestResult j c img det) \<Longrightarrow> wf_item it"
  by (auto simp: process_file_def split: if_splits option.splits)

lemma host_inv_ingest_result [inv_rules]:
  assumes "host_inv h" and "wf_event (IngestResult j c img det)"
  shows "host_inv (ingest_result j c img det h)"
proof -
  have "host_inv (h\<lparr>st := (st h)\<lparr>images := images (st h) @
          (case process_file f c img det of None \<Rightarrow> [] | Some it \<Rightarrow> [it])\<rparr>\<rparr>)" for f
    using assms(1) process_file_wf [OF _ assms(2)]
    by (intro host_inv_st) (auto simp: host_inv_def st_inv_def wf_session_def ctx_clean_def
        split: option.splits)
  then show ?thesis using assms(1)
    by (auto simp: ingest_result_def Let_def host_inv_finish_ingest split: list.splits)
qed

lemma host_inv_pause [inv_rules]: "host_inv h \<Longrightarrow> host_inv (snd (pause_playback h))"
proof -
  assume h: "host_inv h"
  then have "ids_inv (h\<lparr>st := (st h)\<lparr>isPlaying := False\<rparr>\<rparr>)"
    by (intro ids_inv_st) (simp_all add: host_inv_def)
  with h show ?thesis
    by (simp add: pause_playback_def host_inv_def st_inv_def ctx_clean_def wf_session_def ids_inv_cancel)
qed

lemma host_inv_resume [inv_rules]: "host_inv h \<Longrightarrow> host_inv (resume was h)"
  by (simp add: resume_def host_inv_startPlayback)

text \<open>The frames loop of the GIF export renders on a state that keeps its part of the
  invariant and its stored id.\<close>

lemma st_inv_overlay [simp]:
  "st_inv (showLoading t p s) = st_inv s" "st_inv (hideLoading s) = st_inv s"
  by (simp_all add: st_inv_def ctx_clean_def)

lemma gif_frames_inv:
  assumes "st_inv s"
  shows "st_inv (fst (foldl gif_add_frame (s, fr) xs)) \<and>
         animationId (fst (foldl gif_add_frame (s, fr) xs)) = animationId s"
proof -
  have "(\<lambda>acc. st_inv (fst acc) \<and> animationId (fst acc) = animationId s) (foldl gif_add_frame (s, fr) xs)"
    by (rule foldl_invariant) (auto simp: assms gif_add_frame_def split_beta Let_def st_inv_renderFrame)
  then show ?thesis by simp
qed

lemma host_inv_export_error [inv_rules]: "host_inv h \<Longrightarrow> host_inv (export_error m h)"
  by (simp add: export_error_def Let_def host_inv_def ids_inv_def)

lemma host_inv_exportGif [inv_rules]: "host_inv h \<Longrightarrow> host_inv (exportGif ok h)"
proof -
  assume h: "host_inv h"
  let ?h0 = "h\<lparr>st := showLoading ''Generating GIF...'' (Num 0) (st h)\<rparr>"
  let ?h1 = "snd (pause_playback ?h0)"
  have "host_inv ?h0" using h by simp
  then have h1: "host_inv ?h1" by (rule host_inv_pause)
  then have "st_inv (st ?h1)" by (simp add: host_inv_def)
  then have "host_inv (?h1\<lparr>st := fst (foldl gif_add_frame (st ?h1, []) [0..<length (images (st ?h1))])\<rparr>)"
    using h1 gif_frames_inv by (blast intro: host_inv_st)
  then show ?thesis using h h1
    by (simp add: exportGif_def split_beta host_inv_resume host_inv_export_error Let_def)
qed

lemma host_inv_gif_events [inv_rules]:
  "host_inv h \<Longrightarrow> host_inv (gif_progress j p h)"
  "host_inv h \<Longrightarrow> host_inv (gif_finished j h)"
  by (simp_all add: gif_progress_def gif_finished_def host_inv_resume)

lemma host_inv_mp4_iteration [inv_rules]: "host_inv h \<Longrightarrow> host_inv (mp4_iteration j h)"
  unfolding mp4_iteration_def Let_def
  by (auto simp: host_inv_def intro!: st_inv_renderFrame ids_inv_st)

lemma host_inv_exportMp4 [inv_rules]: "host_inv h \<Longrightarrow> host_inv (exportMp4 ok m h264 h)"
proof -
  assume "host_inv h"
  then have "host_inv (h\<lparr>st := showLoading ''Generating Video...'' (Num (- 1)) (st h)\<rparr>)" by simp
  then show ?thesis
    by (simp add: exportMp4_def split_beta Let_def host_inv_resume host_inv_pause host_inv_mp4_iteration
        host_inv_export_error)
qed

lemma host_inv_mp4_events [inv_rules]:
  "host_inv h \<Longrightarrow> host_inv (mp4_timer j h)"
  "host_inv h \<Longrightarrow> host_inv (mp4_stopped j h)"
  by (simp_all add: mp4_timer_def mp4_stopped_def host_inv_mp4_iteration host_inv_resume)

lemma host_inv_step: "host_inv h \<Longrightarrow> wf_event e \<Longrightarrow> host_inv (step e h)"
  by (cases e) (simp_all add: inv_rules)

lemma initial_slider: "''25'' = int_to_string 25"
  by (simp add: int_to_string_def nat_digits.simps digit_char_def decimal_digits_def)

lemma initial_speed: "''10 fps'' = int_to_string 10 @ '' fps''"
  by (simp add: int_to_string_def nat_digits.simps digit_char_def decimal_digits_def)

lemma host_inv_init: "host_inv init_host"
proof -
  have "is_int_string ''25''" "slider_zoom ''25'' = Num (25 / 100)"
      "''10 fps'' = int_to_string 10 @ '' fps''"
    using is_int_string_int_to_string [of 25] slider_zoom_int_to_string [of 25] initial_speed
    by (simp_all add: initial_slider [symmetric])
  then show ?thesis
    by (simp add: host_inv_def st_inv_def ids_inv_def init_host_def initial_state_def ctx_clean_init
        wf_session_def)
qed

lemma reachable_host_inv: "reachable h \<Longrightarrow> host_inv h"
  by (induction rule: reachable.induct) (simp_all add: host_inv_init host_inv_step)

lemma reachable_run: "reachable h \<Longrightarrow> list_all wf_event es \<Longrightarrow> reachable (run es h)"
  by (induction es arbitrary: h) (simp_all add: run_def reachable.step)

lemma run_Cons [simp]: "run (e # es) h = run es (step e h)"
  by (simp add: run_def)

lemma run_Nil [simp]: "run [] h = h"
  by (simp add: run_def)

section \<open>Before the models load\<close>

text \<open>Without images, auto-fit and the exports return at once.\<close>

lemma no_images_handlers:
  assumes "images (st h) = []"
  shows "autoFitClick h = h" "exportGif ok h = h" "exportMp4 ok m h264 h = h"
  using assms by (simp_all add: autoFitClick_def autoFitZoom_def exportGif_def exportMp4_def)

text \<open>A page whose models have not loaded and that has nothing to show or do.\<close>

lemma step_models_pending:
  assumes "e \<noteq> ModelsLoaded" and "\<not> isModelLoaded (st h)" and "images (st h) = []"
      and "raf_queue h = []" and "ingest_jobs h = []" and "gif_jobs h = []" and "mp4_jobs h = []"
  shows "\<not> isModelLoaded (st (step e h)) \<and> images (st (step e h)) = [] \<and> raf_queue (step e h) = []
         \<and> ingest_jobs (step e h) = [] \<and> gif_jobs (step e h) = [] \<and> mp4_jobs (step e h) = []
         \<and> alerts (step e h) =
              alerts h @ (if is_upload e then [''Models are still loading, please wait...''] else [])"
  using assms
  by (cases e) (simp_all add: no_images_handlers animation_frame_def modelsFailed_def
      gifWorkerLoaded_def handleFiles_def ingest_result_def dragOverZone_def dragLeaveZone_def
      dropFiles_def speedInput_def zoomInput_def
      move_zoom_slider_def setAlignMode_def resetApp_def cancel_frame_def gif_progress_def
      gif_finished_def mp4_timer_def mp4_stopped_def Let_def split: option.splits)

lemma run_models_pending:
  assumes "ModelsLoaded \<notin> set es" and "\<not> isModelLoaded (st h)" and "images (st h) = []"
      and "raf_queue h = []" and "ingest_jobs h = []" and "gif_jobs h = []" and "mp4_jobs h = []"
  shows "images (st (run es h)) = [] \<and> raf_queue (run es h) = [] \<and> ingest_jobs (run es h) = []
         \<and> alerts (run es h) =
              alerts h @ replicate (length (filter is_upload es)) ''Models are still loading, please wait...''"
  using assms
proof (induction es arbitrary: h)
  case Nil
  then show ?case by simp
next
  case (Cons e es)
  have "e \<noteq> ModelsLoaded" using Cons.prems(1) by auto
  note p = step_models_pending [OF this Cons.prems(2-7)]
  have "images (st (run es (step e h))) = [] \<and> raf_queue (run es (step e h)) = []
        \<and> ingest_jobs (run es (step e h)) = []
        \<and> alerts (run es (step e h)) = alerts (step e h) @
             replicate (length (filter is_upload es)) ''Models are still loading, please wait...''"
    using p Cons.prems(1) by (intro Cons.IH) simp_all
  then show ?case using p by (simp add: replicate_append_same [symmetric])
qed

section \<open>Properties of the whole program\<close>

text \<open>
  C20. In every state reachable from the page's initial state by any interleaving of
  events (with decoded images of positive size and non-empty eye clusters): the canvas
  context has the identity matrix and an empty save stack when no handler runs; the
  canvas has a positive size and every image entry is well formed; the zoom is a finite
  number; and \<open>currentFrame\<close> is a natural number or \<open>NaN\<close>.
\<close>

theorem reachable_state_invariant:
  assumes "reachable h"
  shows "ctx_clean (ctx (st h)) \<and> wf_session (st h) \<and> finite_num (zoom (st h))
         \<and> index_or_nan (currentFrame (st h))"
  using reachable_host_inv [OF assms] by (simp add: host_inv_def st_inv_def)

lemma js_mod_zero [simp]: "js_mod x (js_nat 0) = NaN"
  by (cases x) (simp_all add: js_nat_def)

text \<open>
  C30. The zoom slider's value is always well typed: in every reachable state the range
  input holds the decimal string of an integer \<open>k\<close>, never \<open>NaN\<close> or a fraction, and
  \<open>state.zoom\<close> is exactly \<open>k / 100\<close>, so slider and zoom agree.
\<close>

theorem reachable_slider_shows_zoom:
  assumes "reachable h"
  shows "\<exists>k::int. zoomRangeValue (st h) = int_to_string k \<and> zoom (st h) = Num (of_int k / 100)"
proof -
  have s: "is_int_string (zoomRangeValue (st h))"
      "slider_zoom (zoomRangeValue (st h)) = zoom (st h)"
    using reachable_host_inv [OF assms] by (simp_all add: host_inv_def st_inv_def)
  obtain k where "zoomRangeValue (st h) = int_to_string k" "parseInt (zoomRangeValue (st h)) = Num (of_int k)"
    using s(1) by (rule is_int_string_parseInt)
  then show ?thesis using s(2) by auto
qed

text \<open>
  C21. The export of section 5 of the specification is not exclusive: if a GIF export
  that interrupted playback finishes while a video export is recording (the two buttons
  clicked one after the other), its \<open>finished\<close> handler restarts playback, and the next
  due display frame draws a playback frame onto the canvas being recorded, with the
  recording still in progress.
\<close>

theorem gif_finish_plays_into_recording:
  assumes "gif_jobs h = [g]" and "gif_wasPlaying g" and "mp4_jobs h = [m]"
      and "mp4_recorded m = None" and "raf_queue h = []" and "images (st h) \<noteq> []"
      and "0 < fps (st h)" and "1000 / of_int (fps (st h)) < t"
  shows "mp4_jobs (animation_frame t (gif_finished 0 h)) = [m]
         \<and> isPlaying (st (animation_frame t (gif_finished 0 h)))
         \<and> display (ctx (st (animation_frame t (gif_finished 0 h)))) =
              display (ctx (st h)) @ frame_ops (js_nat 0) (st h)"
proof -
  let ?h0 = "h\<lparr>st := hideLoading (st h), gif_jobs := []\<rparr>"
  have g: "gif_finished 0 h = startPlayback ?h0"
    using assms(1,2) by (simp add: gif_finished_def resume_def)
  have q: "raf_queue (startPlayback ?h0) = [(next_raf h, loops h)]"
    using assms(5) by (simp add: startPlayback_def cancel_frame_def request_frame_def Let_def
        split: option.splits)
  have s: "st (startPlayback ?h0) = (hideLoading (st h))\<lparr>isPlaying := True, currentFrame := Num 0\<rparr>"
      "last_time (startPlayback ?h0) (loops h) = 0"
      "mp4_jobs (startPlayback ?h0) = [m]"
    using assms(3) by (simp_all add: startPlayback_def request_frame_def Let_def)
  have "Num 0 = js_nat 0" by (simp add: js_nat_def)
  then show ?thesis using assms(6-8) q s
    by (simp add: g animation_frame_single loop_playing renderFrame_shape)
qed

text \<open>
  C22. Moving the zoom slider while a video is recording draws an extra frame into it:
  the handler re-renders whenever playback is paused, and every export pauses it. On a
  session of one image, a zoom change between the export's first frame and its timer
  leaves a video of two frames, the second at the new zoom.
\<close>

theorem zoomInput_during_recording_adds_frame:
  assumes "images (st h) = [it]" and "mp4_jobs h = []" and "currentFrame (st h) = js_nat 0"
  shows "map mp4_recorded (mp4_jobs (mp4_timer 0 (zoomInput (move_zoom_slider v (exportMp4 True a b h))))) =
           [Some (frame_ops (js_nat 0) (st h) @
                  frame_ops (js_nat 0) ((st h)\<lparr>zoom := Num (of_int v / 100)\<rparr>))]"
proof -
  let ?s0 = "showLoading ''Generating Video...'' (Num (- 1)) (st h)"
  let ?s1 = "?s0\<lparr>isPlaying := False\<rparr>"
  obtain c1 where r1: "renderFrame (js_nat 0) ?s1 = ?s1\<lparr>ctx := c1\<rparr>"
    using renderFrame_ctx_only by blast
  have "c1 = ctx (renderFrame (js_nat 0) ?s1)" using r1 by simp
  then have d1: "display c1 = display (ctx (st h)) @ frame_ops (js_nat 0) (st h)" "ctm c1 = ctm (ctx (st h))"
    by (simp_all add: renderFrame_display renderFrame_ctm_saved)
  let ?z = "Num (of_int v / 100)"
  let ?s2 = "?s1\<lparr>ctx := c1, zoomRangeValue := int_to_string v, zoom := ?z\<rparr>"
  have eq: "?s2 = ?s0\<lparr>zoom := ?z, isPlaying := False, ctx := c1\<rparr>\<lparr>zoomRangeValue := int_to_string v\<rparr>"
    by (cases ?s0) simp
  have f0: "frame_ops (js_nat 0) (?s0\<lparr>zoom := ?z\<rparr>) = frame_ops (js_nat 0) ((st h)\<lparr>zoom := ?z\<rparr>)"
    by (rule frame_ops_erase_overlay) simp
  have f2: "frame_ops (js_nat 0) ?s2 = frame_ops (js_nat 0) ((st h)\<lparr>zoom := ?z\<rparr>)"
    unfolding eq using frame_ops_ctx [of c1 "?s0\<lparr>zoom := ?z, isPlaying := False\<rparr>" "js_nat 0"] d1(2) f0
    by (simp add: frame_ops_isPlaying)
  have d2: "display (ctx (renderFrame (js_nat 0) ?s2)) = display c1 @ frame_ops (js_nat 0) ?s2"
    by (simp add: renderFrame_display)
  let ?job = "\<lparr>mp4_wasPlaying = isPlaying (st h), mp4_ext = snd (mp4_format a b), mp4_next = 0,
               mp4_rec_start = length (display (ctx (st h))), mp4_recorded = None\<rparr>"
  let ?H1 = "(snd (pause_playback (h\<lparr>st := ?s0\<rparr>)))\<lparr>mp4_jobs := [?job]\<rparr>"
  let ?H2 = "?H1\<lparr>st := ?s1\<lparr>ctx := c1\<rparr>, mp4_jobs := [?job\<lparr>mp4_next := 1\<rparr>]\<rparr>"
  have e: "exportMp4 True a b h = mp4_iteration 0 ?H1"
    using assms(1,2) by (simp add: exportMp4_def Let_def split_def)
  have i: "mp4_iteration 0 ?H1 = ?H2"
    using assms(1) r1 by (simp add: mp4_iteration_def Let_def)
  have z: "zoomInput (move_zoom_slider v (exportMp4 True a b h)) = ?H2\<lparr>st := renderFrame (js_nat 0) ?s2\<rparr>"
    unfolding e i zoomInput_move using assms(1,3) by (simp add: Let_def)
  show ?thesis
    unfolding z using assms(1) d1 f2 d2 by (simp add: mp4_timer_def mp4_iteration_def Let_def)
qed

text \<open>
  C23. An upload started during playback empties \<open>state.images\<close> while the loop keeps
  running: at the next due display frame the render returns early and the index becomes
  \<open>(currentFrame + 1) % 0\<close>, that is \<open>NaN\<close>, which it stays until the upload finishes and
  \<open>startPlayback\<close> sets it to 0. Nothing is drawn meanwhile.
\<close>

theorem upload_during_playback_index_nan:
  assumes "raf_queue h = [(i, k)]" and "isPlaying (st h)" and "isModelLoaded (st h)"
      and "filter accepted fl \<noteq> []" and "0 < fps (st h)"
      and "1000 / of_int (fps (st h)) < t - last_time h k"
  shows "currentFrame (st (animation_frame t (handleFiles fl h))) = NaN
         \<and> display (ctx (st (animation_frame t (handleFiles fl h)))) = display (ctx (st h))
         \<and> raf_queue (animation_frame t (handleFiles fl h)) = [(next_raf h, k)]"
proof -
  have "js_index [] (currentFrame (st h)) = (None :: item option)"
    by (cases "currentFrame (st h)") simp_all
  then show ?thesis using assms
    by (simp add: handleFiles_ready animation_frame_single loop_playing renderFrame_out_of_range)
qed

text \<open>
  C32. Nothing is ingested before the face models have loaded: from the page \<open>init()\<close>
  sets up, any sequence of events without the models' success (the loading may fail, the
  worker may arrive, any control may be used) leaves \<open>state.images\<close> empty, no upload
  pending and no playback loop queued, and every upload attempt is answered by the alert
  "Models are still loading, please wait..." and nothing else.
\<close>

theorem no_upload_before_models:
  assumes "ModelsLoaded \<notin> set es"
  shows "images (st (run es init_host)) = [] \<and> ingest_jobs (run es init_host) = []
         \<and> raf_queue (run es init_host) = []
         \<and> alerts (run es init_host) =
              replicate (length (filter is_upload es)) ''Models are still loading, please wait...''"
  using run_models_pending [OF assms] by (simp add: init_host_def initial_state_def)

text \<open>
  C34. The page's controls always show the state: in every reachable state the speed
  label reads \<open>`${state.fps} fps`\<close>, exactly one alignment button is \<open>active\<close> and it is
  the one for \<open>state.alignEyes\<close>, and exactly one of the upload screen and the editor is
  shown.
\<close>

theorem reachable_controls_show_state:
  assumes "reachable h"
  shows "speedValue (st h) = int_to_string (fps (st h)) @ '' fps''
         \<and> alignEyesActive (st h) = alignEyes (st h) \<and> noAlignActive (st h) = (\<not> alignEyes (st h))
         \<and> editorHidden (st h) = (\<not> uploadHidden (st h))"
  using reachable_host_inv [OF assms] by (simp add: host_inv_def st_inv_def)

section \<open>Witnesses\<close>

theorem reachable_state_invariant_witness:
  "ctx_clean (ctx (st (run upload_trace init_host))) \<and> wf_session (st (run upload_trace init_host))"
proof -
  have "list_all wf_event upload_trace"
    by (simp add: upload_trace_def scenario_defs wf_item_def)
  then have "reachable (run upload_trace init_host)" by (rule reachable_run [OF reachable.init])
  then show ?thesis using reachable_state_invariant by blast
qed

lemma export_clash_host_facts:
  "gif_jobs export_clash_host = [hd (gif_jobs export_clash_host)]"
  "gif_wasPlaying (hd (gif_jobs export_clash_host))"
  "mp4_jobs export_clash_host = [hd (mp4_jobs export_clash_host)]"
  "mp4_recorded (hd (mp4_jobs export_clash_host)) = None"
  "raf_queue export_clash_host = []"
  "images (st export_clash_host) \<noteq> []" "fps (st export_clash_host) = 10"
  by (simp_all add: export_clash_host_def demo_host_defs)

theorem gif_finish_plays_into_recording_witness:
  "isPlaying (st (animation_frame 200 (gif_finished 0 export_clash_host)))
   \<and> map mp4_recorded (mp4_jobs (animation_frame 200 (gif_finished 0 export_clash_host))) = [None]"
  using gif_finish_plays_into_recording [OF export_clash_host_facts(1-6), where t = 200]
    export_clash_host_facts(4,7)
  by simp

theorem zoomInput_during_recording_adds_frame_witness:
  "map mp4_recorded (mp4_jobs (mp4_timer 0 (zoomInput (move_zoom_slider 50 (exportMp4 True True False single_host))))) =
     [Some (frame_ops (js_nat 0) (session_with [scenarioA_item1]) @
            frame_ops (js_nat 0) ((session_with [scenarioA_item1])\<lparr>zoom := Num (1 / 2)\<rparr>))]"
  using zoomInput_during_recording_adds_frame [of single_host scenarioA_item1 50 True False]
  by (simp add: single_host_def init_host_def session_with_def initial_state_def js_nat_def)

theorem upload_during_playback_index_nan_witness:
  "currentFrame (st (animation_frame 200
      (handleFiles [\<lparr>fname = ''c.png'', ftype = ''image/png''\<rparr>] playing_host))) = NaN"
  using upload_during_playback_index_nan
    [of playing_host 1 0 "[\<lparr>fname = ''c.png'', ftype = ''image/png''\<rparr>]" 200]
  by (simp add: playing_host_def demo_host_defs startPlayback_def cancel_frame_def request_frame_def
      filter_eval Let_def)

theorem reachable_slider_shows_zoom_witness:
  "\<exists>k::int. zoomRangeValue (st (run upload_trace init_host)) = int_to_string k
     \<and> zoom (st (run upload_trace init_host)) = Num (of_int k / 100)"
proof -
  have "reachable (run upload_trace init_host)"
    by (rule reachable_run [OF reachable.init]) (simp add: upload_trace_def scenario_defs wf_item_def)
  then show ?thesis by (rule reachable_slider_shows_zoom)
qed

theorem no_upload_before_models_witness:
  "alerts (run [ModelsFailed, HandleFiles [\<lparr>fname = ''a.jpg'', ftype = ''image/jpeg''\<rparr>], AutoFitClick,
               HandleFiles []] init_host) =
     [''Models are still loading, please wait...'', ''Models are still loading, please wait...'']"
  using no_upload_before_models [of "[ModelsFailed, HandleFiles [\<lparr>fname = ''a.jpg'', ftype = ''image/jpeg''\<rparr>],
      AutoFitClick, HandleFiles []]"]
  by (simp add: numeral_2_eq_2)

theorem reachable_controls_show_state_witness:
  "speedValue (st (run [ModelsLoaded, SpeedInput 24, NoAlignClick, DragOver] init_host)) = int_to_string 24 @ '' fps''
   \<and> noAlignActive (st (run [ModelsLoaded, SpeedInput 24, NoAlignClick, DragOver] init_host))"
proof -
  have "reachable (run [ModelsLoaded, SpeedInput 24, NoAlignClick, DragOver] init_host)"
    by (rule reachable_run [OF reachable.init]) simp
  then show ?thesis
    using reachable_controls_show_state
    by (simp add: modelsLoaded_def speedInput_def setAlignMode_def dragOverZone_def)
qed

end
