(* ===== verification/Spec2Isabelle.thy ===== *)
theory Spec2Isabelle
  imports Events
begin

text \<open>
  \<^bold>\<open>A verification development for Face Time-Lapse (src/script.js).\<close>

  \<^bold>\<open>The program.\<close> One browser script aligns a sequence of face photographs into a
  time-lapse. Its parts: ingestion (\<open>handleFiles\<close>, \<open>loadImage\<close>, \<open>detectFace\<close>) fills
  \<open>state.images\<close> with decoded images and face-api detections; the frame transform
  builder (\<open>renderFrame\<close>) draws one frame, either through an eye-aligning affine
  transform or letterboxed; the auto-fit solver (\<open>autoFitZoom\<close>) picks the largest zoom
  at which no aligned frame is cut off; the playback sequencer (\<open>startPlayback\<close> and its
  \<open>requestAnimationFrame\<close> loop) advances the current frame; the UI handlers (speed,
  zoom, alignment, reset) and the exporters (\<open>exportGif\<close>, \<open>exportMp4\<close>) change the
  shared \<open>state\<close> object and call \<open>renderFrame\<close>. Landmark geometry (\<open>getCentroid\<close>
  and the eye centres, midpoint, angle and distance computed inline) feeds both the
  renderer and the solver.

  \<^bold>\<open>The theories.\<close>
  \<^item> \<open>Prelude\<close>: points (\<open>{x, y}\<close> objects as the record \<open>point\<close>), the rule collections
    \<open>geom_simps\<close>, \<open>js_simps\<close>, \<open>ctx_simps\<close>, and lemmas on square roots, \<open>Arg\<close>
    (\<open>Math.atan2\<close>), rotations and folds.
  \<^item> \<open>Js_Number\<close>: JavaScript numbers as \<open>jsnum\<close> (a real, \<open>PosInf\<close>, \<open>NegInf\<close>,
    \<open>NaN\<close>) with \<open>*\<close>, \<open>/\<close>, \<open>%\<close>, \<open><\<close>, \<open>Math.min/max/floor/round\<close> and array
    indexing by a number, following ECMA-262.
  \<^item> \<open>Js_String\<close>: Number::toString of integers (\<open>int_to_string\<close>) and ECMA
    \<open>parseInt\<close> (white space, sign, \<open>0x\<close> prefix, longest digit prefix, \<open>NaN\<close>), with
    the lemma that \<open>parseInt\<close> reads back every printed integer.
  \<^item> \<open>Canvas\<close>: the host's 2D context (HTML standard): current matrix, fill style,
    save stack, and the list of issued drawing operations; a transform call with a
    non-finite argument is ignored.
  \<^item> \<open>App_State\<close>: the \<open>state\<close> object (lines 6-18) as the record \<open>app_state\<close>, with
    the DOM the code writes: the zoom slider's string, the loading overlay, the upload and
    editor sections, the drop zone's drag-over class, the speed label, the alignment
    buttons' classes and the file input's value;
    the image entries and detections; the overlay functions \<open>showLoading\<close> and
    \<open>hideLoading\<close> (lines 445-459); the slider conversions \<open>slider_value\<close> (line 428)
    and \<open>slider_zoom\<close> (line 110); the well-formedness of what the host supplies.
  \<^item> \<open>Geometry\<close>: \<open>getCentroid\<close> (lines 317-320), the eye geometry of lines 261-284 and
    347-361 (\<open>eye_geometry\<close>), the corner rotation of lines 383-394 (\<open>corner_rot\<close>).
  \<^item> \<open>Render\<close>: \<open>renderFrame\<close> (lines 249-315) with its branches \<open>draw_aligned\<close> and
    \<open>draw_letterbox\<close>, every canvas call in the source's order.
  \<^item> \<open>AutoFit\<close>: \<open>autoFitZoom\<close> (lines 322-434) split as the code is: \<open>corners\<close>,
    \<open>axis_bound\<close>, \<open>corner_bound\<close>, \<open>maxScaleForImage\<close>, \<open>safeZoom\<close>, \<open>fit_step\<close>,
    \<open>minSafeZoom\<close>, \<open>clampedZoom\<close>.
  \<^item> \<open>Scenarios\<close>: the specification's scenarios as concrete sessions for the witnesses.
  \<^item> \<open>Session\<close>: the host around the script: the app state, the queue of
    \<open>requestAnimationFrame\<close> callbacks with their ids, the \<open>lastTime\<close> of every
    \<open>loop\<close> closure, and the pending asynchronous jobs (\<open>host\<close>); \<open>startPlayback\<close> and
    \<open>loop\<close> (lines 226-247), one display frame (\<open>animation_frame\<close>), \<open>resetApp\<close>, the
    slider and button handlers of \<open>setupEventListeners\<close> (the user moving the zoom
    slider is \<open>move_zoom_slider\<close>), \<open>window.alert\<close> as a log of messages, and the page
    after \<open>init()\<close> set up the canvas and showed the loading text (\<open>init_host\<close>).
  \<^item> \<open>Ingestion\<close>: the outcomes of \<open>init()\<close>'s model loading (\<open>modelsLoaded\<close>,
    \<open>modelsFailed\<close>) and worker preload (\<open>gifWorkerLoaded\<close>); the drop zone's listeners
    (\<open>dragOverZone\<close>, \<open>dragLeaveZone\<close>, \<open>dropFiles\<close>); \<open>handleFiles\<close> (lines 140-209):
    the guard and its alert, the switch to the editor section, the file filter, the per-file try block
    (\<open>process_file\<close>), the progress overlay of each iteration (\<open>file_start\<close>), the
    pending loop as a job holding the closure's \<open>files\<close> and the files left
    (\<open>ingest_result\<close>, one step per file) and the end (\<open>finish_ingest\<close>: canvas sizing,
    which resets the context, \<open>hideLoading\<close> and \<open>startPlayback\<close>, or the alert and
    \<open>resetApp\<close>).
  \<^item> \<open>Export\<close>: \<open>exportGif\<close> (lines 462-510) and \<open>exportMp4\<close> (lines 512-574): pausing,
    the GIF frames loop with its progress text and its pending encoder (frames, size and
    \<open>workerScript\<close>), the encoder's \<open>progress\<close> and \<open>finished\<close> handlers, the recording
    loop one timer at a time, what the recorder captures, \<open>onstop\<close>, and the \<open>catch\<close>
    blocks (\<open>export_error\<close>: alert, \<open>hideLoading\<close>, then the restart of playback).
  \<^item> \<open>Events\<close>: every entry point as an \<open>event\<close>, the dispatch \<open>step\<close>, runs, the
    inductive set of reachable states and the invariant \<open>host_inv\<close> every handler keeps.
  \<^item> this theory: the properties that span components.

  \<^bold>\<open>How the parts interact in the model.\<close> A host state holds the app state and
  what the browser holds for the script: queued frame callbacks, timers and promises of
  the exports, the remaining files of an upload. Every handler is a function on host
  states; an asynchronous function is split at its \<open>await\<close>s into a first step and the
  steps its continuations run, so that any other event can come in between, as in the
  browser. The outcomes the host decides (decoding, detection, HEIC conversion, encoder
  construction) are parameters of the events.

  \<^bold>\<open>What is proved.\<close> C1-C6 (\<open>Render\<close>): the aligned render puts the eyes' midpoint on
  \<open>(0.5 W, 0.4 H)\<close> and the eyes level and \<open>W * zoom\<close> apart; coincident eye centroids
  make \<open>ctx.scale\<close> receive a non-finite value that the canvas ignores, so the image is
  drawn unscaled rather than letterboxed; level eyes give a matrix without rotation; a
  render never leaks a transform into the next; the letterbox fits, is centred and keeps
  the aspect ratio. C7-C10 (\<open>AutoFit\<close>): the per-image bound is finite, positive and
  exactly the largest scale keeping all four corners inside; the stored zoom is
  \<open>k/100\<close> with \<open>10 \<le> k \<le> 95\<close>; one frame with coincident eye centroids forces 0.1; the
  safe zoom grows with the eye distance (against the specification's monotonicity
  claim). C11 (here): after auto-fit, if the zoom is above 0.1, every aligned frame is
  drawn with all four corners inside the canvas. C12-C16 (\<open>Session\<close>): a due tick
  renders the current frame and advances the index modulo the image count; before the
  interval (strict \<open>>\<close>) it only re-queues; two \<open>startPlayback\<close> calls before a display
  frame leave two loops that advance the index by two per frame (the first id is never
  stored); \<open>resetApp\<close> stops every loop; after a speed change a frame advances the index
  by at most one. C17 (\<open>Ingestion\<close>): an upload run without interference computes the
  skip-and-continue pipeline of the specification (\<open>ingested\<close>) and sizes the canvas
  from the first image. C18-C19 (\<open>Export\<close>): the GIF receives frames \<open>0..n-1\<close> in order
  with delay \<open>1000/fps\<close> and playback is stopped; an uninterrupted video records exactly
  those frames and \<open>onstop\<close> restarts playback when it was on. C20-C23 (\<open>Events\<close>):
  every reachable state has a clean context, a positive canvas, well-formed entries, a
  finite zoom and an index that is a natural number or \<open>NaN\<close>; but the exports do not
  exclude each other or the UI: a GIF finishing during a recording restarts playback
  into it, the zoom slider adds a frame to a recording, and an upload during playback
  drives the index to \<open>NaN\<close>. C24 (here): in every reachable state a due playback frame of
  an aligned photograph puts its eyes on the target, level and \<open>W * zoom\<close> apart. C25
  (\<open>Render\<close>): rendering the same frame twice issues the same operations. C26
  (\<open>Export\<close>): every recording stops after \<open>n - i + 1\<close> timer firings. C27
  (\<open>Session\<close>): due display frames show the photographs in cyclic order from the current
  index. C28 (\<open>AutoFit\<close>): Scenario B, frames that all fit at zoom 1 give 0.95; with no
  detected frame at all the hypothesis holds trivially, so the zoom becomes 0.95 too.
  C29 (\<open>App_State\<close>): the slider's write (\<open>Math.round(zoom * 100)\<close>, printed) and read
  (\<open>parseInt(value) / 100\<close>) give back any zoom to within half a hundredth. C30
  (\<open>Events\<close>): in every reachable state the slider holds the decimal string of an
  integer \<open>k\<close> and the zoom is \<open>k/100\<close>. C31 (\<open>Ingestion\<close>): an upload hides the overlay
  when some file went through; when all fail it alerts and resets but leaves the overlay
  shown. C32 (\<open>Events\<close>): before the models load nothing is ingested, and each upload
  attempt only raises the alert. C33 (\<open>Ingestion\<close>): during an upload the overlay shows
  "Processing image k+1 of n..." (or the HEIC text) and a bar at
  \<open>Math.round(k / n * 100)%\<close>. C34 (\<open>Events\<close>): in every reachable state the speed
  label, the active alignment button and the shown section match the state. C35
  (\<open>Ingestion\<close>): a reset during an upload does not cancel it; the files' entries come
  back and playback runs behind the upload screen.

  \<^bold>\<open>Modelling choices.\<close> Finite JavaScript numbers are reals: IEEE rounding is not
  modelled, so equalities such as "the eyes land exactly on the target" hold of the
  exact arithmetic the code approximates. The infinities and \<open>NaN\<close> are modelled where
  the code produces them. \<open>Math.atan2(y, x)\<close> is \<open>Arg (Complex x y)\<close>, and cosine and
  sine are HOL's; these are not executable, so the witnesses evaluate them by rewriting
  (\<open>Arg\<close> of a positive real is 0). Image sizes and canvas sizes are naturals; the
  well-formedness \<open>wf_item\<close> (positive size, non-empty eye clusters, as face-api's 68-point
  model and a decoded image guarantee) is a hypothesis where it matters, and
  \<open>wf_event\<close> makes it an assumption on the host's answers for the reachable states.
  \<open>toLowerCase\<close> is modelled on ASCII letters, which is exact for the extension test.
  Strings are byte strings; Number::toString is modelled on integers, the only numbers
  the code prints (the slider value and the progress percentages are results of
  \<open>Math.round\<close>). The overlay is four fields of the state; \<open>erase_overlay\<close> states that
  two states agree apart from it, which is how the lemmas about uploads and exports
  abstract from the progress texts.
  No fuel or bound is needed: every loop of the code is a fold over a finite list or a
  sequence of events, and the playback loop and the recording loop are driven by host
  events, one step each.

  \<^bold>\<open>Not modelled.\<close> The network I/O of \<open>init\<close> (the models' download and the worker
  fetch: their outcomes are the events \<open>ModelsLoaded\<close>, \<open>ModelsFailed\<close> and
  \<open>GifWorkerLoaded\<close>, and the model does not force the worker to arrive after the
  models), the host filling the file input when the user picks files, the CSS and
  markup of the page (the DOM fields start as the markup must set them), the face
  detector, the image decoder and the HEIC converter
  (external; their results are event parameters), the GIF and video encoders and the
  download (external libraries; the model keeps what they are given, and the encoder's
  progress fraction is an event parameter), \<open>console\<close> logging. The time at which timers and encoders fire is not modelled:
  any order of events is allowed, which over-approximates the browser for the
  invariant and contains the traces of the interleaving results.
\<close>

section \<open>Auto-fit and rendering together\<close>

text \<open>The auto-fit zoom, when the clamp to the slider minimum did not engage, lies below
  every detected frame's safe zoom.\<close>

lemma autoFit_zoom_below_safeZoom:
  assumes "wf_session s" and "it \<in> set (images s)" and "detections it = Some d"
      and "zoom (autoFitZoom s) = Num z" and "1 / 10 < z"
  shows "0 \<le> z \<and> js_le_num z (safeZoom (real (canvas_width s)) (real (canvas_height s))
                                      (eye_geometry d) (original it))"
proof -
  have ne: "images s \<noteq> []" using assms(2) by auto
  obtain m where m: "minSafeZoom (real (canvas_width s)) (real (canvas_height s)) (images s) = Num m"
      and m0: "0 \<le> m"
      and zm: "zoom (autoFitZoom s) = Num (max (1 / 10) (of_int \<lfloor>95 * m\<rfloor> / 100))"
    using autoFitZoom_value [OF assms(1) ne] by blast
  from zm assms(4,5) have z: "z = of_int \<lfloor>95 * m\<rfloor> / 100" by (auto simp: max_def split: if_splits)
  have "of_int \<lfloor>95 * m\<rfloor> \<le> 95 * m" by simp
  then have "z \<le> m" using z m0 by linarith
  then have "js_le_num z (minSafeZoom (real (canvas_width s)) (real (canvas_height s)) (images s))"
    using m by simp
  then show ?thesis using minSafeZoom_le assms(2,3,5) by fastforce
qed

text \<open>
  C11. The auto-fit solver and the renderer agree: after \<open>autoFitZoom\<close> on a
  well-formed session, if the stored zoom is above the slider minimum 0.1 (so the clamp
  did not raise it), then rendering any frame with a detected face and distinct eye
  centroids, with alignment on, draws the image through a matrix that maps all four of
  its corners inside the canvas: no part of any aligned frame is cut off.
\<close>

theorem autoFit_then_render_keeps_corners_inside:
  assumes "wf_session s" and "ctx_clean (ctx s)" and "alignEyes s"
      and "js_index (images s) i = Some it" and "detections it = Some d"
      and "currentEyesDist (eye_geometry d) \<noteq> 0"
      and "zoom (autoFitZoom s) = Num z" and "1 / 10 < z"
  shows "\<exists>M. display (ctx (renderFrame i (autoFitZoom s))) = display (ctx (autoFitZoom s)) @
           [FillRect affine_id ''#000'' 0 0 (real (canvas_width s)) (real (canvas_height s)),
            DrawImage M (original it) 0 0 (real (img_width (original it))) (real (img_height (original it)))]
         \<and> (\<forall>p\<in>set (corners (original it)).
              in_canvas (real (canvas_width s)) (real (canvas_height s)) (apply_affine M p))"
proof -
  let ?W = "real (canvas_width s)" and ?H = "real (canvas_height s)" and ?g = "eye_geometry d"
  have it: "it \<in> set (images s)" using js_index_Some [OF assms(4)] by auto
  have ne: "images s \<noteq> []" using it by auto
  have pos: "0 < ?W" "0 < ?H" "0 < img_width (original it)"
    using assms(1) it by (auto simp: wf_session_def wf_item_def)
  have d: "0 < currentEyesDist ?g" using assms(6) dist_pos_iff [of ?g] by simp
  from autoFit_zoom_below_safeZoom [OF assms(1) it assms(5,7,8)]
  have z0: "0 \<le> z" and le: "js_le_num z (safeZoom ?W ?H ?g (original it))" by auto
  have inside: "\<forall>p\<in>set (corners (original it)). in_canvas ?W ?H (landed ?W ?H ?g (?W * z / currentEyesDist ?g) p)"
    using le safeZoom_fits [OF pos d z0] by simp
  have scale: "align_scale ?W (Num z) ?g = Num (?W * z / currentEyesDist ?g)"
    using align_scale_finite [OF refl assms(6)] .
  have "display (ctx (renderFrame i (autoFitZoom s))) = display (ctx (autoFitZoom s)) @
           [FillRect affine_id ''#000'' 0 0 ?W ?H,
            DrawImage (aligned_matrix affine_id ?W ?H (Num z) ?g) (original it) 0 0
              (real (img_width (original it))) (real (img_height (original it)))]"
    using renderFrame_clean_aligned [of "autoFitZoom s" i it d] assms(2-5,7) autoFitZoom_ctx_clean
      autoFitZoom_fields [OF ne] by simp
  moreover have "\<forall>p\<in>set (corners (original it)).
      in_canvas ?W ?H (apply_affine (aligned_matrix affine_id ?W ?H (Num z) ?g) p)"
    using inside aligned_matrix_apply [OF scale] by (simp add: landed_def)
  ultimately show ?thesis by blast
qed

text \<open>
  C24. The invariant of \<open>Events\<close> discharges the renderer's preconditions during
  playback: in every reachable state, when the one queued loop is due and the index
  points at a photograph with a detected face and distinct eye centroids, alignment
  being on, the display frame draws that photograph through a matrix that puts the
  eyes' midpoint on the target \<open>(0.5 W, 0.4 H)\<close> and the two eye centroids on that
  line, \<open>W * zoom\<close> apart, for the finite zoom the state holds.
\<close>

theorem reachable_playback_frame_aligns_eyes:
  assumes "reachable h" and "raf_queue h = [(i, k)]" and "isPlaying (st h)" and "0 < fps (st h)"
      and "1000 / of_int (fps (st h)) < t - last_time h k"
      and "currentFrame (st h) = js_nat c" and "c < length (images (st h))"
      and "alignEyes (st h)" and "detections (images (st h) ! c) = Some d"
      and "currentEyesDist (eye_geometry d) \<noteq> 0"
  shows "\<exists>M z. zoom (st h) = Num z
     \<and> display (ctx (st (animation_frame t h))) = display (ctx (st h)) @
         [FillRect affine_id ''#000'' 0 0 (real (canvas_width (st h))) (real (canvas_height (st h))),
          DrawImage M (original (images (st h) ! c)) 0 0
            (real (img_width (original (images (st h) ! c)))) (real (img_height (original (images (st h) ! c))))]
     \<and> apply_affine M (eyesCenter (eye_geometry d)) =
         Pt (real (canvas_width (st h)) * 0.5) (real (canvas_height (st h)) * 0.4)
     \<and> apply_affine M (rightEyeCenter (eye_geometry d)) =
         Pt (real (canvas_width (st h)) * 0.5 + real (canvas_width (st h)) * z / 2) (real (canvas_height (st h)) * 0.4)
     \<and> apply_affine M (leftEyeCenter (eye_geometry d)) =
         Pt (real (canvas_width (st h)) * 0.5 - real (canvas_width (st h)) * z / 2) (real (canvas_height (st h)) * 0.4)"
proof -
  let ?W = "real (canvas_width (st h))" and ?H = "real (canvas_height (st h))" and ?g = "eye_geometry d"
  have inv: "ctx_clean (ctx (st h))" "finite_num (zoom (st h))"
    using reachable_host_inv [OF assms(1)] by (simp_all add: host_inv_def st_inv_def)
  then obtain z where z: "zoom (st h) = Num z" by (cases "zoom (st h)") simp_all
  have "display (ctx (st (animation_frame t h))) = display (ctx (renderFrame (js_nat c) (st h)))"
    using assms(2-6) by (simp add: animation_frame_single loop_playing)
  also have "\<dots> = display (ctx (st h)) @
      [FillRect affine_id ''#000'' 0 0 ?W ?H,
       DrawImage (aligned_matrix affine_id ?W ?H (Num z) ?g) (original (images (st h) ! c)) 0 0
         (real (img_width (original (images (st h) ! c)))) (real (img_height (original (images (st h) ! c))))]"
    using renderFrame_clean_aligned [of "st h" "js_nat c" "images (st h) ! c" d] assms(7-9) inv(1) z
    by simp
  finally show ?thesis
    using z aligned_matrix_center aligned_matrix_eyes [OF consistent_eye_geometry assms(10)] by blast
qed

section \<open>Witnesses\<close>

theorem autoFit_then_render_keeps_corners_inside_witness:
  "\<exists>M. display (ctx (renderFrame (js_nat 0) (autoFitZoom scenarioA_state))) =
        display (ctx (autoFitZoom scenarioA_state)) @
        [FillRect affine_id ''#000'' 0 0 1000 1000, DrawImage M (original scenarioA_item1) 0 0 1000 1000]
      \<and> in_canvas 1000 1000 (apply_affine M (Pt 0 0))
      \<and> in_canvas 1000 1000 (apply_affine M (Pt 1000 0))
      \<and> in_canvas 1000 1000 (apply_affine M (Pt 1000 1000))
      \<and> in_canvas 1000 1000 (apply_affine M (Pt 0 1000))"
proof -
  have "wf_session scenarioA_state"
    by (simp add: scenarioA_state_def session_with_wf scenario_items_wf)
  moreover have "ctx_clean (ctx scenarioA_state)" by (simp add: scenarioA_state_def)
  moreover have "currentEyesDist (eye_geometry (the (detections scenarioA_item1))) \<noteq> 0"
    by (simp add: scenario_defs scenario_geometry)
  ultimately obtain M where
      "display (ctx (renderFrame (js_nat 0) (autoFitZoom scenarioA_state))) =
        display (ctx (autoFitZoom scenarioA_state)) @
        [FillRect affine_id ''#000'' 0 0 1000 1000, DrawImage M (original scenarioA_item1) 0 0 1000 1000]"
      and "\<forall>p\<in>set (corners (original scenarioA_item1)). in_canvas 1000 1000 (apply_affine M p)"
    using autoFit_then_render_keeps_corners_inside
      [of scenarioA_state "js_nat 0" scenarioA_item1 "the (detections scenarioA_item1)" "15 / 100"]
      scenarioA_autofit_zoom
    by (auto simp: scenario_defs)
  then show ?thesis by (auto simp: corners_def scenario_defs)
qed

lemma upload_trace_facts:
  "raf_queue (run upload_trace init_host) = [(2, 0)]"
  "isPlaying (st (run upload_trace init_host))"
  "fps (st (run upload_trace init_host)) = 10"
  "last_time (run upload_trace init_host) 0 = 150"
  "currentFrame (st (run upload_trace init_host)) = js_nat 1"
  "images (st (run upload_trace init_host)) = [scenarioA_item1, scenarioA_item2]"
  "alignEyes (st (run upload_trace init_host))"
  "canvas_width (st (run upload_trace init_host)) = 1000"
  "canvas_height (st (run upload_trace init_host)) = 1000"
  by (simp_all add: upload_trace_def modelsLoaded_def handleFiles_def filter_eval Let_def init_host_def
      initial_state_def ingest_result_def process_file_def finish_ingest_def resize_canvas_def
      startPlayback_def cancel_frame_def request_frame_def animation_frame_def loop_def scenario_defs
      js_nat_def js_trunc_def)

theorem reachable_playback_frame_aligns_eyes_witness:
  "\<exists>M. display (ctx (st (animation_frame 300 (run upload_trace init_host)))) =
         display (ctx (st (run upload_trace init_host))) @
         [FillRect affine_id ''#000'' 0 0 1000 1000, DrawImage M (original scenarioA_item2) 0 0 1000 1000]
       \<and> apply_affine M (Pt 400 500) = Pt 500 400"
proof -
  have r: "reachable (run upload_trace init_host)"
    by (rule reachable_run [OF reachable.init]) (simp add: upload_trace_def scenario_defs wf_item_def)
  have d: "detections (images (st (run upload_trace init_host)) ! 1) =
             Some \<lparr>left_eye = [Pt 300 500], right_eye = [Pt 500 500]\<rparr>"
    by (simp add: upload_trace_facts scenario_defs)
  show ?thesis
    using reachable_playback_frame_aligns_eyes [OF r upload_trace_facts(1,2), of 300 1, OF _ _
        upload_trace_facts(5) _ upload_trace_facts(7) d]
    by (simp add: upload_trace_facts scenario_geometry scenario_defs) blast
qed

end
